theory Spec2Isabelle
  imports Main "HOL-Library.Word"
begin

section \<open>Values of the host language\<close>

text \<open>
  A JavaScript string is a sequence of UTF-16 code units and \<open>.length\<close> counts them;
  a Node \<open>Buffer\<close> is a sequence of bytes.  Opaque identifiers that the program only
  passes around (signatures, blockhashes, error messages) are HOL strings.
\<close>

type_synonym byte = "8 word"
type_synonym bytes = "byte list"
type_synonym jsstring = "16 word list"

text \<open>A string literal of the source: every character is one code unit.\<close>

definition utf16 :: "string \<Rightarrow> jsstring" where
  "utf16 s = map (\<lambda>c. of_nat (of_char c)) s"

text \<open>
  What a \<open>throw\<close> carries.  \<open>Error\<close> is an instance of the built-in error class
  (with its message), \<open>AxiosError\<close> is the HTTP client's error (also an \<open>Error\<close>, with
  a code), \<open>Thrown\<close> is any thrown value that is not an \<open>Error\<close>.
\<close>

datatype axios_code = ECONNABORTED | ERR_NETWORK | ERR_BAD_RESPONSE

datatype exn = Error string | AxiosError axios_code string | Thrown

text \<open>\<open>error instanceof Error ? error.message : 'Unknown error'\<close>\<close>

fun message_or_unknown :: "exn \<Rightarrow> string" where
  "message_or_unknown (Error m) = m"
| "message_or_unknown (AxiosError c m) = m"
| "message_or_unknown Thrown = ''Unknown error''"

text \<open>Sequencing of computations that may throw.\<close>

definition bindS :: "exn + 'a \<Rightarrow> ('a \<Rightarrow> exn + 'b) \<Rightarrow> exn + 'b" where
  "bindS m f = (case m of Inl e \<Rightarrow> Inl e | Inr x \<Rightarrow> f x)"

section \<open>Buffers\<close>

definition Buffer_alloc :: "nat \<Rightarrow> bytes" where
  "Buffer_alloc n = replicate n 0"

text \<open>Writing \<open>bs\<close> over the bytes of \<open>buf\<close> that start at \<open>off\<close>.\<close>

definition overwrite :: "bytes \<Rightarrow> nat \<Rightarrow> bytes \<Rightarrow> bytes" where
  "overwrite buf off bs = take off buf @ bs @ drop (off + length bs) buf"

text \<open>\<open>buf.writeUInt8(value, offset)\<close>: a range error outside the buffer or the byte range.\<close>

definition writeUInt8 :: "bytes \<Rightarrow> nat \<Rightarrow> nat \<Rightarrow> exn + bytes" where
  "writeUInt8 buf v off =
     (if 255 < v \<or> length buf < off + 1 then Inl (Error ''ERR_OUT_OF_RANGE'')
      else Inr (overwrite buf off [of_nat v]))"

definition le32 :: "nat \<Rightarrow> bytes" where
  "le32 v = [of_nat (v mod 256), of_nat (v div 256 mod 256),
             of_nat (v div 65536 mod 256), of_nat (v div 16777216 mod 256)]"

text \<open>\<open>buf.writeUInt32LE(value, offset)\<close>\<close>

definition writeUInt32LE :: "bytes \<Rightarrow> nat \<Rightarrow> nat \<Rightarrow> exn + bytes" where
  "writeUInt32LE buf v off =
     (if 4294967295 < v \<or> length buf < off + 4 then Inl (Error ''ERR_OUT_OF_RANGE'')
      else Inr (overwrite buf off (le32 v)))"

text \<open>
  The UTF-8 encoding of a string, one byte sequence per character.  A surrogate pair is
  one character of four bytes; a lone surrogate is encoded as U+FFFD.
\<close>

definition is_high_surrogate :: "16 word \<Rightarrow> bool" where
  "is_high_surrogate c = (55296 \<le> unat c \<and> unat c \<le> 56319)"

definition is_low_surrogate :: "16 word \<Rightarrow> bool" where
  "is_low_surrogate c = (56320 \<le> unat c \<and> unat c \<le> 57343)"

definition utf8_unit :: "16 word \<Rightarrow> bytes" where
  "utf8_unit c =
     (let n = unat c in
      if n < 128 then [of_nat n]
      else if n < 2048 then [of_nat (192 + n div 64), of_nat (128 + n mod 64)]
      else if is_high_surrogate c \<or> is_low_surrogate c then [239, 191, 189]
      else [of_nat (224 + n div 4096), of_nat (128 + n div 64 mod 64), of_nat (128 + n mod 64)])"

definition utf8_pair :: "16 word \<Rightarrow> 16 word \<Rightarrow> bytes" where
  "utf8_pair hi lo =
     (let cp = 65536 + (unat hi - 55296) * 1024 + (unat lo - 56320) in
      [of_nat (240 + cp div 262144), of_nat (128 + cp div 4096 mod 64),
       of_nat (128 + cp div 64 mod 64), of_nat (128 + cp mod 64)])"

fun utf8_chars :: "jsstring \<Rightarrow> bytes list" where
  "utf8_chars [] = []"
| "utf8_chars [c] = [utf8_unit c]"
| "utf8_chars (c # d # cs) =
     (if is_high_surrogate c \<and> is_low_surrogate d then utf8_pair c d # utf8_chars cs
      else utf8_unit c # utf8_chars (d # cs))"

text \<open>
  \<open>buf.write(string, offset, encoding)\<close> writes as many whole characters as fit between
  \<open>offset\<close> and the end of the buffer; a character that does not fit entirely is not
  written, nor is anything after it.
\<close>

fun fit_chars :: "nat \<Rightarrow> bytes list \<Rightarrow> bytes" where
  "fit_chars n [] = []"
| "fit_chars n (c # cs) = (if length c \<le> n then c @ fit_chars (n - length c) cs else [])"

definition buf_write :: "bytes \<Rightarrow> bytes list \<Rightarrow> nat \<Rightarrow> exn + bytes" where
  "buf_write buf chars off =
     (if length buf < off then Inl (Error ''ERR_OUT_OF_RANGE'')
      else Inr (overwrite buf off (fit_chars (length buf - off) chars)))"

text \<open>The \<open>'hex'\<close> encoding of a buffer, written back: one character pair per byte.\<close>

definition hex_chars :: "bytes \<Rightarrow> bytes list" where
  "hex_chars bs = map (\<lambda>b. [b]) bs"

section \<open>Keys, transactions and the outside world\<close>

text \<open>A public key is identified by its base58 text; a keypair carries its public key.\<close>

datatype pubkey = PublicKey (toBase58: string)

datatype keypair = Keypair (publicKey: pubkey) (secretKey: bytes)

record account_meta =
  pubkey :: pubkey
  isSigner :: bool
  isWritable :: bool

record instruction =
  ix_programId :: pubkey
  ix_keys :: "account_meta list"
  ix_data :: bytes

text \<open>
  The message of a transaction is what gets signed: the fee payer, the recent blockhash
  and the instructions.  A signature is identified by the key that made it and the
  message it was made over.
\<close>

record message =
  msg_feePayer :: pubkey
  msg_recentBlockhash :: string
  msg_instructions :: "instruction list"

datatype signature = Signature pubkey message

text \<open>
  A transaction: its instructions, fee payer and recent blockhash, and one signature slot
  for every key that has to sign, empty (\<open>None\<close>) until that key has signed.
\<close>

record transaction =
  tx_instructions :: "instruction list"
  tx_feePayer :: pubkey
  tx_recentBlockhash :: string
  tx_signatures :: "(pubkey \<times> signature option) list"

definition message_of :: "transaction \<Rightarrow> message" where
  "message_of tx =
     \<lparr>msg_feePayer = tx_feePayer tx, msg_recentBlockhash = tx_recentBlockhash tx,
      msg_instructions = tx_instructions tx\<rparr>"

subsection \<open>Compiling and signing, as the library \<open>@solana/web3.js\<close> does it\<close>

text \<open>The keys in the order of their first occurrence.\<close>

definition distinct_keys :: "pubkey list \<Rightarrow> pubkey list" where
  "distinct_keys ks = rev (remdups (rev ks))"

text \<open>Every key the instructions name: for each instruction its program and its accounts.\<close>

definition named_keys :: "instruction list \<Rightarrow> pubkey list" where
  "named_keys ixs = concat (map (\<lambda>ix. ix_programId ix # map pubkey (ix_keys ix)) ixs)"

definition marked_signer :: "instruction list \<Rightarrow> pubkey \<Rightarrow> bool" where
  "marked_signer ixs k = list_ex (\<lambda>m. pubkey m = k \<and> isSigner m) (concat (map ix_keys ixs))"

definition marked_writable :: "instruction list \<Rightarrow> pubkey \<Rightarrow> bool" where
  "marked_writable ixs k = list_ex (\<lambda>m. pubkey m = k \<and> isWritable m) (concat (map ix_keys ixs))"

text \<open>
  The keys that have to sign the compiled message: the fee payer first, then the other
  keys that some instruction marks as signer, the writable ones before the read-only
  ones.  (Among keys of equal rank the legacy \<open>Transaction\<close> orders by the base58 text
  and the version 0 message by first occurrence; the latter is what is written here.)
\<close>

definition signer_keys :: "pubkey \<Rightarrow> instruction list \<Rightarrow> pubkey list" where
  "signer_keys payer ixs =
     payer #
     filter (\<lambda>k. k \<noteq> payer \<and> marked_signer ixs k \<and> marked_writable ixs k)
       (distinct_keys (named_keys ixs)) @
     filter (\<lambda>k. k \<noteq> payer \<and> marked_signer ixs k \<and> \<not> marked_writable ixs k)
       (distinct_keys (named_keys ixs))"

text \<open>
  For the legacy \<open>Transaction\<close> a key that holds a signature slot and is named by an
  instruction without being marked as signer is made a signer when the message is
  compiled (with a warning on the console); such keys come after the others.
\<close>

definition legacy_signer_keys :: "transaction \<Rightarrow> pubkey list \<Rightarrow> pubkey list" where
  "legacy_signer_keys tx slots =
     signer_keys (tx_feePayer tx) (tx_instructions tx) @
     filter (\<lambda>k. k \<in> set slots \<and> k \<notin> set (signer_keys (tx_feePayer tx) (tx_instructions tx)))
       (distinct_keys (named_keys (tx_instructions tx)))"

text \<open>
  Compiling the message of a legacy \<open>Transaction\<close> throws when a signature slot belongs
  to a key that is neither the fee payer nor named by an instruction.
\<close>

definition unknown_signers :: "transaction \<Rightarrow> pubkey list \<Rightarrow> pubkey list" where
  "unknown_signers tx slots =
     filter (\<lambda>k. k \<notin> set (tx_feePayer tx # named_keys (tx_instructions tx))) slots"

text \<open>
  \<open>transaction.sign(...signers)\<close> of the legacy \<open>Transaction\<close>: the outcome, and the
  transaction object after the call.  The slots are first replaced by empty slots for the
  signers; then the message is compiled, the slots are laid out for the keys that have to
  sign, and every signer fills its slot with a signature over the current message.
\<close>

definition sign :: "transaction \<Rightarrow> keypair list \<Rightarrow> (exn + unit) \<times> transaction" where
  "sign tx signers =
     (if signers = [] then (Inl (Error ''No signers''), tx)
      else
        (let keys = distinct_keys (map publicKey signers) in
         case unknown_signers tx keys of
           k # _ \<Rightarrow>
             (Inl (Error (''unknown signer: '' @ toBase58 k)),
              tx\<lparr>tx_signatures := map (\<lambda>k. (k, None)) keys\<rparr>)
         | [] \<Rightarrow>
             (Inr (),
              tx\<lparr>tx_signatures :=
                    map (\<lambda>k. (k, if k \<in> set keys then Some (Signature k (message_of tx)) else None))
                      (legacy_signer_keys tx keys)\<rparr>)))"

text \<open>
  \<open>transaction.serialize()\<close> of the legacy \<open>Transaction\<close> compiles the message again and
  verifies the signatures: every key that has to sign must hold a signature over the
  current message.  What is sent over the wire is identified with the transaction
  itself.  (The text of the verification error goes on to list the keys concerned.)
\<close>

definition serialize :: "transaction \<Rightarrow> exn + transaction" where
  "serialize tx =
     (let slots = map fst (tx_signatures tx) in
      case unknown_signers tx slots of
        k # _ \<Rightarrow> Inl (Error (''unknown signer: '' @ toBase58 k))
      | [] \<Rightarrow>
          if slots = legacy_signer_keys tx slots \<and>
             list_all (\<lambda>(k, s). s = Some (Signature k (message_of tx))) (tx_signatures tx)
          then Inr tx
          else Inl (Error ''Signature verification failed.''))"

text \<open>
  \<open>new VersionedTransaction(new TransactionMessage({payerKey, recentBlockhash,
  instructions}).compileToV0Message())\<close>: one empty slot for every key that has to sign.
\<close>

definition VersionedTransaction :: "pubkey \<Rightarrow> string \<Rightarrow> instruction list \<Rightarrow> transaction" where
  "VersionedTransaction payerKey recentBlockhash instructions =
     \<lparr>tx_instructions = instructions, tx_feePayer = payerKey,
      tx_recentBlockhash = recentBlockhash,
      tx_signatures = map (\<lambda>k. (k, None)) (signer_keys payerKey instructions)\<rparr>"

text \<open>
  \<open>transaction.sign(signers)\<close> of the \<open>VersionedTransaction\<close>: the signers fill their slots
  one after the other; a signer whose key does not have to sign makes the call throw.
\<close>

fun sign_versioned :: "transaction \<Rightarrow> keypair list \<Rightarrow> exn + transaction" where
  "sign_versioned tx [] = Inr tx"
| "sign_versioned tx (signer # signers) =
     (if publicKey signer \<in> set (signer_keys (tx_feePayer tx) (tx_instructions tx))
      then sign_versioned
             (tx\<lparr>tx_signatures :=
                   map (\<lambda>(k, s). if k = publicKey signer
                                  then (k, Some (Signature k (message_of tx))) else (k, s))
                     (tx_signatures tx)\<rparr>) signers
      else Inl (Error (''Cannot sign with non signer key '' @ toBase58 (publicKey signer))))"

record blockhash_info =
  blockhash :: string
  lastValidBlockHeight :: nat

text \<open>\<open>simulation.value\<close>: the execution error (as JSON text) if any, and the logs.\<close>

record simulation =
  sim_err :: "string option"
  sim_logs :: "string list"

text \<open>A confirmation: \<open>context.slot\<close> and \<open>value.err\<close> (as JSON text) if any.\<close>

record confirmation =
  conf_slot :: nat
  conf_err :: "string option"

text \<open>The body of the relay's JSON-RPC response: \<open>result\<close> and \<open>error.message\<close>.\<close>

record helius_json =
  json_result :: "string option"
  json_error :: "string option"

text \<open>The row written by \<open>PumpfunTokens.create\<close>.\<close>

record pumpfun_row =
  pf_tokenMint :: string
  pf_tokenName :: jsstring
  pf_tokenSymbol :: jsstring
  pf_creatorAddress :: string
  pf_metadataUri :: jsstring
  pf_imageUri :: "jsstring option"
  pf_description :: "jsstring option"
  pf_socialMedia :: "(jsstring \<times> jsstring) list option"
  pf_initialSupply :: nat
  pf_currentSupply :: nat
  pf_bondingCurveAddress :: string
  pf_associatedBondingCurveAddress :: string
  pf_signature :: string
  pf_status :: string
  pf_initialBuyAmount :: "int option"
  pf_mayhemMode :: bool

text \<open>The row written by \<open>LaunchlabTokens.create\<close>.\<close>

record launchlab_row =
  ll_tokenMint :: string
  ll_tokenName :: jsstring
  ll_tokenSymbol :: jsstring
  ll_creatorAddress :: string
  ll_metadataUri :: jsstring
  ll_imageUri :: "jsstring option"
  ll_description :: "jsstring option"
  ll_socialMedia :: "jsstring \<times> jsstring \<times> jsstring"
  ll_initialSupply :: nat
  ll_currentSupply :: nat
  ll_platformId :: string
  ll_configId :: string
  ll_poolId :: string
  ll_vaultA :: string
  ll_vaultB :: string
  ll_signature :: string
  ll_status :: string
  ll_initialBuyAmount :: "int option"
  ll_decimals :: int

text \<open>The parameters handed to the launchpad SDK's \<open>createLaunchpad\<close>.\<close>

record launchpad_params =
  cl_mintA :: pubkey
  cl_decimals :: int
  cl_name :: jsstring
  cl_symbol :: jsstring
  cl_migrateType :: jsstring
  cl_uri :: jsstring
  cl_configId :: pubkey
  cl_mintB :: pubkey
  cl_mintBDecimals :: nat
  cl_slippage :: int
  cl_platformId :: pubkey
  cl_feePayer :: pubkey
  cl_extraSigners :: "keypair list"

text \<open>
  Every call that leaves the process is recorded, with its arguments and with what came
  back (\<open>Inl\<close>: the call threw or the promise rejected).  \<open>KeypairGenerate\<close> is local
  randomness; every other event is a network call.
\<close>

datatype event =
    KeypairGenerate keypair
  | GetAccountInfo pubkey "exn + bytes option"
  | UploadToFilebase jsstring string "exn + jsstring"
  | GetLatestBlockhash "exn + blockhash_info"
  | SimulateTransaction transaction "exn + simulation"
  | HeliusPost transaction "exn + helius_json"
  | SendRawTransaction transaction "exn + string"
  | ConfirmTransaction string "blockhash_info option" "exn + confirmation"
  | PumpfunTokensCreate pumpfun_row "exn + unit"
  | PumpfunTokensUpdate string string "exn + unit"
  | LaunchlabTokensCreate launchlab_row "exn + unit"
  | LaunchlabTokensUpdate string string "exn + unit"
  | InitSdk "exn + unit"
  | GetTokenInfo pubkey "exn + nat"
  | CreateLaunchpad launchpad_params "exn + instruction list list"

text \<open>
  The outside world: what each call returns, given everything that happened so far, and
  the pure library functions and constants the program imports (base58 decoding, key
  derivation, the launchpad SDK's address helpers).  Nothing is assumed about any of them.
\<close>

record world =
  generate :: "event list \<Rightarrow> keypair"
  getAccountInfo :: "event list \<Rightarrow> pubkey \<Rightarrow> exn + bytes option"
  uploadToFilebase :: "event list \<Rightarrow> jsstring \<Rightarrow> string \<Rightarrow> exn + jsstring"
  getLatestBlockhash :: "event list \<Rightarrow> exn + blockhash_info"
  simulateTransaction :: "event list \<Rightarrow> transaction \<Rightarrow> exn + simulation"
  heliusPost :: "event list \<Rightarrow> transaction \<Rightarrow> exn + helius_json"
  sendRawTransaction :: "event list \<Rightarrow> transaction \<Rightarrow> exn + string"
  confirmTransaction :: "event list \<Rightarrow> string \<Rightarrow> blockhash_info option \<Rightarrow> exn + confirmation"
  pumpfunTokensCreate :: "event list \<Rightarrow> pumpfun_row \<Rightarrow> exn + unit"
  pumpfunTokensUpdate :: "event list \<Rightarrow> string \<Rightarrow> string \<Rightarrow> exn + unit"
  launchlabTokensCreate :: "event list \<Rightarrow> launchlab_row \<Rightarrow> exn + unit"
  launchlabTokensUpdate :: "event list \<Rightarrow> string \<Rightarrow> string \<Rightarrow> exn + unit"
  initSdk :: "event list \<Rightarrow> exn + unit"
  getTokenInfo :: "event list \<Rightarrow> pubkey \<Rightarrow> exn + nat"
  createLaunchpad :: "event list \<Rightarrow> launchpad_params \<Rightarrow> exn + instruction list list"
  bs58_decode :: "jsstring \<Rightarrow> exn + bytes"
  fromSecretKey :: "bytes \<Rightarrow> exn + keypair"
  parsePublicKey :: "jsstring \<Rightarrow> exn + pubkey"
  toBuffer :: "pubkey \<Rightarrow> bytes"
  findProgramAddress :: "bytes list \<Rightarrow> pubkey \<Rightarrow> pubkey"
  decodeLaunchpadConfig :: "bytes \<Rightarrow> exn + pubkey"
  LAUNCHPAD_PROGRAM :: pubkey
  NATIVE_MINT :: pubkey
  getPdaLaunchpadConfigId :: "pubkey \<Rightarrow> pubkey \<Rightarrow> nat \<Rightarrow> nat \<Rightarrow> pubkey"
  getPdaLaunchpadPoolId :: "pubkey \<Rightarrow> pubkey \<Rightarrow> pubkey \<Rightarrow> pubkey"
  getPdaLaunchpadVaultId :: "pubkey \<Rightarrow> pubkey \<Rightarrow> pubkey \<Rightarrow> pubkey"

text \<open>
  An asynchronous computation: from the events so far to a value or a thrown exception,
  and the events after it.
\<close>

type_synonym 'a prog = "event list \<Rightarrow> (exn + 'a) \<times> event list"

definition ret :: "'a \<Rightarrow> 'a prog" where
  "ret x tr = (Inr x, tr)"

definition throw :: "exn \<Rightarrow> 'a prog" where
  "throw e tr = (Inl e, tr)"

definition lift :: "exn + 'a \<Rightarrow> 'a prog" where
  "lift r tr = (r, tr)"

definition bnd :: "'a prog \<Rightarrow> ('a \<Rightarrow> 'b prog) \<Rightarrow> 'b prog" where
  "bnd m f tr = (case m tr of (Inl e, tr') \<Rightarrow> (Inl e, tr') | (Inr x, tr') \<Rightarrow> f x tr')"

text \<open>\<open>try { m } catch (error) { h error }\<close>\<close>

definition try_catch :: "'a prog \<Rightarrow> (exn \<Rightarrow> 'a prog) \<Rightarrow> 'a prog" where
  "try_catch m h tr = (case m tr of (Inl e, tr') \<Rightarrow> h e tr' | (Inr x, tr') \<Rightarrow> (Inr x, tr'))"

text \<open>An awaited call to the world: the answer is looked up and the event recorded.\<close>

definition call :: "(event list \<Rightarrow> exn + 'a) \<Rightarrow> ((exn + 'a) \<Rightarrow> event) \<Rightarrow> 'a prog" where
  "call oracle mk tr = (let r = oracle tr in (r, tr @ [mk r]))"

text \<open>
  A call that is started but not yet awaited: the event is recorded and the settled
  outcome is handed back as a value.
\<close>

definition start :: "(event list \<Rightarrow> exn + 'a) \<Rightarrow> ((exn + 'a) \<Rightarrow> event) \<Rightarrow> (exn + 'a) prog" where
  "start oracle mk tr = (let r = oracle tr in (Inr r, tr @ [mk r]))"

text \<open>\<open>Promise.all\<close>: the values in order, or the first rejection.\<close>

fun promise_all :: "(exn + 'a) list \<Rightarrow> exn + 'a list" where
  "promise_all [] = Inr []"
| "promise_all (Inl e # ps) = Inl e"
| "promise_all (Inr x # ps) = bindS (promise_all ps) (\<lambda>xs. Inr (x # xs))"

text \<open>
  Truthiness of optional strings and numbers.  The numbers of a request are modelled as
  far as they are integers; \<open>NaN\<close> is the value that is not a number.
\<close>

definition truthy_str :: "jsstring option \<Rightarrow> bool" where
  "truthy_str s = (case s of None \<Rightarrow> False | Some t \<Rightarrow> t \<noteq> [])"

datatype jsnum = NaN | Num int

fun truthy_num :: "jsnum option \<Rightarrow> bool" where
  "truthy_num None = False"
| "truthy_num (Some NaN) = False"
| "truthy_num (Some (Num n)) = (n \<noteq> 0)"

fun isNaN :: "jsnum option \<Rightarrow> bool" where
  "isNaN (Some (Num n)) = False"
| "isNaN _ = True"

text \<open>Comparisons with a number; every comparison with \<open>NaN\<close> or \<open>undefined\<close> is false.\<close>

fun num_le :: "jsnum option \<Rightarrow> int \<Rightarrow> bool" where
  "num_le (Some (Num n)) k = (n \<le> k)"
| "num_le _ k = False"

fun num_less :: "jsnum option \<Rightarrow> int \<Rightarrow> bool" where
  "num_less (Some (Num n)) k = (n < k)"
| "num_less _ k = False"

fun num_greater :: "jsnum option \<Rightarrow> int \<Rightarrow> bool" where
  "num_greater (Some (Num n)) k = (k < n)"
| "num_greater _ k = False"

definition MAX_SAFE_INTEGER :: int where
  "MAX_SAFE_INTEGER = 9007199254740991"

definition LAMPORTS_PER_SOL :: int where
  "LAMPORTS_PER_SOL = 1000000000"

text \<open>The pattern \<open>/^(https?:\/\/)/\<close>.\<close>

definition url_pattern :: "jsstring \<Rightarrow> bool" where
  "url_pattern s = (take 7 s = utf16 ''http://'' \<or> take 8 s = utf16 ''https://'')"

definition ascii_bytes :: "string \<Rightarrow> bytes" where
  "ascii_bytes s = map (\<lambda>c. of_nat (of_char c)) s"

section \<open>The pump-style token service\<close>

record TokenCreationRequest =
  name :: jsstring
  symbol :: jsstring
  creatorKeypair :: jsstring
  uri :: "jsstring option"
  imageBuffer :: "bytes option"
  imageFileName :: "jsstring option"
  external_url :: "jsstring option"
  buyAmount :: "jsnum option"
  description :: "jsstring option"
  extensions :: "(jsstring \<times> jsstring) list option"
  mayhemMode :: "bool option"

text \<open>\<open>req.uri || ''\<close>: an absent and an empty string are both falsy.\<close>

definition uri_or_empty :: "jsstring option \<Rightarrow> jsstring" where
  "uri_or_empty u = (case u of None \<Rightarrow> [] | Some s \<Rightarrow> s)"

text \<open>\<open>req.mayhemMode || false\<close>\<close>

definition mayhem_or_false :: "bool option \<Rightarrow> bool" where
  "mayhem_or_false m = (case m of None \<Rightarrow> False | Some b \<Rightarrow> b)"

subsection \<open>\<open>validateRequest\<close> and \<open>getCreatorKeypair\<close>\<close>

definition validateRequest :: "TokenCreationRequest \<Rightarrow> exn + unit" where
  "validateRequest req =
     (if name req = [] \<or> symbol req = [] \<or> creatorKeypair req = [] \<or>
         (\<not> truthy_str (uri req) \<and> imageBuffer req = None)
      then Inl (Error ''Missing required fields: name, symbol, creatorKeypair, and either uri or image file'')
      else if 32 < length (name req)
      then Inl (Error ''Name must be 32 characters or less'')
      else if 8 < length (symbol req)
      then Inl (Error ''Symbol must be 8 characters or less'')
      else if truthy_str (uri req) \<and> 200 < length (uri_or_empty (uri req))
      then Inl (Error ''URI must be 200 characters or less'')
      else if (case imageBuffer req of None \<Rightarrow> False | Some b \<Rightarrow> 100000000 < length b)
      then Inl (Error ''Image file must be less than 100MB for Filebase'')
      else if truthy_str (external_url req) \<and> \<not> url_pattern (uri_or_empty (external_url req))
      then Inl (Error ''external_url must be a valid URL'')
      else if truthy_num (buyAmount req) \<and> (num_le (buyAmount req) 0 \<or> isNaN (buyAmount req))
      then Inl (Error ''buyAmount must be a positive number in lamports'')
      else if truthy_num (buyAmount req) \<and> num_greater (buyAmount req) MAX_SAFE_INTEGER
      then Inl (Error ''buyAmount is too large'')
      else Inr ())"

definition getCreatorKeypair :: "world \<Rightarrow> jsstring \<Rightarrow> exn + keypair" where
  "getCreatorKeypair w secretKeyBase58 =
     bindS (bs58_decode w secretKeyBase58) (\<lambda>secretKey.
       if length secretKey \<noteq> 64 then Inl (Error ''Invalid creatorKeypair: must be 64 bytes'')
       else fromSecretKey w secretKey)"

subsection \<open>\<open>findAvailableAccounts\<close>\<close>

definition programId :: pubkey where
  "programId = PublicKey ''6EF8rrecthR5Dkzon8Nwu78hRvfCKubJ14M5uBEwF6P''"

definition associatedTokenProgramId :: pubkey where
  "associatedTokenProgramId = PublicKey ''ATokenGPvbdGVxr1b2hvZbsiqW5xWH25efTNsLJA8knL''"

definition metadataProgramId :: pubkey where
  "metadataProgramId = PublicKey ''metaqbxxUerdq28cj1RbAWkYQm3ybzjb6a8bt518x1s''"

definition ASSOCIATED_BONDING_CURVE_CONSTANT :: bytes where
  "ASSOCIATED_BONDING_CURVE_CONSTANT =
     [6, 221, 246, 225, 215, 101, 161, 147, 217, 203, 225, 70, 206, 235, 121,
      172, 28, 180, 133, 237, 95, 91, 55, 145, 58, 140, 245, 133, 126, 255, 0, 169]"

definition METADATA_CONSTANT :: bytes where
  "METADATA_CONSTANT =
     [11, 112, 101, 177, 227, 209, 124, 69, 56, 157, 82, 127, 107, 4, 195, 205,
      88, 184, 108, 115, 26, 160, 253, 181, 73, 182, 209, 188, 3, 248, 41, 70]"

record available_accounts =
  tokenMint :: keypair
  bondingCurve :: pubkey
  associatedBondingCurve :: pubkey
  metadata :: pubkey

text \<open>The three addresses derived from a freshly generated mint keypair.\<close>

definition derive_accounts :: "world \<Rightarrow> keypair \<Rightarrow> available_accounts" where
  "derive_accounts w mint =
     (let bc = findProgramAddress w
                 [ascii_bytes ''bonding-curve'', toBuffer w (publicKey mint)] programId;
          abc = findProgramAddress w
                 [toBuffer w bc, ASSOCIATED_BONDING_CURVE_CONSTANT, toBuffer w (publicKey mint)]
                 associatedTokenProgramId;
          md = findProgramAddress w
                 [ascii_bytes ''metadata'', METADATA_CONSTANT, toBuffer w (publicKey mint)]
                 metadataProgramId
      in \<lparr>tokenMint = mint, bondingCurve = bc, associatedBondingCurve = abc, metadata = md\<rparr>)"

definition maxAttempts :: nat where
  "maxAttempts = 20"

text \<open>
  One pass through the body of the \<open>for\<close> loop: a keypair is generated, the four
  \<open>getAccountInfo\<close> calls are started, and \<open>Promise.all\<close> is awaited.  The value
  \<open>Some accounts\<close> is the \<open>return\<close> inside the loop, \<open>None\<close> falls through to the
  next iteration.
\<close>

definition findAvailableAccounts_attempt :: "world \<Rightarrow> available_accounts option prog" where
  "findAvailableAccounts_attempt w =
     bnd (\<lambda>tr. let k = generate w tr in (Inr k, tr @ [KeypairGenerate k])) (\<lambda>mint.
     let acc = derive_accounts w mint in
     bnd (start (\<lambda>tr. getAccountInfo w tr (publicKey mint)) (GetAccountInfo (publicKey mint))) (\<lambda>p1.
     bnd (start (\<lambda>tr. getAccountInfo w tr (bondingCurve acc)) (GetAccountInfo (bondingCurve acc))) (\<lambda>p2.
     bnd (start (\<lambda>tr. getAccountInfo w tr (associatedBondingCurve acc))
            (GetAccountInfo (associatedBondingCurve acc))) (\<lambda>p3.
     bnd (start (\<lambda>tr. getAccountInfo w tr (metadata acc)) (GetAccountInfo (metadata acc))) (\<lambda>p4.
     bnd (lift (promise_all [p1, p2, p3, p4])) (\<lambda>infos.
     if list_all (\<lambda>i. i = None) infos then ret (Some acc) else ret None))))))"

function findAvailableAccounts_loop :: "world \<Rightarrow> nat \<Rightarrow> available_accounts prog" where
  "findAvailableAccounts_loop w attempts tr =
     (if attempts < maxAttempts then
        (case findAvailableAccounts_attempt w tr of
           (Inl e, tr') \<Rightarrow> (Inl e, tr')
         | (Inr (Some acc), tr') \<Rightarrow> (Inr acc, tr')
         | (Inr None, tr') \<Rightarrow> findAvailableAccounts_loop w (attempts + 1) tr')
      else (Inl (Error ''Failed to find unused mint, bonding curve, or metadata accounts after maximum attempts''), tr))"
  by pat_completeness auto
termination
  by (relation "measure (\<lambda>(w, attempts, tr). maxAttempts - attempts)") auto

declare findAvailableAccounts_loop.simps [simp del]

definition findAvailableAccounts :: "world \<Rightarrow> available_accounts prog" where
  "findAvailableAccounts w = findAvailableAccounts_loop w 0"

subsection \<open>\<open>FilebaseService.uploadMetadata\<close>\<close>

text \<open>
  The image (if there is one with a file name) and then the metadata document are stored
  through \<open>uploadToFilebase\<close>; the content of the document is not modelled.
\<close>

definition uploadMetadata :: "world \<Rightarrow> TokenCreationRequest \<Rightarrow> (jsstring \<times> jsstring) prog" where
  "uploadMetadata w req =
     bnd (case (imageBuffer req, imageFileName req) of
            (Some buf, Some fname) \<Rightarrow>
              if fname \<noteq> [] then
                call (\<lambda>tr. uploadToFilebase w tr (utf16 ''images/'' @ fname) ''image/jpeg'')
                     (UploadToFilebase (utf16 ''images/'' @ fname) ''image/jpeg'')
              else ret []
          | _ \<Rightarrow> ret []) (\<lambda>imageUrl.
     bnd (call (\<lambda>tr. uploadToFilebase w tr (utf16 ''metadata.json'') ''application/json'')
               (UploadToFilebase (utf16 ''metadata.json'') ''application/json'')) (\<lambda>uri'.
     ret (uri', imageUrl)))"

subsection \<open>\<open>createPumpFunInstruction\<close>\<close>

definition mayhemProgramId :: pubkey where
  "mayhemProgramId = PublicKey ''MAyhSmzXzV1pTf7LsNkrNwkWKTo4ougAJ1PPg47MD4e''"

definition tokenProgramId :: pubkey where
  "tokenProgramId = PublicKey ''TokenzQdBNbLqP5VEhdkAS6EPFLC1PHnBqCXEpPxuEb''"

definition systemProgramId :: pubkey where
  "systemProgramId = PublicKey ''11111111111111111111111111111111''"

definition discriminator :: "nat list" where
  "discriminator = [214, 144, 76, 236, 95, 139, 49, 180]"

text \<open>
  \<open>for (let i = 0; i < discriminator.length; i++) data.writeUInt8(discriminator[i], offset++)\<close>
\<close>

fun write_discriminator :: "bytes \<Rightarrow> nat list \<Rightarrow> nat \<Rightarrow> exn + (bytes \<times> nat)" where
  "write_discriminator data [] offset = Inr (data, offset)"
| "write_discriminator data (d # ds) offset =
     bindS (writeUInt8 data d offset) (\<lambda>data'. write_discriminator data' ds (offset + 1))"

text \<open>
  The data buffer of the instruction; \<open>creator\<close> is \<open>creatorKeypair.publicKey.toBuffer()\<close>.
\<close>

definition instruction_data :: "bytes \<Rightarrow> TokenCreationRequest \<Rightarrow> exn + bytes" where
  "instruction_data creator req =
     (let nameLength = length (name req);
          symbolLength = length (symbol req);
          uri' = uri_or_empty (uri req);
          uriLength = length uri';
          bufferSize = 8 + 4 + nameLength + 4 + symbolLength + 4 + uriLength + 32 + 1;
          data0 = Buffer_alloc bufferSize
      in bindS (write_discriminator data0 discriminator 0) (\<lambda>(data1, offset1).
         bindS (writeUInt32LE data1 nameLength offset1) (\<lambda>data2.
         bindS (buf_write data2 (utf8_chars (name req)) (offset1 + 4)) (\<lambda>data3.
         let offset2 = offset1 + 4 + nameLength in
         bindS (writeUInt32LE data3 symbolLength offset2) (\<lambda>data4.
         bindS (buf_write data4 (utf8_chars (symbol req)) (offset2 + 4)) (\<lambda>data5.
         let offset3 = offset2 + 4 + symbolLength in
         bindS (writeUInt32LE data5 uriLength offset3) (\<lambda>data6.
         bindS (buf_write data6 (utf8_chars uri') (offset3 + 4)) (\<lambda>data7.
         let offset4 = offset3 + 4 + uriLength in
         bindS (buf_write data7 (hex_chars creator) offset4) (\<lambda>data8.
         writeUInt8 data8 (if mayhem_or_false (mayhemMode req) then 1 else 0)
           (offset4 + 32))))))))))"

definition meta :: "pubkey \<Rightarrow> bool \<Rightarrow> bool \<Rightarrow> account_meta" where
  "meta k s wr = \<lparr>pubkey = k, isSigner = s, isWritable = wr\<rparr>"

definition createPumpFunInstruction ::
  "world \<Rightarrow> pubkey \<Rightarrow> keypair \<Rightarrow> TokenCreationRequest \<Rightarrow> exn + instruction" where
  "createPumpFunInstruction w mint creatorKp req =
     (let mintAuthority = findProgramAddress w [ascii_bytes ''mint-authority''] programId;
          bc = findProgramAddress w [ascii_bytes ''bonding-curve'', toBuffer w mint] programId;
          global = findProgramAddress w [ascii_bytes ''global''] programId;
          mayhemState = findProgramAddress w [ascii_bytes ''mayhem-state'', toBuffer w mint]
                          mayhemProgramId;
          globalParams = findProgramAddress w [ascii_bytes ''global-params''] mayhemProgramId;
          solVault = findProgramAddress w [ascii_bytes ''sol-vault''] mayhemProgramId;
          mayhemTokenVault = findProgramAddress w
              [toBuffer w solVault, toBuffer w tokenProgramId, toBuffer w mint]
              associatedTokenProgramId;
          abc = findProgramAddress w
              [toBuffer w bc, toBuffer w tokenProgramId, toBuffer w mint]
              associatedTokenProgramId;
          eventAuthority = findProgramAddress w [ascii_bytes ''__event_authority''] programId;
          keys = [meta mint True True, meta mintAuthority False False, meta bc False True,
                  meta abc False True, meta global False False,
                  meta (publicKey creatorKp) True True, meta systemProgramId False False,
                  meta tokenProgramId False False, meta associatedTokenProgramId False False,
                  meta mayhemProgramId False True, meta globalParams False False,
                  meta solVault False True, meta mayhemState False True,
                  meta mayhemTokenVault False True, meta eventAuthority False False,
                  meta programId False False]
      in bindS (instruction_data (toBuffer w (publicKey creatorKp)) req) (\<lambda>data.
         Inr \<lparr>ix_programId = programId, ix_keys = keys, ix_data = data\<rparr>))"

subsection \<open>\<open>TokenService.sendWithHelius\<close>\<close>

text \<open>\<open>!json.result\<close>: an absent and an empty result are both falsy.\<close>

definition no_result :: "helius_json \<Rightarrow> bool" where
  "no_result json = (case json_result json of None \<Rightarrow> True | Some s \<Rightarrow> s = [])"

definition result_or_empty :: "helius_json \<Rightarrow> string" where
  "result_or_empty json = (case json_result json of None \<Rightarrow> [] | Some s \<Rightarrow> s)"

text \<open>
  What follows the HTTP response in both \<open>sendWithHelius\<close> functions: the two checks of
  the body, then the wait for the confirmation, whose error is only logged.
\<close>

definition after_post :: "world \<Rightarrow> helius_json \<Rightarrow> string prog" where
  "after_post w json =
     (case json_error json of
        Some m \<Rightarrow> throw (Error (''Helius Sender error: '' @ m))
      | None \<Rightarrow>
          if no_result json then throw (Error ''No result returned from Helius Sender'')
          else
            (let signature = result_or_empty json in
             bnd (call (\<lambda>tr. confirmTransaction w tr signature None)
                       (ConfirmTransaction signature None)) (\<lambda>confirmation.
             ret signature)))"

text \<open>
  \<open>transaction.sign(...signers)\<close> as a step of a computation: what it throws, or the
  transaction object as signed.
\<close>

definition signed :: "transaction \<Rightarrow> keypair list \<Rightarrow> exn + transaction" where
  "signed tx signers = (case sign tx signers of (Inl e, tx') \<Rightarrow> Inl e | (Inr _, tx') \<Rightarrow> Inr tx')"

definition sendWithHelius :: "world \<Rightarrow> transaction \<Rightarrow> keypair list \<Rightarrow> string prog" where
  "sendWithHelius w tx signers =
     try_catch
       (bnd (lift (signed tx signers)) (\<lambda>tx'.
        bnd (lift (serialize tx')) (\<lambda>serializedTx.
        bnd (call (\<lambda>tr. heliusPost w tr serializedTx) (HeliusPost serializedTx))
          (\<lambda>json. after_post w json))))
       (\<lambda>error. throw error)"

subsection \<open>Persistence helpers of the service\<close>

definition STANDARD_INITIAL_SUPPLY :: nat where
  "STANDARD_INITIAL_SUPPLY = 1000000000"

record token_data =
  td_name :: jsstring
  td_symbol :: jsstring
  td_creatorKeypair :: jsstring
  td_buyAmount :: "jsnum option"
  td_tokenMint :: string
  td_uri :: jsstring
  td_image :: "jsstring option"
  td_description :: "jsstring option"
  td_bondingCurveAddress :: string
  td_associatedBondingCurveAddress :: string
  td_signature :: string
  td_extensions :: "(jsstring \<times> jsstring) list option"
  td_mayhemMode :: "bool option"

text \<open>A string that is absent or empty becomes \<open>null\<close>.\<close>

definition or_null :: "jsstring option \<Rightarrow> jsstring option" where
  "or_null s = (if truthy_str s then s else None)"

text \<open>Errors of the database call are wrapped.\<close>

definition wrap_store_error :: "exn \<Rightarrow> exn" where
  "wrap_store_error e = Error (''Failed to store token data: '' @ message_or_unknown e)"

definition storeTokenData :: "world \<Rightarrow> token_data \<Rightarrow> unit prog" where
  "storeTokenData w d =
     try_catch
       (let initialBuyAmount =
              (case td_buyAmount d of Some (Num n) \<Rightarrow> if n = 0 then None else Some n | _ \<Rightarrow> None) in
        bnd (lift (getCreatorKeypair w (td_creatorKeypair d))) (\<lambda>kp.
        let row = \<lparr>pf_tokenMint = td_tokenMint d, pf_tokenName = td_name d,
                     pf_tokenSymbol = td_symbol d,
                     pf_creatorAddress = toBase58 (publicKey kp),
                     pf_metadataUri = td_uri d, pf_imageUri = or_null (td_image d),
                     pf_description = or_null (td_description d),
                     pf_socialMedia = td_extensions d,
                     pf_initialSupply = STANDARD_INITIAL_SUPPLY,
                     pf_currentSupply = STANDARD_INITIAL_SUPPLY,
                     pf_bondingCurveAddress = td_bondingCurveAddress d,
                     pf_associatedBondingCurveAddress = td_associatedBondingCurveAddress d,
                     pf_signature = td_signature d, pf_status = ''bonding'',
                     pf_initialBuyAmount = initialBuyAmount,
                     pf_mayhemMode = mayhem_or_false (td_mayhemMode d)\<rparr> in
        call (\<lambda>tr. pumpfunTokensCreate w tr row) (PumpfunTokensCreate row)))
       (\<lambda>error. throw (wrap_store_error error))"

definition updateTokenSignaturePumpfun :: "world \<Rightarrow> string \<Rightarrow> string \<Rightarrow> unit prog" where
  "updateTokenSignaturePumpfun w mint signature =
     try_catch
       (call (\<lambda>tr. pumpfunTokensUpdate w tr mint signature) (PumpfunTokensUpdate mint signature))
       (\<lambda>error. throw (wrap_store_error error))"

subsection \<open>\<open>createPumpFunToken\<close>\<close>

record create_result =
  success :: bool
  res_signature :: "string option"
  res_mintAddress :: "string option"
  res_message :: "string option"
  res_error :: "string option"

text \<open>
  The wait for the confirmation in \<open>createPumpFunToken\<close>: a fresh blockhash is fetched for
  the confirmation strategy, and a confirmation that carries an error is thrown.
\<close>

definition confirm_or_throw :: "world \<Rightarrow> string \<Rightarrow> unit prog" where
  "confirm_or_throw w signature =
     bnd (call (getLatestBlockhash w) GetLatestBlockhash) (\<lambda>latestBlockhash.
     bnd (call (\<lambda>tr. confirmTransaction w tr signature (Some latestBlockhash))
               (ConfirmTransaction signature (Some latestBlockhash))) (\<lambda>confirmation.
     case conf_err confirmation of
       Some err \<Rightarrow> throw (Error (''Transaction failed: '' @ err))
     | None \<Rightarrow> ret ()))"

text \<open>
  The \<open>catch\<close> branch of the submission: the transaction object is serialized and
  broadcast once through the RPC node.
\<close>

definition standard_rpc :: "world \<Rightarrow> transaction \<Rightarrow> string prog" where
  "standard_rpc w tx =
     bnd (lift (serialize tx)) (\<lambda>serializedTx.
     bnd (call (\<lambda>tr. sendRawTransaction w tr serializedTx) (SendRawTransaction serializedTx))
       (\<lambda>signature.
     bnd (confirm_or_throw w signature) (\<lambda>_. ret signature)))"

text \<open>
  The submission (\<open>let signature; try { ... } catch (error) { ... }\<close>): the relay first, and
  on any exception of the \<open>try\<close> block the direct broadcast.  The \<open>catch\<close> branch works
  on the transaction object as the call of \<open>sign\<close> inside \<open>sendWithHelius\<close> has left it.
\<close>

definition submit :: "world \<Rightarrow> transaction \<Rightarrow> keypair list \<Rightarrow> string prog" where
  "submit w tx signers =
     try_catch
       (bnd (sendWithHelius w tx signers) (\<lambda>signature.
        bnd (confirm_or_throw w signature) (\<lambda>_. ret signature)))
       (\<lambda>error. standard_rpc w (snd (sign tx signers)))"

definition createPumpFunToken :: "world \<Rightarrow> TokenCreationRequest \<Rightarrow> create_result prog" where
  "createPumpFunToken w req =
     try_catch
       (bnd (lift (validateRequest req)) (\<lambda>_.
        bnd (lift (getCreatorKeypair w (creatorKeypair req))) (\<lambda>creatorKp.
        bnd (findAvailableAccounts w) (\<lambda>acc.
        bnd (uploadMetadata w req) (\<lambda>(uri', imageUrl).
        bnd (call (getLatestBlockhash w) GetLatestBlockhash) (\<lambda>latestBlockhash.
        bnd (lift (createPumpFunInstruction w (publicKey (tokenMint acc)) creatorKp
                     (req\<lparr>uri := Some uri'\<rparr>))) (\<lambda>pumpFunInstruction.
        bnd (lift (signed \<lparr>tx_instructions = [pumpFunInstruction],
                             tx_feePayer = publicKey creatorKp,
                             tx_recentBlockhash = blockhash latestBlockhash,
                             tx_signatures = []\<rparr> [tokenMint acc, creatorKp])) (\<lambda>tx.
        bnd (call (\<lambda>tr. simulateTransaction w tr tx) (SimulateTransaction tx)) (\<lambda>simulation.
        case sim_err simulation of
          Some err \<Rightarrow> throw (Error (''Transaction simulation failed: '' @ err))
        | None \<Rightarrow>
            bnd (submit w tx [tokenMint acc, creatorKp]) (\<lambda>signature.
            ret \<lparr>success = True, res_signature = Some signature,
                  res_mintAddress = Some (toBase58 (publicKey (tokenMint acc))),
                  res_message = Some ''Token created and bought successfully'',
                  res_error = None\<rparr>))))))))))
       (\<lambda>error. ret \<lparr>success = False, res_signature = None, res_mintAddress = None,
                       res_message = None, res_error = Some (message_or_unknown error)\<rparr>)"

subsection \<open>\<open>fallbackDirectSubmission\<close>\<close>

record submit_result =
  confirmed :: bool
  sr_signature :: "string option"
  sr_error :: "string option"

definition maxRetries :: nat where
  "maxRetries = 3"

text \<open>What one pass through the loop body leaves behind: a \<open>return\<close>, or the new value of \<open>result\<close>.\<close>

datatype attempt_outcome = Returned submit_result | Updated submit_result

text \<open>The \<open>catch\<close> block of the loop body.\<close>

definition caught :: "submit_result \<Rightarrow> exn \<Rightarrow> attempt_outcome" where
  "caught result directError =
     Updated \<lparr>confirmed = False, sr_signature = sr_signature result,
               sr_error = Some (message_or_unknown directError)\<rparr>"

text \<open>
  One pass through the loop body.  The transaction object is shared with the following
  passes, so the transaction as this pass leaves it is part of the outcome.  Signing and
  serializing happen inside the \<open>try\<close> block: what they throw is caught like the
  rejection of a call.
\<close>

definition direct_attempt ::
  "world \<Rightarrow> nat \<Rightarrow> transaction \<Rightarrow> keypair \<Rightarrow> blockhash_info \<Rightarrow> keypair \<Rightarrow> submit_result \<Rightarrow>
   event list \<Rightarrow> attempt_outcome \<times> transaction \<times> event list" where
  "direct_attempt w attempt tx creatorKp latestBlockhash mint result tr =
     (let (refreshed, tx1, tr1) =
            (if 1 < attempt then
               (let r = getLatestBlockhash w tr; tr' = tr @ [GetLatestBlockhash r] in
                case r of
                  Inl e \<Rightarrow> (Inl e, tx, tr')
                | Inr newBlockhash \<Rightarrow>
                    (case sign (tx\<lparr>tx_recentBlockhash := blockhash newBlockhash\<rparr>)
                            [mint, creatorKp] of
                       (outcome, tx') \<Rightarrow> (outcome, tx', tr')))
             else (Inr (), tx, tr))
      in case refreshed of
           Inl e \<Rightarrow> (caught result e, tx1, tr1)
         | Inr _ \<Rightarrow>
             (case serialize tx1 of
                Inl e \<Rightarrow> (caught result e, tx1, tr1)
              | Inr serializedTx \<Rightarrow>
             (let s = sendRawTransaction w tr1 serializedTx;
                  tr2 = tr1 @ [SendRawTransaction serializedTx s] in
              case s of
                Inl e \<Rightarrow> (caught result e, tx1, tr2)
              | Inr signature \<Rightarrow>
                  (let c = confirmTransaction w tr2 signature (Some latestBlockhash);
                       tr3 = tr2 @ [ConfirmTransaction signature (Some latestBlockhash) c] in
                   case c of
                     Inl e \<Rightarrow> (caught result e, tx1, tr3)
                   | Inr confirmation \<Rightarrow>
                       (case conf_err confirmation of
                          None \<Rightarrow>
                            (Returned \<lparr>confirmed = True, sr_signature = Some signature,
                                        sr_error = None\<rparr>, tx1, tr3)
                        | Some err \<Rightarrow>
                            (Updated \<lparr>confirmed = False, sr_signature = Some signature,
                                       sr_error = Some (''Direct submission failed: '' @ err)\<rparr>,
                             tx1, tr3))))))"

function fallback_loop ::
  "world \<Rightarrow> nat \<Rightarrow> transaction \<Rightarrow> keypair \<Rightarrow> blockhash_info \<Rightarrow> keypair \<Rightarrow> submit_result \<Rightarrow>
   event list \<Rightarrow> submit_result \<times> event list" where
  "fallback_loop w attempt tx creatorKp latestBlockhash mint result tr =
     (if attempt \<le> maxRetries then
        (case direct_attempt w attempt tx creatorKp latestBlockhash mint result tr of
           (Returned r, tx', tr') \<Rightarrow> (r, tr')
         | (Updated result', tx', tr') \<Rightarrow>
             fallback_loop w (attempt + 1) tx' creatorKp latestBlockhash mint result' tr')
      else (result, tr))"
  by pat_completeness auto
termination
  by (relation "measure (\<lambda>(w, attempt, tx, creatorKp, latestBlockhash, mint, result, tr).
        Suc maxRetries - attempt)") auto

declare fallback_loop.simps [simp del]

definition fallbackDirectSubmission ::
  "world \<Rightarrow> transaction \<Rightarrow> keypair \<Rightarrow> blockhash_info \<Rightarrow> keypair \<Rightarrow>
   event list \<Rightarrow> submit_result \<times> event list" where
  "fallbackDirectSubmission w tx creatorKp latestBlockhash mint tr =
     fallback_loop w 1 tx creatorKp latestBlockhash mint
       \<lparr>confirmed = False, sr_signature = None, sr_error = Some ''Direct submission failed''\<rparr> tr"

section \<open>The launchpad token creation\<close>

text \<open>The fields of the request that the launchpad functions read.\<close>

record LaunchpadRequest =
  lp_name :: jsstring
  lp_symbol :: jsstring
  lp_image :: "bytes option"
  lp_imageFileName :: "jsstring option"
  lp_description :: "jsstring option"
  lp_createdOn :: "jsstring option"
  lp_website :: "jsstring option"
  lp_twitter :: "jsstring option"
  lp_telegram :: "jsstring option"
  lp_decimals :: "jsnum option"
  lp_migrateType :: "jsstring option"
  lp_slippage :: "jsnum option"
  lp_platformId :: "jsstring option"
  lp_buyAmount :: "jsnum option"

definition BONK_PLATFROM_ID :: pubkey where
  "BONK_PLATFROM_ID = PublicKey ''FfYek5vEz23cMkWsdJwG2oa6EphsvXSHrGpdALN4g6W1''"

text \<open>\<open>x || d\<close> for an optional string and for an optional number.\<close>

definition str_or :: "jsstring option \<Rightarrow> jsstring \<Rightarrow> jsstring" where
  "str_or s d = (case s of None \<Rightarrow> d | Some t \<Rightarrow> if t = [] then d else t)"

fun num_or :: "jsnum option \<Rightarrow> int \<Rightarrow> int" where
  "num_or (Some (Num n)) d = (if n = 0 then d else n)"
| "num_or _ d = d"

text \<open>\<open>new BN(n)\<close> for a number \<open>n\<close>: the library asserts that its magnitude is below \<open>2^53\<close>.\<close>

definition new_BN :: "int \<Rightarrow> exn + int" where
  "new_BN n = (if \<bar>n\<bar> < 9007199254740992 then Inr n else Inl (Error ''Assertion failed''))"

text \<open>
  The double nearest to an integer (ties to the even mantissa): up to \<open>2^53\<close> the integer
  itself, above that a multiple of the spacing of the doubles at its magnitude.
  \<open>bit_count n\<close> is the number of binary digits of \<open>n\<close>.
\<close>

fun bit_count :: "nat \<Rightarrow> nat" where
  "bit_count n = (if n = 0 then 0 else Suc (bit_count (n div 2)))"

declare bit_count.simps [simp del]

definition to_double :: "int \<Rightarrow> int" where
  "to_double n =
     (let a = nat \<bar>n\<bar>; q = 2 ^ (bit_count a - 53); lo = a div q; r = a mod q;
          m = (if 2 * r < q \<or> (2 * r = q \<and> even lo) then lo else lo + 1)
      in sgn n * int (m * q))"

subsection \<open>The module's \<open>sendWithHelius\<close>\<close>

definition sendWithHelius_launchlab :: "world \<Rightarrow> transaction \<Rightarrow> string prog" where
  "sendWithHelius_launchlab w tx =
     try_catch
       (bnd (call (\<lambda>tr. heliusPost w tr tx) (HeliusPost tx)) (\<lambda>json. after_post w json))
       (\<lambda>error. throw error)"

subsection \<open>\<open>createBonkFunTokenMetadata\<close>\<close>

text \<open>
  The checks shared by \<open>createBonkFunTokenMetadata\<close> and \<open>createBonkTokenTx\<close>: required
  fields, then the lengths of name, symbol and description.
\<close>

definition check_required_and_lengths :: "LaunchpadRequest \<Rightarrow> exn + unit" where
  "check_required_and_lengths tokenData =
     (if lp_name tokenData = [] \<or> lp_symbol tokenData = [] \<or> lp_image tokenData = None
      then Inl (Error ''Missing required fields: name, symbol, and image are required'')
      else if 32 < length (lp_name tokenData)
      then Inl (Error ''Name must be 32 characters or less'')
      else if 8 < length (lp_symbol tokenData)
      then Inl (Error ''Symbol must be 8 characters or less'')
      else if truthy_str (lp_description tokenData) \<and>
              200 < length (uri_or_empty (lp_description tokenData))
      then Inl (Error ''Description must be 200 characters or less'')
      else Inr ())"

definition uploadImageToFilebase :: "world \<Rightarrow> jsstring \<Rightarrow> jsstring prog" where
  "uploadImageToFilebase w fileName =
     try_catch
       (call (\<lambda>tr. uploadToFilebase w tr (utf16 ''images/'' @ str_or (Some fileName) (utf16 ''token.png''))
                      ''image/png'')
             (UploadToFilebase (utf16 ''images/'' @ str_or (Some fileName) (utf16 ''token.png''))
                      ''image/png''))
       (\<lambda>error. throw (Error (''Failed to upload image to Filebase: '' @ message_or_unknown error)))"

definition createBonkFunTokenMetadata ::
  "world \<Rightarrow> LaunchpadRequest \<Rightarrow> (jsstring \<times> jsstring) prog" where
  "createBonkFunTokenMetadata w tokenData =
     bnd (lift (check_required_and_lengths tokenData)) (\<lambda>_.
     bnd (if truthy_str (lp_platformId tokenData) then
            (case parsePublicKey w (uri_or_empty (lp_platformId tokenData)) of
               Inl e \<Rightarrow> throw (Error ''platformId must be a valid Solana public key'')
             | Inr k \<Rightarrow> ret ())
          else ret ()) (\<lambda>_.
     try_catch
       (bnd (uploadImageToFilebase w (str_or (lp_imageFileName tokenData) (utf16 ''token.png'')))
          (\<lambda>imageUrl.
        bnd (call (\<lambda>tr. uploadToFilebase w tr (utf16 ''metadata/'' @ lp_symbol tokenData @ utf16 ''.json'')
                            ''application/json'')
                  (UploadToFilebase (utf16 ''metadata/'' @ lp_symbol tokenData @ utf16 ''.json'')
                            ''application/json'')) (\<lambda>metadataUrl.
        ret (metadataUrl, imageUrl))))
       (\<lambda>error. throw (Error (''Failed to upload to Filebase: '' @ message_or_unknown error)))))"

subsection \<open>The launchpad's \<open>storeTokenData\<close> and \<open>updateTokenSignatureLaunchlab\<close>\<close>

definition storeTokenData_launchlab :: "world \<Rightarrow> launchlab_row \<Rightarrow> unit prog" where
  "storeTokenData_launchlab w d =
     try_catch
       (let row = d\<lparr>ll_imageUri := or_null (ll_imageUri d),
                     ll_description := or_null (ll_description d),
                     ll_initialSupply := STANDARD_INITIAL_SUPPLY,
                     ll_currentSupply := STANDARD_INITIAL_SUPPLY,
                     ll_status := ''active''\<rparr> in
        call (\<lambda>tr. launchlabTokensCreate w tr row) (LaunchlabTokensCreate row))
       (\<lambda>error. throw (wrap_store_error error))"

definition updateTokenSignatureLaunchlab :: "world \<Rightarrow> string \<Rightarrow> string \<Rightarrow> unit prog" where
  "updateTokenSignatureLaunchlab w mint signature =
     try_catch
       (call (\<lambda>tr. launchlabTokensUpdate w tr mint signature) (LaunchlabTokensUpdate mint signature))
       (\<lambda>error. throw (wrap_store_error error))"

subsection \<open>\<open>createBonkTokenTx\<close>\<close>

text \<open>The checks of \<open>createBonkTokenTx\<close> that follow the shared ones.\<close>

definition check_urls_decimals_migrate :: "LaunchpadRequest \<Rightarrow> exn + unit" where
  "check_urls_decimals_migrate tokenData =
     (if truthy_str (lp_createdOn tokenData) \<and> \<not> url_pattern (uri_or_empty (lp_createdOn tokenData))
      then Inl (Error ''createdOn must be a valid URL'')
      else if truthy_str (lp_website tokenData) \<and> \<not> url_pattern (uri_or_empty (lp_website tokenData))
      then Inl (Error ''website must be a valid URL'')
      else if truthy_str (lp_twitter tokenData) \<and> \<not> url_pattern (uri_or_empty (lp_twitter tokenData))
      then Inl (Error ''twitter must be a valid URL'')
      else if truthy_str (lp_telegram tokenData) \<and> \<not> url_pattern (uri_or_empty (lp_telegram tokenData))
      then Inl (Error ''telegram must be a valid URL'')
      else if truthy_num (lp_decimals tokenData) \<and>
              (isNaN (lp_decimals tokenData) \<or> num_less (lp_decimals tokenData) 0 \<or>
               num_greater (lp_decimals tokenData) 9)
      then Inl (Error ''Decimals must be a number between 0 and 9'')
      else if truthy_str (lp_migrateType tokenData) \<and>
              uri_or_empty (lp_migrateType tokenData) \<noteq> utf16 ''amm''
      then Inl (Error ''Invalid migrateType'')
      else Inr ())"

text \<open>
  The submission: the relay first, and on any exception one direct broadcast, whose
  confirmation is awaited and only logged.
\<close>

definition direct_rpc_launchlab :: "world \<Rightarrow> transaction \<Rightarrow> string prog" where
  "direct_rpc_launchlab w tx =
     bnd (call (\<lambda>tr. sendRawTransaction w tr tx) (SendRawTransaction tx)) (\<lambda>txid.
     bnd (call (\<lambda>tr. confirmTransaction w tr txid None) (ConfirmTransaction txid None))
       (\<lambda>confirmation. ret txid))"

definition submit_launchlab :: "world \<Rightarrow> transaction \<Rightarrow> string prog" where
  "submit_launchlab w tx =
     try_catch (sendWithHelius_launchlab w tx) (\<lambda>error. direct_rpc_launchlab w tx)"

definition createBonkTokenTx ::
  "world \<Rightarrow> keypair \<Rightarrow> keypair \<Rightarrow> LaunchpadRequest \<Rightarrow> transaction prog" where
  "createBonkTokenTx w mainKp mintKp tokenData =
     try_catch
       (bnd (lift (check_required_and_lengths tokenData)) (\<lambda>_.
        bnd (lift (check_urls_decimals_migrate tokenData)) (\<lambda>_.
        bnd (createBonkFunTokenMetadata w tokenData) (\<lambda>(uri', imageUrl).
        if uri' = [] then throw (Error ''Token metadata URI is undefined'') else
        bnd (call (initSdk w) InitSdk) (\<lambda>raydium.
        let configId = getPdaLaunchpadConfigId w (LAUNCHPAD_PROGRAM w) (NATIVE_MINT w) 0 0 in
        bnd (call (\<lambda>tr. getAccountInfo w tr configId) (GetAccountInfo configId)) (\<lambda>configData.
        case configData of
          None \<Rightarrow> throw (Error ''Config not found'')
        | Some cdata \<Rightarrow>
        bnd (lift (decodeLaunchpadConfig w cdata)) (\<lambda>mintB.
        bnd (call (\<lambda>tr. getTokenInfo w tr mintB) (GetTokenInfo mintB)) (\<lambda>mintBDecimals.
        bnd (lift (new_BN (num_or (lp_slippage tokenData) 100))) (\<lambda>slippage.
        bnd (if truthy_str (lp_platformId tokenData)
             then lift (parsePublicKey w (uri_or_empty (lp_platformId tokenData)))
             else ret BONK_PLATFROM_ID) (\<lambda>platformId.
        let params = \<lparr>cl_mintA = publicKey mintKp,
                        cl_decimals = num_or (lp_decimals tokenData) 6,
                        cl_name = lp_name tokenData, cl_symbol = lp_symbol tokenData,
                        cl_migrateType = str_or (lp_migrateType tokenData) (utf16 ''amm''),
                        cl_uri = uri', cl_configId = configId, cl_mintB = mintB,
                        cl_mintBDecimals = mintBDecimals,
                        cl_slippage = slippage,
                        cl_platformId = platformId, cl_feePayer = publicKey mainKp,
                        cl_extraSigners = [mintKp]\<rparr> in
        bnd (call (\<lambda>tr. createLaunchpad w tr params) (CreateLaunchpad params)) (\<lambda>transactions.
        case transactions of
          [] \<Rightarrow> throw (Error ''Cannot read properties of undefined'')
        | ixs # _ \<Rightarrow>
        bnd (call (getLatestBlockhash w) GetLatestBlockhash) (\<lambda>latest.
        bnd (lift (sign_versioned
                     (VersionedTransaction (publicKey mainKp) (blockhash latest) ixs)
                     [mainKp, mintKp])) (\<lambda>tx.
        bnd (call (\<lambda>tr. simulateTransaction w tr tx) (SimulateTransaction tx)) (\<lambda>sim.
        bnd (submit_launchlab w tx) (\<lambda>signature.
        let pool = getPdaLaunchpadPoolId w (LAUNCHPAD_PROGRAM w) (publicKey mintKp) (NATIVE_MINT w) in
        bnd (storeTokenData_launchlab w
               \<lparr>ll_tokenMint = toBase58 (publicKey mintKp),
                 ll_tokenName = lp_name tokenData, ll_tokenSymbol = lp_symbol tokenData,
                 ll_creatorAddress = toBase58 (publicKey mainKp),
                 ll_metadataUri = uri', ll_imageUri = Some imageUrl,
                 ll_description = or_null (lp_description tokenData),
                 ll_socialMedia =
                   (str_or (lp_website tokenData) (utf16 ''https://bonk.fun''),
                    str_or (lp_twitter tokenData) (utf16 ''https://x.com/bonkfun''),
                    str_or (lp_telegram tokenData) (utf16 ''https://t.me/bonkfun'')),
                 ll_initialSupply = STANDARD_INITIAL_SUPPLY,
                 ll_currentSupply = STANDARD_INITIAL_SUPPLY,
                 ll_platformId =
                   (if truthy_str (lp_platformId tokenData)
                    then map (\<lambda>c. char_of (unat c)) (uri_or_empty (lp_platformId tokenData))
                    else toBase58 BONK_PLATFROM_ID),
                 ll_configId = toBase58 configId,
                 ll_poolId = toBase58 pool,
                 ll_vaultA = toBase58 (getPdaLaunchpadVaultId w (LAUNCHPAD_PROGRAM w) pool
                                         (publicKey mintKp)),
                 ll_vaultB = toBase58 (getPdaLaunchpadVaultId w (LAUNCHPAD_PROGRAM w) pool
                                         (NATIVE_MINT w)),
                 ll_signature = '''',
                 ll_status = ''active'',
                 ll_initialBuyAmount =
                   (if truthy_num (lp_buyAmount tokenData)
                    then Some (to_double (num_or (lp_buyAmount tokenData) 0 * LAMPORTS_PER_SOL))
                    else None),
                 ll_decimals = num_or (lp_decimals tokenData) 6\<rparr>) (\<lambda>_.
        ret tx))))))))))))))))
       (\<lambda>error. throw error)"

section \<open>The route \<open>POST /pumpfun/create-token\<close>\<close>

record uploaded_file =
  file_buffer :: bytes
  file_originalname :: jsstring

datatype http_response = Json200 create_result | Status400 string | Status500 string

text \<open>
  The object handed on by the route: the request body with \<open>mayhemMode\<close> overwritten, and
  the image of the multipart upload when there is one.
\<close>

definition handler_tokenData ::
  "TokenCreationRequest \<Rightarrow> uploaded_file option \<Rightarrow> TokenCreationRequest" where
  "handler_tokenData body file =
     (let tokenData = body\<lparr>mayhemMode := Some True\<rparr> in
      case file of
        None \<Rightarrow> tokenData
      | Some f \<Rightarrow> tokenData\<lparr>imageBuffer := Some (file_buffer f),
                               imageFileName := Some (file_originalname f)\<rparr>)"

text \<open>The checks of the route; \<open>Some\<close> is the text of the 400 response.\<close>

definition handler_checks :: "TokenCreationRequest \<Rightarrow> string option" where
  "handler_checks tokenData =
     (if name tokenData = [] \<or> symbol tokenData = [] \<or> creatorKeypair tokenData = [] \<or>
         (\<not> truthy_str (uri tokenData) \<and> imageBuffer tokenData = None)
      then Some ''Missing required fields: name, symbol, creatorKeypair, and either uri or image file''
      else if 32 < length (name tokenData) then Some ''Name must be 32 characters or less''
      else if 8 < length (symbol tokenData) then Some ''Symbol must be 8 characters or less''
      else if truthy_str (uri tokenData) \<and> 200 < length (uri_or_empty (uri tokenData))
      then Some ''URI must be 200 characters or less''
      else if truthy_num (buyAmount tokenData) \<and>
              (isNaN (buyAmount tokenData) \<or> num_le (buyAmount tokenData) 0)
      then Some ''buyAmount must be a positive number''
      else if truthy_num (buyAmount tokenData) \<and> num_greater (buyAmount tokenData) MAX_SAFE_INTEGER
      then Some ''buyAmount is too large''
      else None)"

definition error_or_default :: "string option \<Rightarrow> string" where
  "error_or_default e =
     (case e of None \<Rightarrow> ''Token creation failed''
      | Some m \<Rightarrow> if m = [] then ''Token creation failed'' else m)"

definition create_token_route ::
  "world \<Rightarrow> TokenCreationRequest \<Rightarrow> uploaded_file option \<Rightarrow> http_response prog" where
  "create_token_route w body file =
     try_catch
       (let tokenData = handler_tokenData body file in
        case handler_checks tokenData of
          Some msg \<Rightarrow> ret (Status400 msg)
        | None \<Rightarrow>
            bnd (createPumpFunToken w tokenData) (\<lambda>result.
            if success result then ret (Json200 result)
            else ret (Status500 (error_or_default (res_error result)))))
       (\<lambda>error. ret (Status500 (case error of Thrown \<Rightarrow> ''Server error''
                                   | _ \<Rightarrow> message_or_unknown error)))"

section \<open>Properties of event sequences\<close>

text \<open>A result of \<open>createPumpFunToken\<close> that reports failure with the given message.\<close>

definition failure :: "string \<Rightarrow> create_result" where
  "failure msg = \<lparr>success = False, res_signature = None, res_mintAddress = None,
                   res_message = None, res_error = Some msg\<rparr>"

text \<open>Broadcasts: through the relay, and directly through the RPC node.\<close>

fun is_HeliusPost :: "event \<Rightarrow> bool" where
  "is_HeliusPost (HeliusPost t r) = True"
| "is_HeliusPost _ = False"

fun is_SendRaw :: "event \<Rightarrow> bool" where
  "is_SendRaw (SendRawTransaction t s) = True"
| "is_SendRaw _ = False"

definition is_broadcast :: "event \<Rightarrow> bool" where
  "is_broadcast e = (is_HeliusPost e \<or> is_SendRaw e)"

text \<open>A simulation and a confirmation that carry an execution error.\<close>

fun is_failed_simulation :: "event \<Rightarrow> bool" where
  "is_failed_simulation (SimulateTransaction t (Inr s)) = (sim_err s \<noteq> None)"
| "is_failed_simulation _ = False"

fun is_failed_confirmation :: "event \<Rightarrow> bool" where
  "is_failed_confirmation (ConfirmTransaction s b (Inr c)) = (conf_err c \<noteq> None)"
| "is_failed_confirmation _ = False"

text \<open>Writes to the token tables.\<close>

fun is_persistence :: "event \<Rightarrow> bool" where
  "is_persistence (PumpfunTokensCreate row r) = True"
| "is_persistence (PumpfunTokensUpdate m s r) = True"
| "is_persistence (LaunchlabTokensCreate row r) = True"
| "is_persistence (LaunchlabTokensUpdate m s r) = True"
| "is_persistence _ = False"

text \<open>The name of the call behind an event.\<close>

fun call_name :: "event \<Rightarrow> string" where
  "call_name (KeypairGenerate k) = ''Keypair.generate''"
| "call_name (GetAccountInfo a r) = ''getAccountInfo''"
| "call_name (UploadToFilebase f c r) = ''uploadToFilebase''"
| "call_name (GetLatestBlockhash r) = ''getLatestBlockhash''"
| "call_name (SimulateTransaction t r) = ''simulateTransaction''"
| "call_name (HeliusPost t r) = ''heliusPost''"
| "call_name (SendRawTransaction t r) = ''sendRawTransaction''"
| "call_name (ConfirmTransaction s b r) = ''confirmTransaction''"
| "call_name (PumpfunTokensCreate row r) = ''PumpfunTokens.create''"
| "call_name (PumpfunTokensUpdate m s r) = ''PumpfunTokens.update''"
| "call_name (LaunchlabTokensCreate row r) = ''LaunchlabTokens.create''"
| "call_name (LaunchlabTokensUpdate m s r) = ''LaunchlabTokens.update''"
| "call_name (InitSdk r) = ''initSdk''"
| "call_name (GetTokenInfo m r) = ''getTokenInfo''"
| "call_name (CreateLaunchpad p r) = ''createLaunchpad''"

text \<open>
  \<open>emits P m\<close>: whatever has happened before, the computation \<open>m\<close> only adds events, and
  every event it adds satisfies \<open>P\<close>.
\<close>

definition emits :: "(event \<Rightarrow> bool) \<Rightarrow> 'a prog \<Rightarrow> bool" where
  "emits P m = (\<forall>tr. \<exists>new. snd (m tr) = tr @ new \<and> list_all P new)"

subsection \<open>The four ways a relay submission fails\<close>

text \<open>
  The body of the response carries an error; it carries neither an error nor a result;
  the request is rejected because its time limit (30 s) has passed; the request is
  rejected for any other reason.
\<close>

datatype relay_failure = RpcError | MissingResult | TransportError | Timeout

fun is_timeout :: "exn \<Rightarrow> bool" where
  "is_timeout (AxiosError ECONNABORTED m) = True"
| "is_timeout e = False"

fun relay_failed_as :: "relay_failure \<Rightarrow> exn + helius_json \<Rightarrow> bool" where
  "relay_failed_as RpcError (Inr json) = (json_error json \<noteq> None)"
| "relay_failed_as MissingResult (Inr json) = (json_error json = None \<and> no_result json)"
| "relay_failed_as TransportError (Inl e) = (\<not> is_timeout e)"
| "relay_failed_as Timeout (Inl e) = is_timeout e"
| "relay_failed_as mode r = False"

subsection \<open>Direct submission with retries\<close>

text \<open>A fetch of the recent blockhash, and a confirmation without execution error.\<close>

fun is_refresh :: "event \<Rightarrow> bool" where
  "is_refresh (GetLatestBlockhash r) = True"
| "is_refresh _ = False"

fun is_clean_confirmation :: "event \<Rightarrow> bool" where
  "is_clean_confirmation (ConfirmTransaction s b (Inr c)) = (conf_err c = None)"
| "is_clean_confirmation _ = False"

text \<open>
  The number of attempts behind the events of the retry loop: the first attempt, and one
  more for every fetch of the blockhash, with which each later attempt begins.
\<close>

definition attempts_made :: "event list \<Rightarrow> nat" where
  "attempts_made evs = Suc (length (filter is_refresh evs))"

text \<open>
  The transaction carries the blockhash \<open>b\<close> and is signed over it: every key that has to
  sign holds a signature over the current message, and \<open>signers\<close> are among these keys.
\<close>

definition signed_over :: "keypair list \<Rightarrow> string \<Rightarrow> transaction \<Rightarrow> bool" where
  "signed_over signers b t =
     (tx_recentBlockhash t = b \<and> serialize t = Inr t \<and>
      list_all (\<lambda>k. (publicKey k, Some (Signature (publicKey k) (message_of t)))
                       \<in> set (tx_signatures t)) signers)"

text \<open>
  \<open>resubmissions_refreshed signers prev evs\<close>: every direct submission in \<open>evs\<close> comes
  right after a blockhash fetch that succeeded, and the transaction submitted carries
  that blockhash and is signed over it by \<open>signers\<close>.  \<open>prev\<close> is the blockhash fetched
  by the event just before \<open>evs\<close>, if that event was a successful fetch.
\<close>

fun resubmissions_refreshed :: "keypair list \<Rightarrow> string option \<Rightarrow> event list \<Rightarrow> bool" where
  "resubmissions_refreshed signers prev [] = True"
| "resubmissions_refreshed signers prev (SendRawTransaction t s # es) =
     ((case prev of None \<Rightarrow> False | Some b \<Rightarrow> signed_over signers b t)
      \<and> resubmissions_refreshed signers None es)"
| "resubmissions_refreshed signers prev (GetLatestBlockhash r # es) =
     resubmissions_refreshed signers (case r of Inl e \<Rightarrow> None | Inr i \<Rightarrow> Some (blockhash i)) es"
| "resubmissions_refreshed signers prev (e # es) = resubmissions_refreshed signers None es"

text \<open>
  The events of a run of the retry loop on the transaction \<open>tx\<close>: the first attempt submits
  \<open>tx\<close> as it is (when it can be serialized) or nothing, and every later submission is
  refreshed.
\<close>

definition retry_run :: "keypair list \<Rightarrow> transaction \<Rightarrow> event list \<Rightarrow> bool" where
  "retry_run signers tx evs =
     (case evs of
        SendRawTransaction t s # rest \<Rightarrow>
          t = tx \<and> serialize tx = Inr tx \<and> resubmissions_refreshed signers None rest
      | _ \<Rightarrow> resubmissions_refreshed signers None evs)"

subsection \<open>Account allocation\<close>

definition allocation_error :: exn where
  "allocation_error =
     Error ''Failed to find unused mint, bonding curve, or metadata accounts after maximum attempts''"

text \<open>The events of one allocation attempt for the keypair \<open>mint\<close> with the four answers.\<close>

definition attempt_events ::
  "world \<Rightarrow> keypair \<Rightarrow> (exn + bytes option) list \<Rightarrow> event list" where
  "attempt_events w mint rs =
     KeypairGenerate mint #
     map2 GetAccountInfo
       [publicKey mint, bondingCurve (derive_accounts w mint),
        associatedBondingCurve (derive_accounts w mint), metadata (derive_accounts w mint)] rs"

text \<open>
  \<open>allocation_run w n evs res\<close>: the events \<open>evs\<close> are a run of at most \<open>n\<close> allocation
  attempts that ends with \<open>res\<close>.  Each attempt generates a keypair and queries the mint
  and its three derived addresses.  The run ends with the accounts of the first attempt
  that finds all four addresses unoccupied, or with the rejection of a query; an attempt
  that finds an address occupied is followed by the next attempt; when \<open>n\<close> attempts
  are used up the run ends with the allocation error.
\<close>

fun allocation_run ::
  "world \<Rightarrow> nat \<Rightarrow> event list \<Rightarrow> exn + available_accounts \<Rightarrow> bool" where
  "allocation_run w n [] res = (n = 0 \<and> res = Inl allocation_error)"
| "allocation_run w n (KeypairGenerate mint # evs) res =
     (case (n, map (\<lambda>e. case e of GetAccountInfo a r \<Rightarrow> r | _ \<Rightarrow> Inl Thrown) (take 4 evs)) of
        (Suc m, [r1, r2, r3, r4]) \<Rightarrow>
          take 5 (KeypairGenerate mint # evs) = attempt_events w mint [r1, r2, r3, r4] \<and>
          (case promise_all [r1, r2, r3, r4] of
             Inl e \<Rightarrow> drop 4 evs = [] \<and> res = Inl e
           | Inr infos \<Rightarrow>
               if list_all (\<lambda>i. i = None) infos
               then drop 4 evs = [] \<and> res = Inr (derive_accounts w mint)
               else allocation_run w m (drop 4 evs) res)
      | _ \<Rightarrow> False)"
| "allocation_run w n (e # evs) res = False"

fun is_KeypairGenerate :: "event \<Rightarrow> bool" where
  "is_KeypairGenerate (KeypairGenerate k) = True"
| "is_KeypairGenerate _ = False"

subsection \<open>The layout of the instruction data\<close>

text \<open>Strings whose characters all take one byte in UTF-8.\<close>

definition is_ascii :: "jsstring \<Rightarrow> bool" where
  "is_ascii s = list_all (\<lambda>c. unat c < 128) s"

text \<open>
  The layout as it is described: the discriminator, then name, symbol and URI, each as a
  four-byte little-endian length followed by the bytes of the string, then the creator's
  public key and the mayhem-mode byte.
\<close>

definition create_layout :: "bytes \<Rightarrow> TokenCreationRequest \<Rightarrow> bytes" where
  "create_layout creator req =
     map of_nat discriminator
     @ le32 (length (name req)) @ concat (utf8_chars (name req))
     @ le32 (length (symbol req)) @ concat (utf8_chars (symbol req))
     @ le32 (length (uri_or_empty (uri req))) @ concat (utf8_chars (uri_or_empty (uri req)))
     @ creator
     @ [if mayhemMode req = Some True then 1 else 0]"

text \<open>A query of an address that was rejected.\<close>

fun is_rejected_query :: "event \<Rightarrow> bool" where
  "is_rejected_query (GetAccountInfo a (Inl e)) = True"
| "is_rejected_query _ = False"

section \<open>Concrete worlds and requests\<close>

text \<open>
  A world in which every network call is rejected; the library functions decode every
  secret key to 64 bytes and every public key to 32 bytes.
\<close>

definition offline :: world where
  "offline =
     \<lparr>generate = (\<lambda>tr. Keypair (PublicKey ''mint'') (replicate 64 2)),
      getAccountInfo = (\<lambda>tr k. Inl (Error ''offline'')),
      uploadToFilebase = (\<lambda>tr f c. Inl (Error ''offline'')),
      getLatestBlockhash = (\<lambda>tr. Inl (Error ''offline'')),
      simulateTransaction = (\<lambda>tr t. Inl (Error ''offline'')),
      heliusPost = (\<lambda>tr t. Inl (AxiosError ERR_NETWORK ''Network Error'')),
      sendRawTransaction = (\<lambda>tr t. Inl (Error ''offline'')),
      confirmTransaction = (\<lambda>tr s b. Inl (Error ''offline'')),
      pumpfunTokensCreate = (\<lambda>tr row. Inl (Error ''offline'')),
      pumpfunTokensUpdate = (\<lambda>tr m s. Inl (Error ''offline'')),
      launchlabTokensCreate = (\<lambda>tr row. Inl (Error ''offline'')),
      launchlabTokensUpdate = (\<lambda>tr m s. Inl (Error ''offline'')),
      initSdk = (\<lambda>tr. Inl (Error ''offline'')),
      getTokenInfo = (\<lambda>tr m. Inl (Error ''offline'')),
      createLaunchpad = (\<lambda>tr p. Inl (Error ''offline'')),
      bs58_decode = (\<lambda>s. Inr (replicate 64 1)),
      fromSecretKey = (\<lambda>b. Inr (Keypair (PublicKey ''creator'') b)),
      parsePublicKey = (\<lambda>s. Inr (PublicKey ''platform'')),
      toBuffer = (\<lambda>k. replicate 32 7),
      findProgramAddress = (\<lambda>seeds p. PublicKey ''pda''),
      decodeLaunchpadConfig = (\<lambda>b. Inr (PublicKey ''mintB'')),
      LAUNCHPAD_PROGRAM = PublicKey ''launchpad'',
      NATIVE_MINT = PublicKey ''wsol'',
      getPdaLaunchpadConfigId = (\<lambda>p m a b. PublicKey ''config''),
      getPdaLaunchpadPoolId = (\<lambda>p a b. PublicKey ''pool''),
      getPdaLaunchpadVaultId = (\<lambda>p pool m. PublicKey ''vault'')\<rparr>"

definition creator_kp :: keypair where
  "creator_kp = Keypair (PublicKey ''creator'') (replicate 64 1)"

definition mint_kp :: keypair where
  "mint_kp = Keypair (PublicKey ''mint'') (replicate 64 2)"

text \<open>A request with plain ASCII texts, and one whose name is the single letter U+00E9.\<close>

definition req_test :: TokenCreationRequest where
  "req_test =
     \<lparr>name = utf16 ''Test'', symbol = utf16 ''TST'', creatorKeypair = utf16 ''key'',
      uri = Some (utf16 ''u''), imageBuffer = Some [1, 2, 3], imageFileName = Some (utf16 ''a.png''),
      external_url = None, buyAmount = None, description = None, extensions = None,
      mayhemMode = Some True\<rparr>"

definition req_accent :: TokenCreationRequest where
  "req_accent = req_test\<lparr>name := [233], symbol := utf16 ''A''\<rparr>"

text \<open>A name of 36 characters.\<close>

definition req_long :: TokenCreationRequest where
  "req_long = req_test\<lparr>name := utf16 ''A name that is longer than 32 chars''\<rparr>"

text \<open>A launchpad request, and the same with a symbol of 10 characters.\<close>

definition lp_test :: LaunchpadRequest where
  "lp_test =
     \<lparr>lp_name = utf16 ''Test'', lp_symbol = utf16 ''TST'', lp_image = Some [1, 2, 3],
      lp_imageFileName = Some (utf16 ''a.png''), lp_description = None, lp_createdOn = None,
      lp_website = None, lp_twitter = None, lp_telegram = None, lp_decimals = None,
      lp_migrateType = None, lp_slippage = None, lp_platformId = None, lp_buyAmount = None\<rparr>"

definition lp_long :: LaunchpadRequest where
  "lp_long = lp_test\<lparr>lp_symbol := utf16 ''TOOLONGSYM''\<rparr>"

text \<open>
  A transaction with one instruction that names the creator (its fee payer) and the mint
  as signers, both unsigned and signed by the two; and the blockhash it was built with.
\<close>

definition ix_one :: instruction where
  "ix_one =
     \<lparr>ix_programId = PublicKey ''program'',
      ix_keys = [meta (PublicKey ''mint'') True True, meta (PublicKey ''creator'') True True,
                 meta (PublicKey ''curve'') False True],
      ix_data = [1]\<rparr>"

definition tx_unsigned :: transaction where
  "tx_unsigned =
     \<lparr>tx_instructions = [ix_one], tx_feePayer = PublicKey ''creator'',
      tx_recentBlockhash = ''hash-1'', tx_signatures = []\<rparr>"

definition tx_one :: transaction where
  "tx_one = snd (sign tx_unsigned [mint_kp, creator_kp])"

definition hash_one :: blockhash_info where
  "hash_one = \<lparr>blockhash = ''hash-1'', lastValidBlockHeight = 100\<rparr>"

text \<open>The transaction with another recent blockhash, signed again by mint and creator.\<close>

definition resigned :: "string \<Rightarrow> transaction" where
  "resigned b = snd (sign (tx_unsigned\<lparr>tx_recentBlockhash := b\<rparr>) [mint_kp, creator_kp])"

text \<open>
  The node hands out blockhashes (\<open>hash-2\<close> first, then \<open>hash-3\<close>) but rejects every
  submission.
\<close>

definition world_node_rejects :: world where
  "world_node_rejects =
     offline\<lparr>getLatestBlockhash :=
       (\<lambda>tr. Inr \<lparr>blockhash = (if length tr < 2 then ''hash-2'' else ''hash-3''),
                    lastValidBlockHeight = 100\<rparr>)\<rparr>"

text \<open>
  The first generated mint is already taken on chain, every address of the second one
  is free.
\<close>

definition world_second_mint_free :: world where
  "world_second_mint_free =
     offline\<lparr>generate := (\<lambda>tr. Keypair (PublicKey (if tr = [] then ''mint-1'' else ''mint-2'')) []),
             getAccountInfo := (\<lambda>tr k. if length tr < 2 then Inr (Some [1]) else Inr None),
             findProgramAddress := (\<lambda>seeds p. PublicKey (''pda of '' @ toBase58 p))\<rparr>"

text \<open>Every address is occupied.\<close>

definition world_all_occupied :: world where
  "world_all_occupied = offline\<lparr>getAccountInfo := (\<lambda>tr k. Inr (Some [1]))\<rparr>"

text \<open>
  The instruction that the launchpad SDK answers with: it names the fee payer and the
  mint as signers.
\<close>

definition launch_instruction :: "launchpad_params \<Rightarrow> instruction" where
  "launch_instruction p =
     \<lparr>ix_programId = PublicKey ''launchpad'',
      ix_keys = [meta (cl_feePayer p) True True, meta (cl_mintA p) True True,
                 meta (cl_configId p) False False, meta (cl_platformId p) False False],
      ix_data = [0]\<rparr>"

text \<open>The signature under which relay and node know a transaction.\<close>

definition signature_of :: "transaction \<Rightarrow> string" where
  "signature_of tx = ''sig-'' @ tx_recentBlockhash tx"

text \<open>
  A world in which every call succeeds: all addresses but the launchpad configuration are
  free, the simulation is clean, the relay accepts the transaction, the node accepts it as
  well, and every confirmation is without error.
\<close>

definition world_ok :: world where
  "world_ok =
     offline\<lparr>
       getAccountInfo := (\<lambda>tr k. if k = PublicKey ''config'' then Inr (Some [9]) else Inr None),
       uploadToFilebase := (\<lambda>tr f c. Inr (utf16 ''https://ipfs/x'')),
       getLatestBlockhash := (\<lambda>tr. Inr \<lparr>blockhash = ''hash-1'', lastValidBlockHeight = 100\<rparr>),
       simulateTransaction := (\<lambda>tr t. Inr \<lparr>sim_err = None, sim_logs = []\<rparr>),
       heliusPost := (\<lambda>tr t. Inr \<lparr>json_result = Some (signature_of t), json_error = None\<rparr>),
       sendRawTransaction := (\<lambda>tr t. Inr (signature_of t)),
       confirmTransaction := (\<lambda>tr s b. Inr \<lparr>conf_slot = 7, conf_err = None\<rparr>),
       pumpfunTokensCreate := (\<lambda>tr row. Inr ()),
       pumpfunTokensUpdate := (\<lambda>tr m s. Inr ()),
       launchlabTokensCreate := (\<lambda>tr row. Inr ()),
       launchlabTokensUpdate := (\<lambda>tr m s. Inr ()),
       initSdk := (\<lambda>tr. Inr ()),
       getTokenInfo := (\<lambda>tr m. Inr 9),
       createLaunchpad := (\<lambda>tr p. Inr [[launch_instruction p]])\<rparr>"

text \<open>
  The JSON text of a string without characters to escape, and the JSON text of the
  execution error \<open>{InstructionError: [0, {Custom: 1}]}\<close>.
\<close>

definition json_string :: "string \<Rightarrow> string" where
  "json_string s = CHR 0x22 # s @ [CHR 0x22]"

definition instruction_error :: string where
  "instruction_error =
     ''{'' @ json_string ''InstructionError'' @ '':[0,{'' @ json_string ''Custom'' @ '':1}]}''"

text \<open>The same world, but the simulation reports an execution error.\<close>

definition world_sim_fails :: world where
  "world_sim_fails =
     world_ok\<lparr>simulateTransaction :=
       (\<lambda>tr t. Inr \<lparr>sim_err = Some instruction_error, sim_logs = [''failed'']\<rparr>)\<rparr>"

text \<open>The same world, but every confirmation carries an execution error.\<close>

definition world_confirm_err :: world where
  "world_confirm_err =
     world_ok\<lparr>confirmTransaction :=
       (\<lambda>tr s b. Inr \<lparr>conf_slot = 7, conf_err = Some instruction_error\<rparr>)\<rparr>"

text \<open>The four ways in which the relay can fail, and a world whose relay answers as given.\<close>

definition relay_timeout :: "exn + helius_json" where
  "relay_timeout = Inl (AxiosError ECONNABORTED ''timeout of 30000ms exceeded'')"

definition relay_network_error :: "exn + helius_json" where
  "relay_network_error = Inl (AxiosError ERR_NETWORK ''Network Error'')"

definition relay_rpc_error :: "exn + helius_json" where
  "relay_rpc_error = Inr \<lparr>json_result = None, json_error = Some ''Blockhash not found''\<rparr>"

definition relay_no_result :: "exn + helius_json" where
  "relay_no_result = Inr \<lparr>json_result = None, json_error = None\<rparr>"

definition relay_answers :: "exn + helius_json \<Rightarrow> world \<Rightarrow> world" where
  "relay_answers r w = w\<lparr>heliusPost := (\<lambda>tr t. r)\<rparr>"

text \<open>
  The accounts of the creation instruction for the mint \<open>mint\<close> and the creator \<open>creator\<close>
  in a world that derives the address \<open>pda\<close> from every seed; the transaction built from
  the instruction with data \<open>d\<close> and the blockhash \<open>b\<close>; and that transaction as signed by
  the mint and the creator.
\<close>

definition pump_keys :: "account_meta list" where
  "pump_keys =
     [meta (PublicKey ''mint'') True True, meta (PublicKey ''pda'') False False,
      meta (PublicKey ''pda'') False True, meta (PublicKey ''pda'') False True,
      meta (PublicKey ''pda'') False False, meta (PublicKey ''creator'') True True,
      meta systemProgramId False False, meta tokenProgramId False False,
      meta associatedTokenProgramId False False, meta mayhemProgramId False True,
      meta (PublicKey ''pda'') False False, meta (PublicKey ''pda'') False True,
      meta (PublicKey ''pda'') False True, meta (PublicKey ''pda'') False True,
      meta (PublicKey ''pda'') False False, meta programId False False]"

definition pump_tx :: "string \<Rightarrow> bytes \<Rightarrow> transaction" where
  "pump_tx b d =
     \<lparr>tx_instructions = [\<lparr>ix_programId = programId, ix_keys = pump_keys, ix_data = d\<rparr>],
      tx_feePayer = PublicKey ''creator'', tx_recentBlockhash = b, tx_signatures = []\<rparr>"

definition pump_signed :: "string \<Rightarrow> bytes \<Rightarrow> transaction" where
  "pump_signed b d =
     (pump_tx b d)\<lparr>tx_signatures :=
        [(PublicKey ''creator'', Some (Signature (PublicKey ''creator'') (message_of (pump_tx b d)))),
         (PublicKey ''mint'', Some (Signature (PublicKey ''mint'') (message_of (pump_tx b d))))]\<rparr>"
section \<open>Facts about buffers\<close>

lemma replicate_numeral: "replicate (numeral k) x = x # replicate (pred_numeral k) x"
  by (simp add: numeral_eq_Suc)

lemma length_overwrite:
  "off + length bs \<le> length buf \<Longrightarrow> length (overwrite buf off bs) = length buf"
  by (simp add: overwrite_def)

lemma overwrite_append:
  "overwrite (pre @ rest) (length pre) bs = pre @ bs @ drop (length bs) rest"
  by (simp add: overwrite_def)

lemma length_le32: "length (le32 v) = 4"
  by (simp add: le32_def)

lemma length_fit_chars: "length (fit_chars n cs) \<le> n"
  by (induction n cs rule: fit_chars.induct) auto

lemma fit_chars_singletons:
  "length s \<le> n \<Longrightarrow> fit_chars n (map (\<lambda>c. [f c]) s) = map f s"
  by (induction s arbitrary: n) auto

lemma utf8_unit_ascii: "unat c < 128 \<Longrightarrow> utf8_unit c = [ucast c]"
  by (simp add: utf8_unit_def Let_def)

lemma utf8_chars_ascii:
  "\<forall>c\<in>set s. unat c < 128 \<Longrightarrow> utf8_chars s = map (\<lambda>c. [ucast c]) s"
proof (induction s rule: utf8_chars.induct)
  case 1
  then show ?case by simp
next
  case (2 c)
  then show ?case by (simp add: utf8_unit_ascii)
next
  case (3 c d cs)
  then show ?case by (simp add: utf8_unit_ascii is_high_surrogate_def)
qed

lemma concat_utf8_ascii: "is_ascii s \<Longrightarrow> concat (utf8_chars s) = map ucast s"
  by (simp add: utf8_chars_ascii is_ascii_def list_all_iff concat_map_singleton)

subsection \<open>Writes that stay inside the buffer succeed and keep its length\<close>

lemma writeUInt32LE_len:
  "v \<le> 4294967295 \<Longrightarrow> off + 4 \<le> length buf \<Longrightarrow>
   \<exists>b. writeUInt32LE buf v off = Inr b \<and> length b = length buf"
  by (simp add: writeUInt32LE_def length_overwrite le32_def)

lemma buf_write_len:
  "off \<le> length buf \<Longrightarrow> \<exists>b. buf_write buf cs off = Inr b \<and> length b = length buf"
  using length_fit_chars [of "length buf - off" cs]
  by (simp add: buf_write_def length_overwrite)

lemma writeUInt8_len:
  "v \<le> 255 \<Longrightarrow> off + 1 \<le> length buf \<Longrightarrow>
   \<exists>b. writeUInt8 buf v off = Inr b \<and> length b = length buf"
  by (simp add: writeUInt8_def length_overwrite)

lemma write_discriminator_len:
  "off + length ds \<le> length buf \<Longrightarrow> \<forall>d\<in>set ds. d \<le> 255 \<Longrightarrow>
   \<exists>b. write_discriminator buf ds off = Inr (b, off + length ds) \<and> length b = length buf"
proof (induction ds arbitrary: buf off)
  case Nil
  then show ?case by simp
next
  case (Cons d ds)
  from Cons.prems obtain b where b: "writeUInt8 buf d off = Inr b" "length b = length buf"
    using writeUInt8_len [of d off buf] by auto
  from Cons.prems b(2) obtain b' where
    "write_discriminator b ds (off + 1) = Inr (b', off + 1 + length ds)" "length b' = length b"
    using Cons.IH [of "off + 1" b] by auto
  with b show ?case by (simp add: bindS_def)
qed

lemma discriminator_facts: "length discriminator = 8" "\<forall>d\<in>set discriminator. d \<le> 255"
  by (simp_all add: discriminator_def)

lemma instruction_data_length:
  assumes "length (name req) \<le> 4294967295" "length (symbol req) \<le> 4294967295"
    "length (uri_or_empty (uri req)) \<le> 4294967295"
  shows "\<exists>data. instruction_data creator req = Inr data \<and>
           length data = 53 + length (name req) + length (symbol req) + length (uri_or_empty (uri req))"
proof -
  define n where "n = length (name req)"
  define s where "s = length (symbol req)"
  define u where "u = length (uri_or_empty (uri req))"
  define N where "N = 8 + 4 + n + 4 + s + 4 + u + 32 + 1"
  have N: "N = 53 + n + s + u" by (simp add: N_def)
  obtain d1 where d1: "write_discriminator (Buffer_alloc N) discriminator 0 = Inr (d1, 8)" "length d1 = N"
    using write_discriminator_len [of 0 discriminator "Buffer_alloc N"] discriminator_facts
    by (auto simp: Buffer_alloc_def N)
  obtain d2 where d2: "writeUInt32LE d1 n 8 = Inr d2" "length d2 = N"
    using writeUInt32LE_len [of n 8 d1] assms(1) d1(2) by (auto simp: n_def N)
  obtain d3 where d3: "buf_write d2 (utf8_chars (name req)) (8 + 4) = Inr d3" "length d3 = N"
    using buf_write_len [of "8 + 4" d2] d2(2) by (auto simp: N)
  obtain d4 where d4: "writeUInt32LE d3 s (8 + 4 + n) = Inr d4" "length d4 = N"
    using writeUInt32LE_len [of s "8 + 4 + n" d3] assms(2) d3(2) by (auto simp: s_def N)
  obtain d5 where d5: "buf_write d4 (utf8_chars (symbol req)) (8 + 4 + n + 4) = Inr d5" "length d5 = N"
    using buf_write_len [of "8 + 4 + n + 4" d4] d4(2) by (auto simp: N)
  obtain d6 where d6: "writeUInt32LE d5 u (8 + 4 + n + 4 + s) = Inr d6" "length d6 = N"
    using writeUInt32LE_len [of u "8 + 4 + n + 4 + s" d5] assms(3) d5(2) by (auto simp: u_def N)
  obtain d7 where d7: "buf_write d6 (utf8_chars (uri_or_empty (uri req))) (8 + 4 + n + 4 + s + 4) = Inr d7"
      "length d7 = N"
    using buf_write_len [of "8 + 4 + n + 4 + s + 4" d6] d6(2) by (auto simp: N)
  obtain d8 where d8: "buf_write d7 (hex_chars creator) (8 + 4 + n + 4 + s + 4 + u) = Inr d8" "length d8 = N"
    using buf_write_len [of "8 + 4 + n + 4 + s + 4 + u" d7] d7(2) by (auto simp: N)
  have m: "(if mayhem_or_false (mayhemMode req) then 1 else 0) \<le> (255::nat)" by simp
  obtain d9 where d9: "writeUInt8 d8 (if mayhem_or_false (mayhemMode req) then 1 else 0)
       (8 + 4 + n + 4 + s + 4 + u + 32) = Inr d9" "length d9 = N"
    using writeUInt8_len [OF m, of "8 + 4 + n + 4 + s + 4 + u + 32" d8] d8(2) by (auto simp: N)
  have "instruction_data creator req = Inr d9"
    unfolding instruction_data_def Let_def n_def [symmetric] s_def [symmetric] u_def [symmetric]
      N_def [symmetric]
    using d1(1) d2(1) d3(1) d4(1) d5(1) d6(1) d7(1) d8(1) d9(1)
    by (simp add: bindS_def add.assoc add.commute add.left_commute)
  with d9(2) show ?thesis by (simp add: N n_def s_def u_def)
qed

subsection \<open>Writes into a buffer whose tail is still zero\<close>

lemma write_discriminator_append:
  "length ds \<le> length rest \<Longrightarrow> \<forall>d\<in>set ds. d \<le> 255 \<Longrightarrow>
   write_discriminator (pre @ rest) ds (length pre) =
     Inr (pre @ map of_nat ds @ drop (length ds) rest, length pre + length ds)"
proof (induction ds arbitrary: pre rest)
  case Nil
  then show ?case by simp
next
  case (Cons d ds)
  then obtain r rest' where rest: "rest = r # rest'" by (cases rest) auto
  have w: "writeUInt8 (pre @ rest) d (length pre) = Inr ((pre @ [of_nat d]) @ rest')"
    using Cons.prems by (simp add: writeUInt8_def overwrite_def rest)
  have "write_discriminator ((pre @ [of_nat d]) @ rest') ds (length (pre @ [of_nat d])) =
     Inr ((pre @ [of_nat d]) @ map of_nat ds @ drop (length ds) rest', length (pre @ [of_nat d]) + length ds)"
    using Cons.prems by (intro Cons.IH) (auto simp: rest)
  then show ?case
    using w by (simp add: bindS_def rest)
qed

lemma write_discriminator_zeros:
  "write_discriminator (Buffer_alloc (8 + k)) discriminator 0 =
     Inr (map of_nat discriminator @ replicate k 0, 8)"
  using write_discriminator_append [of discriminator "replicate (8 + k) 0" "[]"] discriminator_facts
  by (simp add: Buffer_alloc_def)

lemma writeUInt32LE_zeros:
  "v \<le> 4294967295 \<Longrightarrow> off = length pre \<Longrightarrow>
   writeUInt32LE (pre @ replicate (4 + k) 0) v off = Inr ((pre @ le32 v) @ replicate k 0)"
  by (simp add: writeUInt32LE_def overwrite_append length_le32)

lemma writeUInt8_zeros:
  "v \<le> 255 \<Longrightarrow> off = length pre \<Longrightarrow>
   writeUInt8 (pre @ replicate (1 + k) 0) v off = Inr ((pre @ [of_nat v]) @ replicate k 0)"
  by (simp add: writeUInt8_def overwrite_append)

lemma buf_write_ascii_zeros:
  "is_ascii s \<Longrightarrow> off = length pre \<Longrightarrow>
   buf_write (pre @ replicate (length s + k) 0) (utf8_chars s) off =
     Inr ((pre @ map ucast s) @ replicate k 0)"
  by (simp add: buf_write_def utf8_chars_ascii is_ascii_def list_all_iff fit_chars_singletons
      overwrite_append)

lemma buf_write_hex_zeros:
  "off = length pre \<Longrightarrow>
   buf_write (pre @ replicate (length bs + k) 0) (hex_chars bs) off =
     Inr ((pre @ bs) @ replicate k 0)"
  using fit_chars_singletons [of bs "length bs + k" "\<lambda>b. b"]
  by (simp add: buf_write_def hex_chars_def overwrite_append)

lemma instruction_data_ascii:
  assumes len: "length creator = 32"
    and bounds: "length (name req) \<le> 4294967295" "length (symbol req) \<le> 4294967295"
      "length (uri_or_empty (uri req)) \<le> 4294967295"
    and ascii: "is_ascii (name req)" "is_ascii (symbol req)" "is_ascii (uri_or_empty (uri req))"
  shows "instruction_data creator req = Inr (create_layout creator req)"
proof -
  define nm where "nm = name req"
  define sy where "sy = symbol req"
  define ur where "ur = uri_or_empty (uri req)"
  define n where "n = length nm"
  define s where "s = length sy"
  define u where "u = length ur"
  define D :: bytes where "D = map of_nat discriminator"
  define mb :: nat where "mb = (if mayhem_or_false (mayhemMode req) then 1 else 0)"
  have lD: "length D = 8" by (simp add: D_def discriminator_def)
  define p2 where "p2 = D @ le32 n"
  define p3 where "p3 = p2 @ map ucast nm"
  define p4 where "p4 = p3 @ le32 s"
  define p5 where "p5 = p4 @ map ucast sy"
  define p6 where "p6 = p5 @ le32 u"
  define p7 where "p7 = p6 @ map ucast ur"
  define p8 where "p8 = p7 @ creator"
  have l2: "8 + 4 = length p2" by (simp add: p2_def lD length_le32)
  have l3: "8 + 4 + n = length p3" by (simp add: p3_def l2 [symmetric] n_def)
  have l4: "8 + 4 + n + 4 = length p4" by (simp add: p4_def l3 [symmetric] length_le32)
  have l5: "8 + 4 + n + 4 + s = length p5" by (simp add: p5_def l4 [symmetric] s_def)
  have l6: "8 + 4 + n + 4 + s + 4 = length p6" by (simp add: p6_def l5 [symmetric] length_le32)
  have l7: "8 + 4 + n + 4 + s + 4 + u = length p7" by (simp add: p7_def l6 [symmetric] u_def)
  have l8: "8 + 4 + n + 4 + s + 4 + u + 32 = length p8" by (simp add: p8_def l7 [symmetric] len)
  have size: "8 + 4 + n + 4 + s + 4 + u + 32 + 1 = 8 + (4 + (n + (4 + (s + (4 + (u + (32 + (1 + 0))))))))"
    by simp
  have s1: "write_discriminator (Buffer_alloc (8 + 4 + n + 4 + s + 4 + u + 32 + 1)) discriminator 0 =
      Inr (D @ replicate (4 + (n + (4 + (s + (4 + (u + (32 + (1 + 0)))))))) 0, 8)"
    unfolding size D_def by (rule write_discriminator_zeros)
  have s2: "writeUInt32LE (D @ replicate (4 + (n + (4 + (s + (4 + (u + (32 + (1 + 0)))))))) 0) n 8 =
      Inr (p2 @ replicate (n + (4 + (s + (4 + (u + (32 + (1 + 0))))))) 0)"
    unfolding p2_def using bounds(1) lD by (intro writeUInt32LE_zeros) (simp_all add: n_def nm_def)
  have s3: "buf_write (p2 @ replicate (n + (4 + (s + (4 + (u + (32 + (1 + 0))))))) 0) (utf8_chars nm) (8 + 4) =
      Inr (p3 @ replicate (4 + (s + (4 + (u + (32 + (1 + 0)))))) 0)"
    unfolding p3_def n_def using ascii(1) l2 by (intro buf_write_ascii_zeros) (simp_all add: nm_def)
  have s4: "writeUInt32LE (p3 @ replicate (4 + (s + (4 + (u + (32 + (1 + 0)))))) 0) s (8 + 4 + n) =
      Inr (p4 @ replicate (s + (4 + (u + (32 + (1 + 0))))) 0)"
    unfolding p4_def using bounds(2) l3 by (intro writeUInt32LE_zeros) (simp_all add: s_def sy_def)
  have s5: "buf_write (p4 @ replicate (s + (4 + (u + (32 + (1 + 0))))) 0) (utf8_chars sy) (8 + 4 + n + 4) =
      Inr (p5 @ replicate (4 + (u + (32 + (1 + 0)))) 0)"
    unfolding p5_def s_def using ascii(2) l4 by (intro buf_write_ascii_zeros) (simp_all add: sy_def)
  have s6: "writeUInt32LE (p5 @ replicate (4 + (u + (32 + (1 + 0)))) 0) u (8 + 4 + n + 4 + s) =
      Inr (p6 @ replicate (u + (32 + (1 + 0))) 0)"
    unfolding p6_def using bounds(3) l5 by (intro writeUInt32LE_zeros) (simp_all add: u_def ur_def)
  have s7: "buf_write (p6 @ replicate (u + (32 + (1 + 0))) 0) (utf8_chars ur) (8 + 4 + n + 4 + s + 4) =
      Inr (p7 @ replicate (32 + (1 + 0)) 0)"
    unfolding p7_def u_def using ascii(3) l6 by (intro buf_write_ascii_zeros) (simp_all add: ur_def)
  have s8: "buf_write (p7 @ replicate (32 + (1 + 0)) 0) (hex_chars creator) (8 + 4 + n + 4 + s + 4 + u) =
      Inr (p8 @ replicate (1 + 0) 0)"
    unfolding p8_def len [symmetric] using l7 by (intro buf_write_hex_zeros)
  have s9: "writeUInt8 (p8 @ replicate (1 + 0) 0) mb (8 + 4 + n + 4 + s + 4 + u + 32) =
      Inr ((p8 @ [of_nat mb]) @ replicate 0 0)"
    using l8 by (intro writeUInt8_zeros) (simp_all add: mb_def)
  have run: "instruction_data creator req = Inr (p8 @ [of_nat mb])"
    unfolding instruction_data_def Let_def nm_def [symmetric] sy_def [symmetric]
      ur_def [symmetric] n_def [symmetric] s_def [symmetric] u_def [symmetric]
      mb_def [symmetric]
    by (simp only: s1 s2 s3 s4 s5 s6 s7 s8 s9 bindS_def sum.case prod.case replicate_0 append_Nil2)
  have mbyte: "(of_nat mb :: byte) = (if mayhemMode req = Some True then 1 else 0)"
    by (simp add: mb_def mayhem_or_false_def split: option.splits)
  have "p8 @ [of_nat mb] = create_layout creator req"
    using ascii unfolding mbyte
    by (simp add: create_layout_def p8_def p7_def p6_def p5_def p4_def p3_def p2_def D_def
        concat_utf8_ascii nm_def sy_def ur_def n_def s_def u_def)
  with run show ?thesis by simp
qed

text \<open>
  The buffer always has \<open>53 + name.length + symbol.length + uri.length\<close> bytes (lengths in
  UTF-16 code units); when name, symbol and URI consist of characters below U+0080 only,
  it has the described layout.
\<close>

lemma createPumpFunInstruction_ascii_layout:
  assumes "length (toBuffer w (publicKey creatorKp)) = 32"
    and "length (name req) \<le> 4294967295" and "length (symbol req) \<le> 4294967295"
    and "length (uri_or_empty (uri req)) \<le> 4294967295"
  shows "\<exists>ix. createPumpFunInstruction w mint creatorKp req = Inr ix \<and>
           length (ix_data ix) =
             53 + length (name req) + length (symbol req) + length (uri_or_empty (uri req)) \<and>
           (is_ascii (name req) \<and> is_ascii (symbol req) \<and> is_ascii (uri_or_empty (uri req)) \<longrightarrow>
              ix_data ix = create_layout (toBuffer w (publicKey creatorKp)) req)"
proof -
  obtain data where data: "instruction_data (toBuffer w (publicKey creatorKp)) req = Inr data"
    "length data = 53 + length (name req) + length (symbol req) + length (uri_or_empty (uri req))"
    using instruction_data_length [OF assms(2-4)] by blast
  have "is_ascii (name req) \<and> is_ascii (symbol req) \<and> is_ascii (uri_or_empty (uri req)) \<longrightarrow>
      data = create_layout (toBuffer w (publicKey creatorKp)) req"
    using instruction_data_ascii [OF assms, of ] data(1) by auto
  with data show ?thesis
    by (simp add: createPumpFunInstruction_def bindS_def Let_def)
qed

section \<open>Facts about validation and the outer \<open>catch\<close>\<close>

lemma validateRequest_too_long:
  assumes "32 < length (name req) \<or> 8 < length (symbol req)"
  shows "validateRequest req \<in> Inl ` Error `
    {''Missing required fields: name, symbol, creatorKeypair, and either uri or image file'',
     ''Name must be 32 characters or less'', ''Symbol must be 8 characters or less''}"
  using assms by (auto simp: validateRequest_def)

lemma createPumpFunToken_invalid:
  "validateRequest req = Inl e \<Longrightarrow>
   createPumpFunToken w req tr = (Inr (failure (message_or_unknown e)), tr)"
  by (simp add: createPumpFunToken_def try_catch_def bnd_def lift_def ret_def failure_def)

lemma check_too_long:
  assumes "32 < length (lp_name td) \<or> 8 < length (lp_symbol td)"
  shows "check_required_and_lengths td \<in> Inl ` Error `
    {''Missing required fields: name, symbol, and image are required'',
     ''Name must be 32 characters or less'', ''Symbol must be 8 characters or less''}"
  using assms by (auto simp: check_required_and_lengths_def)

lemma createBonkTokenTx_invalid:
  "check_required_and_lengths td = Inl e \<Longrightarrow>
   createBonkTokenTx w mainKp mintKp td tr = (Inl e, tr)"
  by (simp add: createBonkTokenTx_def try_catch_def bnd_def lift_def throw_def)

lemma handler_checks_too_long:
  assumes "32 < length (name body) \<or> 8 < length (symbol body)"
  shows "handler_checks (handler_tokenData body file) \<in> Some `
    {''Missing required fields: name, symbol, creatorKeypair, and either uri or image file'',
     ''Name must be 32 characters or less'', ''Symbol must be 8 characters or less''}"
  using assms by (auto simp: handler_checks_def handler_tokenData_def Let_def split: option.splits)

lemma create_token_route_invalid:
  "handler_checks (handler_tokenData body file) = Some msg \<Longrightarrow>
   create_token_route w body file tr = (Inr (Status400 msg), tr)"
  by (simp add: create_token_route_def try_catch_def ret_def)

lemma createPumpFunToken_returns: "\<exists>r. fst (createPumpFunToken w req tr) = Inr r"
  by (auto simp: createPumpFunToken_def try_catch_def ret_def split: prod.splits sum.splits)

section \<open>Facts about signing and serializing\<close>

lemma serialize_same: "serialize tx = Inr wire \<Longrightarrow> wire = tx"
  by (auto simp: serialize_def Let_def split: list.splits if_splits)

lemma sign_message: "sign tx signers = (out, tx') \<Longrightarrow> message_of tx' = message_of tx"
  by (auto simp: sign_def Let_def message_of_def split: list.splits if_splits)

lemma sign_blockhash:
  "sign tx signers = (out, tx') \<Longrightarrow> tx_recentBlockhash tx' = tx_recentBlockhash tx"
  by (auto simp: sign_def Let_def split: list.splits if_splits)

lemma set_distinct_keys [simp]: "set (distinct_keys ks) = set ks"
  by (simp add: distinct_keys_def)

text \<open>A key that passes the check for unknown signers gets a slot.\<close>

lemma named_in_signer_keys:
  assumes "unknown_signers tx keys = []" and "k \<in> set keys"
  shows "k \<in> set (legacy_signer_keys tx keys)"
proof -
  from assms have "k = tx_feePayer tx \<or> k \<in> set (named_keys (tx_instructions tx))"
    by (auto simp: unknown_signers_def filter_empty_conv)
  then show ?thesis
    using assms(2) by (auto simp: legacy_signer_keys_def signer_keys_def)
qed

text \<open>After a successful call every signer holds a signature over the current message.\<close>

lemma sign_slots:
  assumes "sign tx signers = (Inr (), tx')" and "k \<in> set signers"
  shows "(publicKey k, Some (Signature (publicKey k) (message_of tx'))) \<in> set (tx_signatures tx')"
proof -
  let ?keys = "distinct_keys (map publicKey signers)"
  from assms(1) have u: "unknown_signers tx ?keys = []"
    and tx': "tx' = tx\<lparr>tx_signatures :=
        map (\<lambda>k. (k, if k \<in> set ?keys then Some (Signature k (message_of tx)) else None))
          (legacy_signer_keys tx ?keys)\<rparr>"
    by (auto simp: sign_def Let_def split: list.splits if_splits)
  from assms(2) have k: "publicKey k \<in> set ?keys" by simp
  from named_in_signer_keys [OF u k] k show ?thesis
    by (auto simp: tx' message_of_def image_iff intro!: bexI [of _ "publicKey k"])
qed

lemma signed_overI:
  assumes "sign (tx\<lparr>tx_recentBlockhash := b\<rparr>) [m, c] = (Inr (), tx1)" and "serialize tx1 = Inr wire"
  shows "signed_over [m, c] b wire"
proof -
  from serialize_same [OF assms(2)] have w: "wire = tx1" .
  from sign_blockhash [OF assms(1)] have "tx_recentBlockhash tx1 = b" by simp
  moreover from assms(2) w have "serialize tx1 = Inr tx1" by simp
  moreover from sign_slots [OF assms(1)] have
    "(publicKey m, Some (Signature (publicKey m) (message_of tx1))) \<in> set (tx_signatures tx1)"
    "(publicKey c, Some (Signature (publicKey c) (message_of tx1))) \<in> set (tx_signatures tx1)"
    by simp_all
  ultimately show ?thesis by (simp add: signed_over_def w)
qed

section \<open>Facts about the retry loop of \<open>fallbackDirectSubmission\<close>\<close>

text \<open>The first pass submits the transaction as it was handed in, or nothing.\<close>

lemma direct_attempt_first:
  assumes "direct_attempt w 1 tx c l m result tr = (out, tx', tr')"
  shows "\<exists>new. tr' = tr @ new
      \<and> (new = [] \<or>
         (\<exists>s more. new = SendRawTransaction tx s # more \<and> serialize tx = Inr tx \<and>
            filter is_SendRaw more = [] \<and>
            (\<forall>ys. resubmissions_refreshed [m, c] None (more @ ys) =
                  resubmissions_refreshed [m, c] None ys)))
      \<and> filter is_refresh new = []
      \<and> (case out of
            Returned r \<Rightarrow> confirmed r \<and> list_ex is_clean_confirmation new
          | Updated r \<Rightarrow> \<not> confirmed r \<and> \<not> list_ex is_clean_confirmation new)"
  using assms
  by (auto simp: direct_attempt_def Let_def caught_def dest: serialize_same
      split: sum.splits option.splits)

text \<open>Every later pass fetches a blockhash and signs again before it submits.\<close>

lemma resub_Some_noSend:
  "(\<forall>t s zs. ys \<noteq> SendRawTransaction t s # zs) \<Longrightarrow>
   resubmissions_refreshed signers (Some b) ys = resubmissions_refreshed signers None ys"
  by (cases "(signers, Some b, ys)" rule: resubmissions_refreshed.cases) auto

lemma direct_attempt_retry:
  assumes "direct_attempt w a tx c l m result tr = (out, tx', tr')" and "1 < a"
  shows "\<exists>rest. tr' = tr @ GetLatestBlockhash (getLatestBlockhash w tr) # rest
      \<and> (\<forall>ys. (\<forall>t s zs. ys \<noteq> SendRawTransaction t s # zs) \<longrightarrow>
               resubmissions_refreshed [m, c] None
                 (GetLatestBlockhash (getLatestBlockhash w tr) # rest @ ys) =
               resubmissions_refreshed [m, c] None ys)
      \<and> filter is_refresh rest = []
      \<and> length (filter is_SendRaw rest) \<le> 1
      \<and> (case out of
            Returned r \<Rightarrow> confirmed r \<and> list_ex is_clean_confirmation rest
          | Updated r \<Rightarrow> \<not> confirmed r \<and> \<not> list_ex is_clean_confirmation rest)"
  using assms
  by (auto simp: direct_attempt_def Let_def caught_def resub_Some_noSend
      dest: serialize_same signed_overI
      split: sum.splits option.splits prod.splits)

lemma fallback_loop_retries:
  "fallback_loop w a tx c l m result tr = (res, tr') \<Longrightarrow> 2 \<le> a \<Longrightarrow> a \<le> 4 \<Longrightarrow>
   \<not> confirmed result \<Longrightarrow>
   \<exists>new. tr' = tr @ new
     \<and> (\<forall>t s zs. new \<noteq> SendRawTransaction t s # zs)
     \<and> resubmissions_refreshed [m, c] None new
     \<and> length (filter is_refresh new) \<le> 4 - a
     \<and> length (filter is_SendRaw new) \<le> length (filter is_refresh new)
     \<and> confirmed res = list_ex is_clean_confirmation new
     \<and> (\<not> confirmed res \<longrightarrow> length (filter is_refresh new) = 4 - a)"
proof (induction w a tx c l m result tr arbitrary: res tr' rule: fallback_loop.induct)
  case (1 w a tx c l m result tr)
  show ?case
  proof (cases "a \<le> maxRetries")
    case False
    with "1.prems" have "a = 4" by (simp add: maxRetries_def)
    moreover from False "1.prems"(1) have "res = result" "tr' = tr"
      by (simp_all add: fallback_loop.simps [of w a])
    ultimately show ?thesis using "1.prems"(4) by simp
  next
    case True
    obtain out tx1 tr1 where pass: "direct_attempt w a tx c l m result tr = (out, tx1, tr1)"
      by (cases "direct_attempt w a tx c l m result tr") auto
    from "1.prems"(2) have "1 < a" by simp
    from direct_attempt_retry [OF pass this] obtain rest where new1:
      "tr1 = tr @ GetLatestBlockhash (getLatestBlockhash w tr) # rest"
      "\<And>ys. (\<forall>t s zs. ys \<noteq> SendRawTransaction t s # zs) \<Longrightarrow>
         resubmissions_refreshed [m, c] None
           (GetLatestBlockhash (getLatestBlockhash w tr) # rest @ ys) =
         resubmissions_refreshed [m, c] None ys"
      "filter is_refresh rest = []"
      "length (filter is_SendRaw rest) \<le> 1"
      "case out of Returned r \<Rightarrow> confirmed r \<and> list_ex is_clean_confirmation rest
         | Updated r \<Rightarrow> \<not> confirmed r \<and> \<not> list_ex is_clean_confirmation rest"
      by blast
    let ?new1 = "GetLatestBlockhash (getLatestBlockhash w tr) # rest"
    from True have a3: "a \<le> 3" by (simp add: maxRetries_def)
    show ?thesis
    proof (cases out)
      case (Returned r)
      with True pass "1.prems"(1) have "res = r" "tr' = tr1"
        by (simp_all add: fallback_loop.simps [of w a])
      with new1(1) new1(2) [of "[]"] new1(3,4,5) Returned a3 "1.prems"(2)
      show ?thesis by (intro exI [of _ ?new1]) auto
    next
      case (Updated r)
      with True pass "1.prems"(1)
      have rest: "fallback_loop w (a + 1) tx1 c l m r tr1 = (res, tr')"
        by (simp add: fallback_loop.simps [of w a])
      from new1(5) Updated have nr: "\<not> confirmed r" "\<not> list_ex is_clean_confirmation rest"
        by simp_all
      from "1.IH" [OF True pass [symmetric] _ _ rest] Updated a3 "1.prems"(2) nr(1)
      obtain new2 where new2: "tr' = tr1 @ new2"
        "\<forall>t s zs. new2 \<noteq> SendRawTransaction t s # zs"
        "resubmissions_refreshed [m, c] None new2"
        "length (filter is_refresh new2) \<le> 4 - (a + 1)"
        "length (filter is_SendRaw new2) \<le> length (filter is_refresh new2)"
        "confirmed res = list_ex is_clean_confirmation new2"
        "\<not> confirmed res \<longrightarrow> length (filter is_refresh new2) = 4 - (a + 1)"
        by auto
      have "tr' = tr @ (?new1 @ new2)" using new1(1) new2(1) by simp
      moreover have "\<forall>t s zs. ?new1 @ new2 \<noteq> SendRawTransaction t s # zs" by simp
      moreover have "resubmissions_refreshed [m, c] None (?new1 @ new2)"
        using new1(2) [OF new2(2)] new2(3) by simp
      moreover have "length (filter is_refresh (?new1 @ new2)) \<le> 4 - a"
        using new1(3) new2(4) a3 by simp
      moreover have "length (filter is_SendRaw (?new1 @ new2)) \<le> length (filter is_refresh (?new1 @ new2))"
        using new1(3,4) new2(5) by simp
      moreover have "confirmed res = list_ex is_clean_confirmation (?new1 @ new2)"
        using new2(6) nr(2) by simp
      moreover have "\<not> confirmed res \<longrightarrow> length (filter is_refresh (?new1 @ new2)) = 4 - a"
        using new1(3) new2(7) a3 by auto
      ultimately show ?thesis by blast
    qed
  qed
qed

lemma fallbackDirectSubmission_attempts:
  assumes "fallbackDirectSubmission w tx creatorKp latestBlockhash mint tr = (res, tr')"
  shows "\<exists>new. tr' = tr @ new
      \<and> retry_run [mint, creatorKp] tx new
      \<and> length (filter is_SendRaw new) \<le> attempts_made new
      \<and> attempts_made new \<le> 3
      \<and> confirmed res = list_ex is_clean_confirmation new
      \<and> (\<not> confirmed res \<longrightarrow> attempts_made new = 3)"
proof -
  define result0 where
    "result0 = \<lparr>confirmed = False, sr_signature = None, sr_error = Some ''Direct submission failed''\<rparr>"
  from assms have loop: "fallback_loop w 1 tx creatorKp latestBlockhash mint result0 tr = (res, tr')"
    by (simp add: fallbackDirectSubmission_def result0_def)
  obtain out tx1 tr1 where
    pass: "direct_attempt w 1 tx creatorKp latestBlockhash mint result0 tr = (out, tx1, tr1)"
    by (cases "direct_attempt w 1 tx creatorKp latestBlockhash mint result0 tr") auto
  from direct_attempt_first [OF pass] obtain new1 where new1:
    "tr1 = tr @ new1"
    "new1 = [] \<or>
       (\<exists>s more. new1 = SendRawTransaction tx s # more \<and> serialize tx = Inr tx \<and>
          filter is_SendRaw more = [] \<and>
          (\<forall>ys. resubmissions_refreshed [mint, creatorKp] None (more @ ys) =
                resubmissions_refreshed [mint, creatorKp] None ys))"
    "filter is_refresh new1 = []"
    "case out of Returned r \<Rightarrow> confirmed r \<and> list_ex is_clean_confirmation new1
       | Updated r \<Rightarrow> \<not> confirmed r \<and> \<not> list_ex is_clean_confirmation new1"
    by blast
  have run1: "retry_run [mint, creatorKp] tx (new1 @ ys) \<and> length (filter is_SendRaw new1) \<le> 1"
    if "\<forall>t s zs. ys \<noteq> SendRawTransaction t s # zs"
      "resubmissions_refreshed [mint, creatorKp] None ys" for ys
  proof -
    from new1(2) show ?thesis
    proof
      assume "new1 = []"
      with that show ?thesis by (cases ys) (auto simp: retry_run_def split: event.splits)
    next
      assume "\<exists>s more. new1 = SendRawTransaction tx s # more \<and> serialize tx = Inr tx \<and>
          filter is_SendRaw more = [] \<and>
          (\<forall>ys. resubmissions_refreshed [mint, creatorKp] None (more @ ys) =
                resubmissions_refreshed [mint, creatorKp] None ys)"
      then obtain s more where m: "new1 = SendRawTransaction tx s # more" "serialize tx = Inr tx"
        "filter is_SendRaw more = []"
        "\<And>ys. resubmissions_refreshed [mint, creatorKp] None (more @ ys) =
                resubmissions_refreshed [mint, creatorKp] None ys"
        by blast
      from m(4) [of ys] that(2) m(1,2,3) show ?thesis by (simp add: retry_run_def)
    qed
  qed
  have unfold1: "fallback_loop w 1 tx creatorKp latestBlockhash mint result0 tr =
      (case out of Returned r \<Rightarrow> (r, tr1)
       | Updated r \<Rightarrow> fallback_loop w 2 tx1 creatorKp latestBlockhash mint r tr1)"
    by (subst fallback_loop.simps, simp only: pass prod.case, cases out)
      (simp_all add: maxRetries_def numeral_2_eq_2)
  show ?thesis
  proof (cases out)
    case (Returned r)
    with loop [unfolded unfold1] have "res = r" "tr' = tr1"
      by simp_all
    with new1(1,3,4) run1 [of "[]"] Returned
    show ?thesis by (intro exI [of _ new1]) (auto simp: attempts_made_def)
  next
    case (Updated r)
    with loop [unfolded unfold1]
    have rest: "fallback_loop w 2 tx1 creatorKp latestBlockhash mint r tr1 = (res, tr')"
      by simp
    from new1(4) Updated have nr: "\<not> confirmed r" "\<not> list_ex is_clean_confirmation new1"
      by simp_all
    from fallback_loop_retries [OF rest _ _ nr(1)]
    obtain new2 where new2: "tr' = tr1 @ new2"
      "\<forall>t s zs. new2 \<noteq> SendRawTransaction t s # zs"
      "resubmissions_refreshed [mint, creatorKp] None new2"
      "length (filter is_refresh new2) \<le> 2"
      "length (filter is_SendRaw new2) \<le> length (filter is_refresh new2)"
      "confirmed res = list_ex is_clean_confirmation new2"
      "\<not> confirmed res \<longrightarrow> length (filter is_refresh new2) = 2"
      by auto
    have "tr' = tr @ (new1 @ new2)"
      using new1(1) new2(1) by simp
    moreover have "retry_run [mint, creatorKp] tx (new1 @ new2)"
      using run1 [OF new2(2,3)] by simp
    moreover have "length (filter is_SendRaw (new1 @ new2)) \<le> attempts_made (new1 @ new2)"
      using run1 [OF new2(2,3)] new1(3) new2(5) by (simp add: attempts_made_def)
    moreover have "attempts_made (new1 @ new2) \<le> 3"
      using new1(3) new2(4) by (simp add: attempts_made_def)
    moreover have "confirmed res = list_ex is_clean_confirmation (new1 @ new2)"
      using new2(6) nr(2) by simp
    moreover have "\<not> confirmed res \<longrightarrow> attempts_made (new1 @ new2) = 3"
      using new1(3) new2(7) by (simp add: attempts_made_def)
    ultimately show ?thesis by blast
  qed
qed

text \<open>The direct broadcast in the \<open>catch\<close> branch of the two creation functions submits once.\<close>

lemma standard_rpc_one_send:
  "\<exists>new. snd (standard_rpc w tx tr) = tr @ new \<and> length (filter is_SendRaw new) \<le> 1"
  by (auto simp: standard_rpc_def confirm_or_throw_def bnd_def lift_def call_def throw_def ret_def
      Let_def split: sum.splits option.splits prod.splits)

lemma direct_rpc_launchlab_one_send:
  "\<exists>s rest. snd (direct_rpc_launchlab w tx tr) = tr @ SendRawTransaction tx s # rest
      \<and> filter is_SendRaw rest = []"
  by (auto simp: direct_rpc_launchlab_def bnd_def call_def throw_def ret_def Let_def
      split: sum.splits option.splits prod.splits)

section \<open>Facts about the relay and the direct broadcast\<close>

text \<open>In each of the four failure modes \<open>sendWithHelius\<close> throws right after the request.\<close>

lemma sendWithHelius_failed:
  assumes "sign tx signers = (Inr (), tx')" and "serialize tx' = Inr wire"
    and "relay_failed_as mode (heliusPost w tr wire)"
  shows "\<exists>e. sendWithHelius w tx signers tr =
      (Inl e, tr @ [HeliusPost wire (heliusPost w tr wire)])"
  using assms(3,1,2)
  by (cases "(mode, heliusPost w tr wire)" rule: relay_failed_as.cases)
    (auto simp: sendWithHelius_def signed_def try_catch_def bnd_def lift_def call_def throw_def
      after_post_def Let_def split: option.splits)

lemma sendWithHelius_launchlab_failed:
  assumes "relay_failed_as mode (heliusPost w tr tx)"
  shows "\<exists>e. sendWithHelius_launchlab w tx tr = (Inl e, tr @ [HeliusPost tx (heliusPost w tr tx)])"
  using assms
  by (cases "(mode, heliusPost w tr tx)" rule: relay_failed_as.cases)
    (auto simp: sendWithHelius_launchlab_def try_catch_def bnd_def call_def throw_def
      after_post_def Let_def split: option.splits)

text \<open>The direct path starts with the broadcast.\<close>

lemma standard_rpc_starts_with_send:
  assumes "serialize tx = Inr wire"
  shows "\<exists>rest. snd (standard_rpc w tx tr) =
     tr @ SendRawTransaction wire (sendRawTransaction w tr wire) # rest"
  using assms
  by (auto simp: standard_rpc_def confirm_or_throw_def bnd_def lift_def call_def throw_def ret_def
      Let_def split: sum.splits option.splits prod.splits)

lemma direct_rpc_launchlab_starts_with_send:
  "\<exists>rest. snd (direct_rpc_launchlab w tx tr) =
     tr @ SendRawTransaction tx (sendRawTransaction w tr tx) # rest"
  by (auto simp: direct_rpc_launchlab_def bnd_def call_def throw_def ret_def Let_def
      split: sum.splits option.splits prod.splits)

lemma failed_modes:
  "relay_failed_as Timeout relay_timeout" "relay_failed_as TransportError relay_network_error"
  "relay_failed_as RpcError relay_rpc_error" "relay_failed_as MissingResult relay_no_result"
  by (simp_all add: relay_timeout_def relay_network_error_def relay_rpc_error_def
      relay_no_result_def no_result_def)

section \<open>Facts about the events that the computations add\<close>

lemma emits_ret: "emits P (ret x)"
  by (simp add: emits_def ret_def)

lemma emits_throw: "emits P (throw e)"
  by (simp add: emits_def throw_def)

lemma emits_lift: "emits P (lift r)"
  by (simp add: emits_def lift_def)

lemma emits_call: "(\<And>r. P (mk r)) \<Longrightarrow> emits P (call oracle mk)"
  by (simp add: emits_def call_def Let_def)

lemma emits_bnd:
  assumes "emits P m" and "\<And>x. emits P (f x)"
  shows "emits P (bnd m f)"
  unfolding emits_def
proof
  fix tr
  from assms(1) obtain new1 where m: "snd (m tr) = tr @ new1" "list_all P new1"
    by (auto simp: emits_def)
  show "\<exists>new. snd (bnd m f tr) = tr @ new \<and> list_all P new"
  proof (cases "m tr")
    case (Pair r tr1)
    with m have tr1: "tr1 = tr @ new1" by simp
    show ?thesis
    proof (cases r)
      case (Inl e)
      with Pair tr1 m(2) show ?thesis by (auto simp: bnd_def)
    next
      case (Inr x)
      from assms(2) [of x] obtain new2 where "snd (f x tr1) = tr1 @ new2" "list_all P new2"
        by (auto simp: emits_def)
      with Pair Inr tr1 m(2) show ?thesis by (auto simp: bnd_def)
    qed
  qed
qed

lemma emits_try_catch:
  assumes "emits P m" and "\<And>e. emits P (h e)"
  shows "emits P (try_catch m h)"
  unfolding emits_def
proof
  fix tr
  from assms(1) obtain new1 where m: "snd (m tr) = tr @ new1" "list_all P new1"
    by (auto simp: emits_def)
  show "\<exists>new. snd (try_catch m h tr) = tr @ new \<and> list_all P new"
  proof (cases "m tr")
    case (Pair r tr1)
    with m have tr1: "tr1 = tr @ new1" by simp
    show ?thesis
    proof (cases r)
      case (Inr x)
      with Pair tr1 m(2) show ?thesis by (auto simp: try_catch_def)
    next
      case (Inl e)
      from assms(2) [of e] obtain new2 where "snd (h e tr1) = tr1 @ new2" "list_all P new2"
        by (auto simp: emits_def)
      with Pair Inl tr1 m(2) show ?thesis by (auto simp: try_catch_def)
    qed
  qed
qed

lemma emits_attempt: "emits (\<lambda>e. \<not> is_persistence e) (findAvailableAccounts_attempt w)"
  unfolding findAvailableAccounts_attempt_def Let_def
  by (intro emits_bnd emits_lift emits_ret)
    (auto simp: emits_def start_def ret_def Let_def split: if_splits)

lemma emits_loop:
  "\<exists>new. snd (findAvailableAccounts_loop w n tr) = tr @ new \<and> list_all (\<lambda>e. \<not> is_persistence e) new"
proof (induction w n tr rule: findAvailableAccounts_loop.induct)
  case (1 w attempts tr)
  show ?case
  proof (cases "attempts < maxAttempts")
    case False
    then show ?thesis by (simp add: findAvailableAccounts_loop.simps [of w attempts])
  next
    case True
    from emits_attempt [of w] obtain new1 where
      a: "snd (findAvailableAccounts_attempt w tr) = tr @ new1"
         "list_all (\<lambda>e. \<not> is_persistence e) new1"
      by (auto simp: emits_def)
    show ?thesis
    proof (cases "findAvailableAccounts_attempt w tr")
      case (Pair r tr1)
      with a have tr1: "tr1 = tr @ new1" by simp
      show ?thesis
      proof (cases r)
        case (Inl e)
        with True Pair tr1 a(2) show ?thesis
          by (simp add: findAvailableAccounts_loop.simps [of w attempts])
      next
        case (Inr x)
        show ?thesis
        proof (cases x)
          case (Some acc)
          with Inr True Pair tr1 a(2) show ?thesis
            by (simp add: findAvailableAccounts_loop.simps [of w attempts])
        next
          case None
          from "1.IH" [OF True Pair [symmetric] Inr None] obtain new2 where
            "snd (findAvailableAccounts_loop w (attempts + 1) tr1) = tr1 @ new2"
            "list_all (\<lambda>e. \<not> is_persistence e) new2"
            by auto
          with None Inr True Pair tr1 a(2) show ?thesis
            by (simp add: findAvailableAccounts_loop.simps [of w attempts])
        qed
      qed
    qed
  qed
qed

lemma emits_findAvailableAccounts: "emits (\<lambda>e. \<not> is_persistence e) (findAvailableAccounts w)"
  using emits_loop by (simp add: emits_def findAvailableAccounts_def)

lemma emits_confirm: "emits (\<lambda>e. \<not> is_persistence e) (confirm_or_throw w s)"
  unfolding confirm_or_throw_def
  by (intro emits_bnd emits_call) (auto intro: emits_throw emits_ret split: option.splits)

lemma emits_after_post: "emits (\<lambda>e. \<not> is_persistence e) (after_post w json)"
  unfolding after_post_def Let_def
  by (auto intro!: emits_bnd emits_call emits_throw emits_ret split: option.splits)

lemma emits_submit: "emits (\<lambda>e. \<not> is_persistence e) (submit w tx signers)"
  unfolding submit_def sendWithHelius_def standard_rpc_def
  by (intro emits_try_catch emits_bnd emits_lift emits_call emits_confirm emits_after_post
      emits_ret emits_throw) simp_all

lemma emits_upload: "emits (\<lambda>e. \<not> is_persistence e) (uploadMetadata w req)"
  unfolding uploadMetadata_def
  by (intro emits_bnd emits_call emits_ret)
    (auto intro!: emits_call emits_ret split: option.splits prod.splits)

lemma emits_createPumpFunToken: "emits (\<lambda>e. \<not> is_persistence e) (createPumpFunToken w req)"
  unfolding createPumpFunToken_def
  by (auto intro!: emits_try_catch emits_bnd emits_lift emits_findAvailableAccounts emits_upload
      emits_call emits_ret emits_throw emits_submit split: option.splits prod.splits)

section \<open>Facts about the loop of \<open>findAvailableAccounts\<close>\<close>

lemma findAvailableAccounts_attempt_events:
  "\<exists>mint r1 r2 r3 r4.
     findAvailableAccounts_attempt w tr =
       (case promise_all [r1, r2, r3, r4] of
          Inl e \<Rightarrow> Inl e
        | Inr infos \<Rightarrow> Inr (if list_all (\<lambda>i. i = None) infos
                            then Some (derive_accounts w mint) else None),
        tr @ attempt_events w mint [r1, r2, r3, r4])"
  by (simp add: findAvailableAccounts_attempt_def bnd_def start_def lift_def ret_def Let_def
      attempt_events_def split: sum.splits)

lemma allocation_run_attempt:
  "allocation_run w (Suc n) (attempt_events w mint [r1, r2, r3, r4] @ rest) res =
     (case promise_all [r1, r2, r3, r4] of
        Inl e \<Rightarrow> rest = [] \<and> res = Inl e
      | Inr infos \<Rightarrow>
          if list_all (\<lambda>i. i = None) infos
          then rest = [] \<and> res = Inr (derive_accounts w mint)
          else allocation_run w n rest res)"
  by (simp add: attempt_events_def split: sum.splits)

lemma findAvailableAccounts_loop_run:
  "findAvailableAccounts_loop w a tr = (res, tr') \<Longrightarrow> a \<le> maxAttempts \<Longrightarrow>
   \<exists>new. tr' = tr @ new \<and> allocation_run w (maxAttempts - a) new res"
proof (induction w a tr arbitrary: res tr' rule: findAvailableAccounts_loop.induct)
  case (1 w a tr)
  show ?case
  proof (cases "a < maxAttempts")
    case False
    with "1.prems" show ?thesis
      by (simp add: findAvailableAccounts_loop.simps [of w a] allocation_error_def)
  next
    case True
    then obtain n where n: "maxAttempts - a = Suc n" "maxAttempts - (a + 1) = n"
      by (cases "maxAttempts - a") auto
    obtain mint r1 r2 r3 r4 where att:
      "findAvailableAccounts_attempt w tr =
       (case promise_all [r1, r2, r3, r4] of
          Inl e \<Rightarrow> Inl e
        | Inr infos \<Rightarrow> Inr (if list_all (\<lambda>i. i = None) infos
                            then Some (derive_accounts w mint) else None),
        tr @ attempt_events w mint [r1, r2, r3, r4])"
      using findAvailableAccounts_attempt_events [of w tr] by blast
    define evs where "evs = attempt_events w mint [r1, r2, r3, r4]"
    show ?thesis
    proof (cases "promise_all [r1, r2, r3, r4]")
      case (Inl e)
      with att True "1.prems"(1) have "res = Inl e" "tr' = tr @ evs"
        by (simp_all add: findAvailableAccounts_loop.simps [of w a] evs_def)
      moreover have "allocation_run w (Suc n) (evs @ []) res"
        unfolding evs_def allocation_run_attempt using Inl \<open>res = Inl e\<close> by simp
      ultimately show ?thesis using n(1) by auto
    next
      case (Inr infos)
      show ?thesis
      proof (cases "list_all (\<lambda>i. i = None) infos")
        case free: True
        with att True "1.prems"(1) Inr have "res = Inr (derive_accounts w mint)" "tr' = tr @ evs"
          by (simp_all add: findAvailableAccounts_loop.simps [of w a] evs_def)
        moreover have "allocation_run w (Suc n) (evs @ []) res"
          unfolding evs_def allocation_run_attempt
          using Inr free \<open>res = Inr (derive_accounts w mint)\<close> by simp
        ultimately show ?thesis using n(1) by auto
      next
        case occupied: False
        with att True "1.prems"(1) Inr
        have step: "findAvailableAccounts_attempt w tr = (Inr None, tr @ evs)"
          and rest: "findAvailableAccounts_loop w (a + 1) (tr @ evs) = (res, tr')"
          by (simp_all add: findAvailableAccounts_loop.simps [of w a] evs_def)
        from "1.IH" [OF True step [symmetric] refl refl rest] True
        obtain new where new: "tr' = (tr @ evs) @ new" "allocation_run w n new res"
          using n(2) by auto
        have "allocation_run w (Suc n) (evs @ new) res"
          unfolding evs_def allocation_run_attempt using Inr occupied new(2) by simp
        with new(1) n(1) show ?thesis by auto
      qed
    qed
  qed
qed

text \<open>A run that is not empty starts with an attempt.\<close>

lemma allocation_run_cases:
  assumes "allocation_run w n evs res" and "evs \<noteq> []"
  obtains m mint r1 r2 r3 r4 rest where "n = Suc m"
    and "evs = attempt_events w mint [r1, r2, r3, r4] @ rest"
    and "case promise_all [r1, r2, r3, r4] of
           Inl e \<Rightarrow> rest = [] \<and> res = Inl e
         | Inr infos \<Rightarrow>
             if list_all (\<lambda>i. i = None) infos
             then rest = [] \<and> res = Inr (derive_accounts w mint)
             else allocation_run w m rest res"
proof -
  from assms(2) obtain e evs' where evs: "evs = e # evs'" by (cases evs) auto
  with assms(1) obtain mint where e: "e = KeypairGenerate mint" by (cases e) auto
  from assms(1) obtain m r1 r2 r3 r4 where n: "n = Suc m"
    and blk: "take 5 (KeypairGenerate mint # evs') = attempt_events w mint [r1, r2, r3, r4]"
    and run: "case promise_all [r1, r2, r3, r4] of
           Inl e \<Rightarrow> drop 4 evs' = [] \<and> res = Inl e
         | Inr infos \<Rightarrow>
             if list_all (\<lambda>i. i = None) infos
             then drop 4 evs' = [] \<and> res = Inr (derive_accounts w mint)
             else allocation_run w m (drop 4 evs') res"
    unfolding evs e by (auto split: nat.splits list.splits)
  from blk have "take 4 evs' = tl (attempt_events w mint [r1, r2, r3, r4])"
    by (simp add: attempt_events_def)
  then have "evs = attempt_events w mint [r1, r2, r3, r4] @ drop 4 evs'"
    using append_take_drop_id [of 4 evs'] by (simp add: evs e attempt_events_def)
  from that [OF n this run] show thesis .
qed

lemma promise_all_rejected: "promise_all rs = Inl e \<Longrightarrow> \<exists>r \<in> set rs. isl r"
  by (induction rs rule: promise_all.induct) (auto simp: bindS_def split: sum.splits)

lemma allocation_run_counts:
  "allocation_run w n evs res \<Longrightarrow>
   length (filter is_KeypairGenerate evs) \<le> n \<and>
   length evs = 5 * length (filter is_KeypairGenerate evs) \<and>
   (isl res \<and> \<not> list_ex is_rejected_query evs \<longrightarrow>
      res = Inl allocation_error \<and> length (filter is_KeypairGenerate evs) = n)"
proof (induction n arbitrary: evs)
  case 0
  then have "evs = []" by (cases "evs = []") (auto elim: allocation_run_cases)
  with 0 show ?case by simp
next
  case (Suc n)
  show ?case
  proof (cases "evs = []")
    case True
    with Suc.prems show ?thesis by simp
  next
    case False
    from Suc.prems False obtain m mint r1 r2 r3 r4 rest where
      m: "Suc n = Suc m"
      and evs: "evs = attempt_events w mint [r1, r2, r3, r4] @ rest"
      and run: "case promise_all [r1, r2, r3, r4] of
           Inl e \<Rightarrow> rest = [] \<and> res = Inl e
         | Inr infos \<Rightarrow>
             if list_all (\<lambda>i. i = None) infos
             then rest = [] \<and> res = Inr (derive_accounts w mint)
             else allocation_run w m rest res"
      by (rule allocation_run_cases)
    show ?thesis
    proof (cases "promise_all [r1, r2, r3, r4]")
      case (Inl e)
      from promise_all_rejected [OF this] have "list_ex is_rejected_query evs"
        by (auto simp: evs attempt_events_def isl_def)
      with Inl run show ?thesis by (simp add: evs attempt_events_def)
    next
      case (Inr infos)
      show ?thesis
      proof (cases "list_all (\<lambda>i. i = None) infos")
        case True
        with Inr run show ?thesis by (simp add: evs attempt_events_def)
      next
        case False
        with Inr run m have "allocation_run w n rest res" by simp
        from Suc.IH [OF this] show ?thesis by (auto simp: evs attempt_events_def)
      qed
    qed
  qed
qed

section \<open>Running the programs in the concrete worlds\<close>

lemma world_ok_sel:
  "generate world_ok = (\<lambda>tr. Keypair (PublicKey ''mint'') (replicate 64 2))"
  "getAccountInfo world_ok = (\<lambda>tr k. if k = PublicKey ''config'' then Inr (Some [9]) else Inr None)"
  "uploadToFilebase world_ok = (\<lambda>tr f c. Inr (utf16 ''https://ipfs/x''))"
  "getLatestBlockhash world_ok = (\<lambda>tr. Inr \<lparr>blockhash = ''hash-1'', lastValidBlockHeight = 100\<rparr>)"
  "simulateTransaction world_ok = (\<lambda>tr t. Inr \<lparr>sim_err = None, sim_logs = []\<rparr>)"
  "heliusPost world_ok = (\<lambda>tr t. Inr \<lparr>json_result = Some (signature_of t), json_error = None\<rparr>)"
  "sendRawTransaction world_ok = (\<lambda>tr t. Inr (signature_of t))"
  "confirmTransaction world_ok = (\<lambda>tr s b. Inr \<lparr>conf_slot = 7, conf_err = None\<rparr>)"
  "pumpfunTokensCreate world_ok = (\<lambda>tr row. Inr ())"
  "pumpfunTokensUpdate world_ok = (\<lambda>tr m s. Inr ())"
  "launchlabTokensCreate world_ok = (\<lambda>tr row. Inr ())"
  "launchlabTokensUpdate world_ok = (\<lambda>tr m s. Inr ())"
  "initSdk world_ok = (\<lambda>tr. Inr ())"
  "getTokenInfo world_ok = (\<lambda>tr m. Inr 9)"
  "createLaunchpad world_ok = (\<lambda>tr p. Inr [[launch_instruction p]])"
  "bs58_decode world_ok = (\<lambda>s. Inr (replicate 64 1))"
  "fromSecretKey world_ok = (\<lambda>b. Inr (Keypair (PublicKey ''creator'') b))"
  "parsePublicKey world_ok = (\<lambda>s. Inr (PublicKey ''platform''))"
  "toBuffer world_ok = (\<lambda>k. replicate 32 7)"
  "findProgramAddress world_ok = (\<lambda>seeds p. PublicKey ''pda'')"
  "decodeLaunchpadConfig world_ok = (\<lambda>b. Inr (PublicKey ''mintB''))"
  "LAUNCHPAD_PROGRAM world_ok = PublicKey ''launchpad''"
  "NATIVE_MINT world_ok = PublicKey ''wsol''"
  "getPdaLaunchpadConfigId world_ok = (\<lambda>p m a b. PublicKey ''config'')"
  "getPdaLaunchpadPoolId world_ok = (\<lambda>p a b. PublicKey ''pool'')"
  "getPdaLaunchpadVaultId world_ok = (\<lambda>p pool m. PublicKey ''vault'')"
  by (simp_all add: world_ok_def offline_def)

lemmas world_defs = world_sim_fails_def world_confirm_err_def relay_answers_def relay_timeout_def relay_network_error_def relay_rpc_error_def
  relay_no_result_def

lemmas tx_defs = sign_def signed_def serialize_def unknown_signers_def legacy_signer_keys_def
  signer_keys_def named_keys_def distinct_keys_def marked_signer_def marked_writable_def
  message_of_def meta_def VersionedTransaction_def signature_of_def

lemmas prog_defs = try_catch_def bnd_def lift_def ret_def throw_def call_def start_def bindS_def
  Let_def

lemmas pump_defs = createPumpFunToken_def validateRequest_def getCreatorKeypair_def
  findAvailableAccounts_def findAvailableAccounts_loop.simps findAvailableAccounts_attempt_def
  maxAttempts_def derive_accounts_def uploadMetadata_def createPumpFunInstruction_def
  instruction_data_def submit_def sendWithHelius_def after_post_def confirm_or_throw_def
  standard_rpc_def no_result_def result_or_empty_def truthy_str_def uri_or_empty_def
  mayhem_or_false_def discriminator_def le32_def utf8_unit_def is_high_surrogate_def
  is_low_surrogate_def replicate_numeral Buffer_alloc_def writeUInt8_def writeUInt32LE_def
  buf_write_def overwrite_def hex_chars_def utf16_def failure_def req_test_def

lemmas launchlab_defs = createBonkTokenTx_def check_required_and_lengths_def
  check_urls_decimals_migrate_def createBonkFunTokenMetadata_def uploadImageToFilebase_def
  str_or_def submit_launchlab_def sendWithHelius_launchlab_def direct_rpc_launchlab_def
  storeTokenData_launchlab_def or_null_def wrap_store_error_def after_post_def no_result_def
  result_or_empty_def truthy_str_def uri_or_empty_def utf16_def lp_test_def new_BN_def
  launch_instruction_def creator_kp_def mint_kp_def BONK_PLATFROM_ID_def
  STANDARD_INITIAL_SUPPLY_def

lemmas launchlab_run = launchlab_defs VersionedTransaction_def signer_keys_def named_keys_def
  distinct_keys_def marked_signer_def marked_writable_def meta_def message_of_def
  signature_of_def

text \<open>Signing and serializing the transaction of the creation instruction.\<close>

lemmas key_defs = signer_keys_def named_keys_def distinct_keys_def marked_signer_def
  marked_writable_def meta_def pump_keys_def programId_def systemProgramId_def
  tokenProgramId_def associatedTokenProgramId_def mayhemProgramId_def unknown_signers_def
  legacy_signer_keys_def

lemma pump_instruction:
  "findProgramAddress w = (\<lambda>seeds p. PublicKey ''pda'') \<Longrightarrow> toBuffer w = (\<lambda>k. replicate 32 7) \<Longrightarrow>
   createPumpFunInstruction w (PublicKey ''mint'') (Keypair (PublicKey ''creator'') sk) req =
     bindS (instruction_data (replicate 32 7) req)
       (\<lambda>data. Inr \<lparr>ix_programId = programId, ix_keys = pump_keys, ix_data = data\<rparr>)"
  by (simp add: createPumpFunInstruction_def pump_keys_def Let_def)

lemma sign_pump:
  "sign (pump_tx b d) [Keypair (PublicKey ''mint'') sk1, Keypair (PublicKey ''creator'') sk2] =
     (Inr (), pump_signed b d)"
  "sign (pump_signed b d) [Keypair (PublicKey ''mint'') sk1, Keypair (PublicKey ''creator'') sk2] =
     (Inr (), pump_signed b d)"
  by (simp_all add: sign_def pump_tx_def pump_signed_def key_defs message_of_def Let_def)

lemma serialize_pump: "serialize (pump_signed b d) = Inr (pump_signed b d)"
  by (simp add: serialize_def pump_tx_def pump_signed_def key_defs message_of_def Let_def)

lemma pump_tx_fold:
  "\<lparr>tx_instructions = [\<lparr>ix_programId = programId, ix_keys = pump_keys, ix_data = d\<rparr>],
    tx_feePayer = PublicKey ''creator'', tx_recentBlockhash = b, tx_signatures = []\<rparr> = pump_tx b d"
  by (simp add: pump_tx_def)

lemma signature_of_pump [simp]: "signature_of (pump_signed b d) = ''sig-'' @ b"
  by (simp add: signature_of_def pump_signed_def pump_tx_def)

lemmas pump_run = createPumpFunToken_def validateRequest_def getCreatorKeypair_def
  findAvailableAccounts_def findAvailableAccounts_loop.simps findAvailableAccounts_attempt_def
  maxAttempts_def derive_accounts_def uploadMetadata_def pump_instruction
  instruction_data_def submit_def sendWithHelius_def after_post_def confirm_or_throw_def
  standard_rpc_def no_result_def result_or_empty_def truthy_str_def uri_or_empty_def
  mayhem_or_false_def discriminator_def le32_def utf8_unit_def is_high_surrogate_def
  is_low_surrogate_def replicate_numeral Buffer_alloc_def writeUInt8_def writeUInt32LE_def
  buf_write_def overwrite_def hex_chars_def utf16_def failure_def req_test_def
  signed_def pump_tx_fold sign_pump serialize_pump

text \<open>Signing and serializing the small transaction.\<close>

lemma tx_one_eq:
  "tx_one = tx_unsigned\<lparr>tx_signatures :=
      [(PublicKey ''creator'', Some (Signature (PublicKey ''creator'') (message_of tx_unsigned))),
       (PublicKey ''mint'', Some (Signature (PublicKey ''mint'') (message_of tx_unsigned)))]\<rparr>"
  by (simp add: tx_one_def tx_unsigned_def ix_one_def mint_kp_def creator_kp_def tx_defs Let_def)

lemma resigned_eq:
  "resigned b = tx_unsigned\<lparr>tx_recentBlockhash := b, tx_signatures :=
      [(PublicKey ''creator'', Some (Signature (PublicKey ''creator'')
          (message_of (tx_unsigned\<lparr>tx_recentBlockhash := b\<rparr>)))),
       (PublicKey ''mint'', Some (Signature (PublicKey ''mint'')
          (message_of (tx_unsigned\<lparr>tx_recentBlockhash := b\<rparr>))))]\<rparr>"
  by (simp add: resigned_def tx_unsigned_def ix_one_def mint_kp_def creator_kp_def tx_defs Let_def)

lemma serialize_tx_one: "serialize tx_one = Inr tx_one"
  by (simp add: tx_one_eq tx_unsigned_def ix_one_def tx_defs Let_def)

lemma serialize_resigned: "serialize (resigned b) = Inr (resigned b)"
  by (simp add: resigned_eq tx_unsigned_def ix_one_def tx_defs Let_def)

lemma serialize_tx_unsigned: "serialize tx_unsigned = Inl (Error ''Signature verification failed.'')"
  by (simp add: tx_unsigned_def ix_one_def tx_defs Let_def)

lemma sign_again:
  "sign (tx_one\<lparr>tx_recentBlockhash := b\<rparr>) [mint_kp, creator_kp] = (Inr (), resigned b)"
  "sign (resigned b'\<lparr>tx_recentBlockhash := b\<rparr>) [mint_kp, creator_kp] = (Inr (), resigned b)"
  "sign (tx_unsigned\<lparr>tx_recentBlockhash := b\<rparr>) [mint_kp, creator_kp] = (Inr (), resigned b)"
  by (simp_all add: tx_one_eq resigned_eq tx_unsigned_def ix_one_def mint_kp_def creator_kp_def
      tx_defs Let_def)

lemma signature_of_tx_one [simp]: "signature_of tx_one = ''sig-hash-1''"
  by (simp add: signature_of_def tx_one_eq tx_unsigned_def)

lemma sign_tx_one: "sign tx_one [mint_kp, creator_kp] = (Inr (), tx_one)"
  using sign_again(1) [of "''hash-1''"]
  by (simp add: tx_one_eq resigned_eq tx_unsigned_def)

lemma standard_rpc_ok:
  "standard_rpc (relay_answers r world_ok) tx_one tr =
     (Inr ''sig-hash-1'',
      tr @ [SendRawTransaction tx_one (Inr ''sig-hash-1''),
            GetLatestBlockhash (Inr \<lparr>blockhash = ''hash-1'', lastValidBlockHeight = 100\<rparr>),
            ConfirmTransaction ''sig-hash-1''
              (Some \<lparr>blockhash = ''hash-1'', lastValidBlockHeight = 100\<rparr>)
              (Inr \<lparr>conf_slot = 7, conf_err = None\<rparr>)])"
  by (simp add: standard_rpc_def confirm_or_throw_def prog_defs relay_answers_def world_ok_sel
      serialize_tx_one)

lemma direct_rpc_launchlab_ok:
  "direct_rpc_launchlab (relay_answers r world_ok) tx_one tr =
     (Inr ''sig-hash-1'',
      tr @ [SendRawTransaction tx_one (Inr ''sig-hash-1''),
            ConfirmTransaction ''sig-hash-1'' None (Inr \<lparr>conf_slot = 7, conf_err = None\<rparr>)])"
  by (simp add: direct_rpc_launchlab_def prog_defs relay_answers_def world_ok_sel)

section \<open>C10: the instruction data of \<open>createPumpFunInstruction\<close>\<close>

text \<open>
  C10 fails for a name outside ASCII.  The buffer is sized, and the offsets are advanced,
  by the number of UTF-16 code units, while the texts are written in UTF-8.  For the
  name U+00E9 (one code unit, two bytes in UTF-8), the symbol \<open>A\<close> and the URI \<open>u\<close> the
  buffer has 56 bytes: the length field of the name says 1, the first byte of the name
  follows, and its second byte is overwritten by the length field of the symbol.  The
  described layout has 57 bytes.
\<close>

theorem createPumpFunInstruction_overwrites_name_outside_ascii:
  "map_sum id ix_data (createPumpFunInstruction offline (publicKey mint_kp) creator_kp req_accent) =
     Inr [214, 144, 76, 236, 95, 139, 49, 180, 1, 0, 0, 0, 195, 1, 0, 0, 0, 65,
          1, 0, 0, 0, 117, 7, 7, 7, 7, 7, 7, 7, 7, 7, 7, 7, 7, 7, 7, 7, 7, 7, 7, 7,
          7, 7, 7, 7, 7, 7, 7, 7, 7, 7, 7, 7, 7, 1]
   \<and> create_layout (toBuffer offline (publicKey creator_kp)) req_accent =
     [214, 144, 76, 236, 95, 139, 49, 180, 1, 0, 0, 0, 195, 169, 1, 0, 0, 0, 65,
      1, 0, 0, 0, 117, 7, 7, 7, 7, 7, 7, 7, 7, 7, 7, 7, 7, 7, 7, 7, 7, 7, 7, 7,
      7, 7, 7, 7, 7, 7, 7, 7, 7, 7, 7, 7, 7, 1]
   \<and> map_sum id ix_data (createPumpFunInstruction offline (publicKey mint_kp) creator_kp req_accent)
     \<noteq> Inr (create_layout (toBuffer offline (publicKey creator_kp)) req_accent)"
  by (simp add: createPumpFunInstruction_def instruction_data_def create_layout_def
      req_accent_def req_test_def offline_def creator_kp_def discriminator_def le32_def
      utf16_def utf8_unit_def uri_or_empty_def is_high_surrogate_def is_low_surrogate_def
      replicate_numeral Buffer_alloc_def bindS_def writeUInt8_def writeUInt32LE_def
      buf_write_def overwrite_def hex_chars_def mayhem_or_false_def Let_def)

section \<open>C7: oversized names and symbols are rejected before any call\<close>

text \<open>
  C7.  For every request whose name exceeds 32 characters or whose symbol exceeds 8
  characters, the operation fails with a validation error and no call is made: the
  sequence of events is unchanged.  This holds for \<open>createPumpFunToken\<close> (which reports
  the failure as its result), for the route in front of it (which answers 400), and for
  \<open>createBonkTokenTx\<close> (which throws).
\<close>

theorem oversized_name_or_symbol_fails_before_any_call:
  "(32 < length (name req) \<or> 8 < length (symbol req) \<longrightarrow>
      (\<exists>msg \<in> {''Missing required fields: name, symbol, creatorKeypair, and either uri or image file'',
                 ''Name must be 32 characters or less'', ''Symbol must be 8 characters or less''}.
         createPumpFunToken w req tr = (Inr (failure msg), tr)) \<and>
      (\<exists>msg \<in> {''Missing required fields: name, symbol, creatorKeypair, and either uri or image file'',
                 ''Name must be 32 characters or less'', ''Symbol must be 8 characters or less''}.
         create_token_route w req upload tr = (Inr (Status400 msg), tr)))
   \<and> (32 < length (lp_name td) \<or> 8 < length (lp_symbol td) \<longrightarrow>
      (\<exists>msg \<in> {''Missing required fields: name, symbol, and image are required'',
                 ''Name must be 32 characters or less'', ''Symbol must be 8 characters or less''}.
         createBonkTokenTx w mainKp mintKp td tr = (Inl (Error msg), tr)))"
proof (intro conjI impI)
  assume long: "32 < length (name req) \<or> 8 < length (symbol req)"
  from validateRequest_too_long [OF long]
  show "\<exists>msg \<in> {''Missing required fields: name, symbol, creatorKeypair, and either uri or image file'',
                 ''Name must be 32 characters or less'', ''Symbol must be 8 characters or less''}.
         createPumpFunToken w req tr = (Inr (failure msg), tr)"
    by (auto simp: createPumpFunToken_invalid)
  from handler_checks_too_long [OF long, of upload]
  show "\<exists>msg \<in> {''Missing required fields: name, symbol, creatorKeypair, and either uri or image file'',
                 ''Name must be 32 characters or less'', ''Symbol must be 8 characters or less''}.
         create_token_route w req upload tr = (Inr (Status400 msg), tr)"
    by (auto simp: create_token_route_invalid)
next
  assume "32 < length (lp_name td) \<or> 8 < length (lp_symbol td)"
  from check_too_long [OF this]
  show "\<exists>msg \<in> {''Missing required fields: name, symbol, and image are required'',
                 ''Name must be 32 characters or less'', ''Symbol must be 8 characters or less''}.
         createBonkTokenTx w mainKp mintKp td tr = (Inl (Error msg), tr)"
    by (auto simp: createBonkTokenTx_invalid)
qed

text \<open>The theorem at a name of 36 characters and at a symbol of 10 characters, in the offline world.\<close>

theorem oversized_name_or_symbol_fails_before_any_call_witness:
  "32 < length (name req_long)
   \<and> createPumpFunToken offline req_long [] =
       (Inr (failure ''Name must be 32 characters or less''), [])
   \<and> create_token_route offline req_long None [] =
       (Inr (Status400 ''Name must be 32 characters or less''), [])
   \<and> 8 < length (lp_symbol lp_long)
   \<and> createBonkTokenTx offline creator_kp mint_kp lp_long [] =
       (Inl (Error ''Symbol must be 8 characters or less''), [])"
proof -
  have n: "32 < length (name req_long)"
    by (simp add: req_long_def req_test_def utf16_def)
  have s: "8 < length (lp_symbol lp_long)"
    by (simp add: lp_long_def lp_test_def utf16_def)
  have v: "validateRequest req_long = Inl (Error ''Name must be 32 characters or less'')"
    by (simp add: validateRequest_def req_long_def req_test_def utf16_def truthy_str_def)
  have h: "handler_checks (handler_tokenData req_long None) =
      Some ''Name must be 32 characters or less''"
    by (simp add: handler_checks_def handler_tokenData_def req_long_def req_test_def utf16_def
        truthy_str_def)
  have c: "check_required_and_lengths lp_long = Inl (Error ''Symbol must be 8 characters or less'')"
    by (simp add: check_required_and_lengths_def lp_long_def lp_test_def utf16_def)
  from oversized_name_or_symbol_fails_before_any_call
    [where req = req_long and td = lp_long and w = offline and tr = "[]" and upload = None
       and mainKp = creator_kp and mintKp = mint_kp] n s
  obtain m1 m2 m3 where
    m1: "createPumpFunToken offline req_long [] = (Inr (failure m1), [])" and
    m2: "create_token_route offline req_long None [] = (Inr (Status400 m2), [])" and
    m3: "createBonkTokenTx offline creator_kp mint_kp lp_long [] = (Inl (Error m3), [])"
    by blast
  from m1 v have "m1 = ''Name must be 32 characters or less''"
    by (simp add: createPumpFunToken_invalid failure_def)
  moreover from m2 h have "m2 = ''Name must be 32 characters or less''"
    by (simp add: create_token_route_invalid)
  moreover from m3 c have "m3 = ''Symbol must be 8 characters or less''"
    by (simp add: createBonkTokenTx_invalid)
  ultimately show ?thesis using n s m1 m2 m3 by simp
qed

section \<open>C9: \<open>createPumpFunToken\<close> never throws\<close>

text \<open>
  C9.  For every input and every behaviour of the outside world, \<open>createPumpFunToken\<close>
  returns a value and throws nothing.  Whatever stage fails (the validation, the decoding
  of the creator's key, the allocation of the accounts, the upload, the fetch of the
  blockhash, the building or signing of the transaction, the simulation, the submission),
  the result has \<open>success = false\<close> and carries the message of that failure, and the
  events are those up to the failure.  When every stage succeeds the result has
  \<open>success = true\<close> and carries the signature that the submission returned.  A
  confirmation of the direct broadcast that carries an execution error makes the
  submission fail with that error, and a submission only fails as its direct broadcast
  does.
\<close>

theorem createPumpFunToken_never_throws:
  "(validateRequest req = Inl e \<longrightarrow>
     createPumpFunToken w req tr =
       (Inr (failure (message_or_unknown e)), tr))
   \<and> (validateRequest req = Inr () \<longrightarrow>
     (getCreatorKeypair w (creatorKeypair req) = Inl e \<longrightarrow>
      createPumpFunToken w req tr =
        (Inr (failure (message_or_unknown e)), tr))
    \<and> (getCreatorKeypair w (creatorKeypair req) = Inr creatorKp \<longrightarrow>
      (findAvailableAccounts w tr = (Inl e, tr1) \<longrightarrow>
       createPumpFunToken w req tr =
         (Inr (failure (message_or_unknown e)), tr1))
     \<and> (findAvailableAccounts w tr = (Inr acc, tr1) \<longrightarrow>
       (uploadMetadata w req tr1 = (Inl e, tr2) \<longrightarrow>
        createPumpFunToken w req tr =
          (Inr (failure (message_or_unknown e)), tr2))
      \<and> (uploadMetadata w req tr1 = (Inr (uri', imageUrl), tr2) \<longrightarrow>
        (getLatestBlockhash w tr2 = Inl e \<longrightarrow>
         createPumpFunToken w req tr =
           (Inr (failure (message_or_unknown e)), tr2 @ [GetLatestBlockhash (Inl e)]))
       \<and> (getLatestBlockhash w tr2 = Inr latest \<longrightarrow>
         (createPumpFunInstruction w (publicKey (tokenMint acc)) creatorKp
           (req\<lparr>uri := Some uri'\<rparr>) = Inl e \<longrightarrow>
          createPumpFunToken w req tr =
            (Inr (failure (message_or_unknown e)), tr2 @ [GetLatestBlockhash (Inr latest)]))
        \<and> (createPumpFunInstruction w (publicKey (tokenMint acc)) creatorKp
           (req\<lparr>uri := Some uri'\<rparr>) = Inr ix \<longrightarrow>
          (signed \<lparr>tx_instructions = [ix], tx_feePayer = publicKey creatorKp,
                   tx_recentBlockhash = blockhash latest, tx_signatures = []\<rparr>
            [tokenMint acc, creatorKp] = Inl e \<longrightarrow>
           createPumpFunToken w req tr =
             (Inr (failure (message_or_unknown e)), tr2 @ [GetLatestBlockhash (Inr latest)]))
         \<and> (signed \<lparr>tx_instructions = [ix], tx_feePayer = publicKey creatorKp,
                   tx_recentBlockhash = blockhash latest, tx_signatures = []\<rparr>
            [tokenMint acc, creatorKp] = Inr tx \<longrightarrow>
           (simulateTransaction w (tr2 @ [GetLatestBlockhash (Inr latest)]) tx = Inl e \<longrightarrow>
            createPumpFunToken w req tr =
              (Inr (failure (message_or_unknown e)),
               tr2 @ [GetLatestBlockhash (Inr latest), SimulateTransaction tx (Inl e)]))
          \<and> (simulateTransaction w (tr2 @ [GetLatestBlockhash (Inr latest)]) tx = Inr sim \<longrightarrow>
            (sim_err sim = Some err \<longrightarrow>
             createPumpFunToken w req tr =
               (Inr (failure (''Transaction simulation failed: '' @ err)),
                tr2 @ [GetLatestBlockhash (Inr latest), SimulateTransaction tx (Inr sim)]))
           \<and> (sim_err sim = None \<longrightarrow>
             (submit w tx [tokenMint acc, creatorKp]
               (tr2 @ [GetLatestBlockhash (Inr latest), SimulateTransaction tx (Inr sim)]) =
                 (Inl e, tr3) \<longrightarrow>
              createPumpFunToken w req tr =
                (Inr (failure (message_or_unknown e)), tr3))
            \<and> (submit w tx [tokenMint acc, creatorKp]
               (tr2 @ [GetLatestBlockhash (Inr latest), SimulateTransaction tx (Inr sim)]) =
                 (Inr signature, tr3) \<longrightarrow>
              createPumpFunToken w req tr =
                 (Inr \<lparr>success = True, res_signature = Some signature,
                        res_mintAddress = Some (toBase58 (publicKey (tokenMint acc))),
                        res_message = Some ''Token created and bought successfully'',
                        res_error = None\<rparr>, tr3)))))))))))
   \<and> (serialize tx = Inr wire \<and> sendRawTransaction w tr wire = Inr signature \<and>
       getLatestBlockhash w (tr @ [SendRawTransaction wire (Inr signature)]) = Inr latest \<and>
       confirmTransaction w
         (tr @ [SendRawTransaction wire (Inr signature), GetLatestBlockhash (Inr latest)])
         signature (Some latest) = Inr c \<and>
       conf_err c = Some err \<longrightarrow>
         standard_rpc w tx tr =
           (Inl (Error (''Transaction failed: '' @ err)),
            tr @ [SendRawTransaction wire (Inr signature), GetLatestBlockhash (Inr latest),
                  ConfirmTransaction signature (Some latest) (Inr c)]))
   \<and> (submit w tx signers tr = (Inl e, tr1) \<longrightarrow>
        (\<exists>tr0. standard_rpc w (snd (sign tx signers)) tr0 = (Inl e, tr1)))"
proof -
  have direct: "submit w tx signers tr = (Inl e, tr1) \<longrightarrow>
      (\<exists>tr0. standard_rpc w (snd (sign tx signers)) tr0 = (Inl e, tr1))"
    by (auto simp: submit_def try_catch_def split: prod.splits sum.splits)
  show ?thesis
    by (intro conjI direct)
      (simp_all add: createPumpFunToken_def standard_rpc_def confirm_or_throw_def try_catch_def
        bnd_def lift_def ret_def throw_def call_def failure_def Let_def)
qed

text \<open>
  The theorem at an oversized name, in a world without network (the allocation fails), in
  a world whose simulation reports an error, in a world whose confirmations carry an
  error, and in a world where everything succeeds.
\<close>

theorem createPumpFunToken_never_throws_witness:
  "validateRequest req_long = Inl (Error ''Name must be 32 characters or less'')
   \<and> createPumpFunToken offline req_long [] =
       (Inr (failure ''Name must be 32 characters or less''), [])
   \<and> (\<exists>evs. findAvailableAccounts offline [] = (Inl (Error ''offline''), evs) \<and>
         createPumpFunToken offline req_test [] = (Inr (failure ''offline''), evs))
   \<and> (\<exists>evs. createPumpFunToken world_sim_fails req_test [] =
         (Inr (failure (''Transaction simulation failed: '' @ instruction_error)), evs))
   \<and> (\<exists>evs. createPumpFunToken world_confirm_err req_test [] =
         (Inr (failure (''Transaction failed: '' @ instruction_error)), evs))
   \<and> (\<exists>evs. createPumpFunToken world_ok req_test [] =
         (Inr \<lparr>success = True, res_signature = Some ''sig-hash-1'', res_mintAddress = Some ''mint'',
                res_message = Some ''Token created and bought successfully'', res_error = None\<rparr>,
          evs))"
proof -
  have v: "validateRequest req_long = Inl (Error ''Name must be 32 characters or less'')"
    "validateRequest req_test = Inr ()"
    by (simp_all add: validateRequest_def req_long_def req_test_def truthy_str_def
        uri_or_empty_def utf16_def)
  have k: "getCreatorKeypair offline (creatorKeypair req_test) = Inr creator_kp"
    by (simp add: getCreatorKeypair_def offline_def bindS_def creator_kp_def)
  have a: "\<exists>evs. findAvailableAccounts offline [] = (Inl (Error ''offline''), evs)"
    by (simp add: prog_defs findAvailableAccounts_def findAvailableAccounts_loop.simps
        findAvailableAccounts_attempt_def maxAttempts_def offline_def)
  then obtain evs where evs: "findAvailableAccounts offline [] = (Inl (Error ''offline''), evs)"
    by blast
  have runs:
    "\<exists>evs. createPumpFunToken world_sim_fails req_test [] =
         (Inr (failure (''Transaction simulation failed: '' @ instruction_error)), evs)"
    "\<exists>evs. createPumpFunToken world_confirm_err req_test [] =
         (Inr (failure (''Transaction failed: '' @ instruction_error)), evs)"
    "\<exists>evs. createPumpFunToken world_ok req_test [] =
         (Inr \<lparr>success = True, res_signature = Some ''sig-hash-1'', res_mintAddress = Some ''mint'',
                res_message = Some ''Token created and bought successfully'', res_error = None\<rparr>,
          evs)"
    by (simp_all add: prog_defs pump_run world_defs world_ok_sel)
  from createPumpFunToken_never_throws
      [where req = req_long and e = "Error ''Name must be 32 characters or less''"
         and w = offline and tr = "[]"]
    createPumpFunToken_never_throws
      [where req = req_test and e = "Error ''offline''" and w = offline and tr = "[]"
         and creatorKp = creator_kp and ?tr1.0 = evs]
    v k evs runs
  show ?thesis by auto
qed

section \<open>C8: the route always passes \<open>mayhemMode = true\<close>\<close>

text \<open>
  C8.  For every request on the route, whatever the body says about \<open>mayhemMode\<close> (or if
  it says nothing), the object that the route builds from the body has \<open>mayhemMode\<close>
  \<open>true\<close>.  When the checks of the route pass, the route calls \<open>createPumpFunToken\<close> with
  exactly that object and answers from its result; when a check fails, the route answers
  400 with the message of the check and calls nothing.
\<close>

theorem create_token_route_mayhem_true:
  "mayhemMode (handler_tokenData body upload) = Some True
   \<and> (handler_checks (handler_tokenData body upload) = None \<longrightarrow>
        (\<exists>r tr'. createPumpFunToken w (handler_tokenData body upload) tr = (Inr r, tr') \<and>
           create_token_route w body upload tr =
             (Inr (if success r then Json200 r
                   else Status500 (error_or_default (res_error r))), tr')))
   \<and> (handler_checks (handler_tokenData body upload) = Some msg \<longrightarrow>
        create_token_route w body upload tr = (Inr (Status400 msg), tr))"
proof (intro conjI impI)
  show "mayhemMode (handler_tokenData body upload) = Some True"
    by (simp add: handler_tokenData_def Let_def split: option.splits)
next
  assume ok: "handler_checks (handler_tokenData body upload) = None"
  obtain r tr' where r: "createPumpFunToken w (handler_tokenData body upload) tr = (Inr r, tr')"
    using createPumpFunToken_returns [of w "handler_tokenData body upload" tr]
    by (cases "createPumpFunToken w (handler_tokenData body upload) tr") auto
  with ok have "create_token_route w body upload tr =
      (Inr (if success r then Json200 r else Status500 (error_or_default (res_error r))), tr')"
    by (simp add: create_token_route_def try_catch_def bnd_def ret_def)
  with r show "\<exists>r tr'. createPumpFunToken w (handler_tokenData body upload) tr = (Inr r, tr') \<and>
           create_token_route w body upload tr =
             (Inr (if success r then Json200 r
                   else Status500 (error_or_default (res_error r))), tr')"
    by blast
next
  assume "handler_checks (handler_tokenData body upload) = Some msg"
  then show "create_token_route w body upload tr = (Inr (Status400 msg), tr)"
    by (simp add: create_token_route_def try_catch_def ret_def)
qed

text \<open>
  The theorem for a body that says \<open>mayhemMode = false\<close> and for one that says nothing, in
  a world where everything succeeds, and for a body with an oversized name.
\<close>

theorem create_token_route_mayhem_true_witness:
  "mayhemMode (handler_tokenData (req_test\<lparr>mayhemMode := Some False\<rparr>) None) = Some True
   \<and> mayhemMode (handler_tokenData (req_test\<lparr>mayhemMode := None\<rparr>) None) = Some True
   \<and> handler_checks (handler_tokenData (req_test\<lparr>mayhemMode := Some False\<rparr>) None) = None
   \<and> (\<exists>tr'. create_token_route world_ok (req_test\<lparr>mayhemMode := Some False\<rparr>) None [] =
         (Inr (Json200
            \<lparr>success = True, res_signature = Some ''sig-hash-1'', res_mintAddress = Some ''mint'',
              res_message = Some ''Token created and bought successfully'', res_error = None\<rparr>),
          tr'))
   \<and> handler_checks (handler_tokenData req_long None) = Some ''Name must be 32 characters or less''
   \<and> create_token_route world_ok req_long None [] =
        (Inr (Status400 ''Name must be 32 characters or less''), [])"
proof -
  have td: "handler_tokenData (req_test\<lparr>mayhemMode := Some False\<rparr>) None =
      req_test\<lparr>mayhemMode := Some True\<rparr>"
    by (simp add: handler_tokenData_def Let_def)
  have ok: "handler_checks (req_test\<lparr>mayhemMode := Some True\<rparr>) = None"
    by (simp add: handler_checks_def req_test_def truthy_str_def uri_or_empty_def utf16_def)
  have run: "\<exists>tr. createPumpFunToken world_ok (req_test\<lparr>mayhemMode := Some True\<rparr>) [] =
         (Inr \<lparr>success = True, res_signature = Some ''sig-hash-1'', res_mintAddress = Some ''mint'',
                res_message = Some ''Token created and bought successfully'', res_error = None\<rparr>, tr)"
    by (simp add: prog_defs pump_run world_defs world_ok_sel)
  have long: "handler_checks (handler_tokenData req_long None) =
      Some ''Name must be 32 characters or less''"
    by (simp add: handler_checks_def handler_tokenData_def req_long_def req_test_def
        truthy_str_def uri_or_empty_def utf16_def Let_def)
  from create_token_route_mayhem_true
      [where body = "req_test\<lparr>mayhemMode := Some False\<rparr>" and upload = None and w = world_ok
         and tr = "[]" and msg = "''''"]
    create_token_route_mayhem_true
      [where body = "req_test\<lparr>mayhemMode := None\<rparr>" and upload = None and w = world_ok
         and tr = "[]" and msg = "''''"]
    create_token_route_mayhem_true
      [where body = req_long and upload = None and w = world_ok and tr = "[]"
         and msg = "''Name must be 32 characters or less''"]
    run ok long
  show ?thesis by (auto simp: td)
qed

section \<open>C4: the direct-broadcast fallback with retries\<close>

text \<open>
  C4.  Every execution of \<open>fallbackDirectSubmission\<close> returns.  It makes at most 3
  attempts and at most one submission per attempt.  The first attempt submits the
  transaction as it was handed in (when that can be serialized) or nothing; every later
  attempt begins with a fetch of the recent blockhash, and every later submission comes
  right after a fetch that succeeded and submits the transaction with that blockhash,
  signed over it by the mint and the creator.  The result is confirmed exactly when an
  attempt obtained a confirmation without execution error; otherwise 3 attempts were made
  and the result reports failure.  The direct broadcast in the \<open>catch\<close> branch of
  \<open>createPumpFunToken\<close> and of \<open>createBonkTokenTx\<close> submits at most once.
\<close>

theorem fallbackDirectSubmission_retry_policy:
  "(\<exists>new. snd (fallbackDirectSubmission w tx creatorKp latestBlockhash mint tr) = tr @ new
      \<and> retry_run [mint, creatorKp] tx new
      \<and> length (filter is_SendRaw new) \<le> attempts_made new
      \<and> attempts_made new \<le> 3
      \<and> confirmed (fst (fallbackDirectSubmission w tx creatorKp latestBlockhash mint tr)) =
          list_ex is_clean_confirmation new
      \<and> (\<not> confirmed (fst (fallbackDirectSubmission w tx creatorKp latestBlockhash mint tr)) \<longrightarrow>
           attempts_made new = 3))
   \<and> (\<exists>new. snd (standard_rpc w tx tr) = tr @ new \<and> length (filter is_SendRaw new) \<le> 1)
   \<and> (\<exists>s rest. snd (direct_rpc_launchlab w tx tr) = tr @ SendRawTransaction tx s # rest
        \<and> filter is_SendRaw rest = [])"
  using fallbackDirectSubmission_attempts
      [of w tx creatorKp latestBlockhash mint tr
          "fst (fallbackDirectSubmission w tx creatorKp latestBlockhash mint tr)"
          "snd (fallbackDirectSubmission w tx creatorKp latestBlockhash mint tr)"]
    standard_rpc_one_send [of w tx tr] direct_rpc_launchlab_one_send [of w tx tr]
  by simp

text \<open>
  The theorem in a world whose node rejects every submission, for a transaction that is
  signed and for the same transaction without signatures.  In the first run the three
  attempts submit, the second and third with a fresh blockhash; in the second run the
  first attempt fails before it submits anything.  Both results report failure.
\<close>

theorem fallbackDirectSubmission_retry_policy_witness:
  "fallbackDirectSubmission world_node_rejects tx_one creator_kp hash_one mint_kp [] =
     (\<lparr>confirmed = False, sr_signature = None, sr_error = Some ''offline''\<rparr>,
      [SendRawTransaction tx_one (Inl (Error ''offline'')),
       GetLatestBlockhash (Inr \<lparr>blockhash = ''hash-2'', lastValidBlockHeight = 100\<rparr>),
       SendRawTransaction (resigned ''hash-2'') (Inl (Error ''offline'')),
       GetLatestBlockhash (Inr \<lparr>blockhash = ''hash-3'', lastValidBlockHeight = 100\<rparr>),
       SendRawTransaction (resigned ''hash-3'') (Inl (Error ''offline''))])
   \<and> fallbackDirectSubmission world_node_rejects tx_unsigned creator_kp hash_one mint_kp [] =
     (\<lparr>confirmed = False, sr_signature = None, sr_error = Some ''offline''\<rparr>,
      [GetLatestBlockhash (Inr \<lparr>blockhash = ''hash-2'', lastValidBlockHeight = 100\<rparr>),
       SendRawTransaction (resigned ''hash-2'') (Inl (Error ''offline'')),
       GetLatestBlockhash (Inr \<lparr>blockhash = ''hash-3'', lastValidBlockHeight = 100\<rparr>),
       SendRawTransaction (resigned ''hash-3'') (Inl (Error ''offline''))])
   \<and> retry_run [mint_kp, creator_kp] tx_one
        (snd (fallbackDirectSubmission world_node_rejects tx_one creator_kp hash_one mint_kp []))
   \<and> retry_run [mint_kp, creator_kp] tx_unsigned
        (snd (fallbackDirectSubmission world_node_rejects tx_unsigned creator_kp hash_one mint_kp []))
   \<and> attempts_made
        (snd (fallbackDirectSubmission world_node_rejects tx_one creator_kp hash_one mint_kp [])) = 3
   \<and> attempts_made
        (snd (fallbackDirectSubmission world_node_rejects tx_unsigned creator_kp hash_one mint_kp []))
      = 3"
proof -
  have signed_run:
    "fallbackDirectSubmission world_node_rejects tx_one creator_kp hash_one mint_kp [] =
     (\<lparr>confirmed = False, sr_signature = None, sr_error = Some ''offline''\<rparr>,
      [SendRawTransaction tx_one (Inl (Error ''offline'')),
       GetLatestBlockhash (Inr \<lparr>blockhash = ''hash-2'', lastValidBlockHeight = 100\<rparr>),
       SendRawTransaction (resigned ''hash-2'') (Inl (Error ''offline'')),
       GetLatestBlockhash (Inr \<lparr>blockhash = ''hash-3'', lastValidBlockHeight = 100\<rparr>),
       SendRawTransaction (resigned ''hash-3'') (Inl (Error ''offline''))])"
    by (simp add: fallbackDirectSubmission_def fallback_loop.simps direct_attempt_def
        world_node_rejects_def offline_def maxRetries_def caught_def Let_def
        serialize_tx_one serialize_resigned sign_again)
  have unsigned_run:
    "fallbackDirectSubmission world_node_rejects tx_unsigned creator_kp hash_one mint_kp [] =
     (\<lparr>confirmed = False, sr_signature = None, sr_error = Some ''offline''\<rparr>,
      [GetLatestBlockhash (Inr \<lparr>blockhash = ''hash-2'', lastValidBlockHeight = 100\<rparr>),
       SendRawTransaction (resigned ''hash-2'') (Inl (Error ''offline'')),
       GetLatestBlockhash (Inr \<lparr>blockhash = ''hash-3'', lastValidBlockHeight = 100\<rparr>),
       SendRawTransaction (resigned ''hash-3'') (Inl (Error ''offline''))])"
    by (simp add: fallbackDirectSubmission_def fallback_loop.simps direct_attempt_def
        world_node_rejects_def offline_def maxRetries_def caught_def Let_def
        serialize_tx_unsigned serialize_resigned sign_again)
  from fallbackDirectSubmission_retry_policy
      [of world_node_rejects tx_one creator_kp hash_one mint_kp "[]"]
    fallbackDirectSubmission_retry_policy
      [of world_node_rejects tx_unsigned creator_kp hash_one mint_kp "[]"]
  show ?thesis
    unfolding signed_run unsigned_run by (simp add: attempts_made_def)
qed

section \<open>C5: account allocation\<close>

text \<open>
  C5.  Every execution of \<open>findAvailableAccounts\<close> returns, and the events it adds are a
  run of at most 20 attempts: each attempt generates a fresh mint keypair and queries the
  mint and its three derived addresses (all four queries are issued before any answer is
  looked at); the run ends with the accounts of the first attempt whose four addresses are
  all unoccupied, an attempt that finds an occupied address is discarded and followed by
  the next one, and after 20 such attempts the function fails with the allocation error.
  (When a query is rejected, the rejection is what the function throws.)
\<close>

theorem findAvailableAccounts_allocation:
  assumes "findAvailableAccounts w tr = (res, tr')"
  shows "\<exists>new. tr' = tr @ new
      \<and> allocation_run w 20 new res
      \<and> length (filter is_KeypairGenerate new) \<le> 20
      \<and> length new = 5 * length (filter is_KeypairGenerate new)
      \<and> (isl res \<and> \<not> list_ex is_rejected_query new \<longrightarrow>
           res = Inl allocation_error \<and> length (filter is_KeypairGenerate new) = 20)"
proof -
  from assms have "findAvailableAccounts_loop w 0 tr = (res, tr')"
    by (simp add: findAvailableAccounts_def)
  from findAvailableAccounts_loop_run [OF this]
  obtain new where new: "tr' = tr @ new" "allocation_run w 20 new res"
    by (auto simp: maxAttempts_def)
  from allocation_run_counts [OF new(2)] new show ?thesis by blast
qed

text \<open>
  The theorem in a world where the first mint is taken and the second one is free, and
  in a world where every address is occupied: there the 20 attempts are used up.
\<close>

theorem findAvailableAccounts_allocation_witness:
  "findAvailableAccounts world_second_mint_free [] =
     (Inr (derive_accounts world_second_mint_free (Keypair (PublicKey ''mint-2'') [])),
      attempt_events world_second_mint_free (Keypair (PublicKey ''mint-1'') [])
        [Inr (Some [1]), Inr None, Inr None, Inr None] @
      attempt_events world_second_mint_free (Keypair (PublicKey ''mint-2'') [])
        [Inr None, Inr None, Inr None, Inr None])
   \<and> allocation_run world_second_mint_free 20
       (attempt_events world_second_mint_free (Keypair (PublicKey ''mint-1'') [])
          [Inr (Some [1]), Inr None, Inr None, Inr None] @
        attempt_events world_second_mint_free (Keypair (PublicKey ''mint-2'') [])
          [Inr None, Inr None, Inr None, Inr None])
       (Inr (derive_accounts world_second_mint_free (Keypair (PublicKey ''mint-2'') [])))
   \<and> (\<exists>evs. findAvailableAccounts world_all_occupied [] = (Inl allocation_error, evs) \<and>
         length (filter is_KeypairGenerate evs) = 20 \<and> length evs = 100)"
proof -
  have free: "findAvailableAccounts world_second_mint_free [] =
     (Inr (derive_accounts world_second_mint_free (Keypair (PublicKey ''mint-2'') [])),
      attempt_events world_second_mint_free (Keypair (PublicKey ''mint-1'') [])
        [Inr (Some [1]), Inr None, Inr None, Inr None] @
      attempt_events world_second_mint_free (Keypair (PublicKey ''mint-2'') [])
        [Inr None, Inr None, Inr None, Inr None])"
    by (simp add: findAvailableAccounts_def findAvailableAccounts_loop.simps
        findAvailableAccounts_attempt_def maxAttempts_def bnd_def start_def lift_def ret_def
        Let_def attempt_events_def world_second_mint_free_def offline_def bindS_def)
  have "\<exists>evs. findAvailableAccounts world_all_occupied [] = (Inl allocation_error, evs) \<and>
      \<not> list_ex is_rejected_query evs"
    by (simp add: findAvailableAccounts_def findAvailableAccounts_loop.simps
        findAvailableAccounts_attempt_def maxAttempts_def bnd_def start_def lift_def ret_def
        Let_def world_all_occupied_def offline_def bindS_def allocation_error_def)
  then obtain evs where occupied:
    "findAvailableAccounts world_all_occupied [] = (Inl allocation_error, evs)"
    "\<not> list_ex is_rejected_query evs"
    by blast
  from findAvailableAccounts_allocation [OF free] findAvailableAccounts_allocation [OF occupied(1)]
    free occupied
  show ?thesis by auto
qed

section \<open>C3: a failed relay submission falls back to the direct broadcast\<close>

text \<open>
  C3.  For every relay submission, in \<open>createPumpFunToken\<close> and in \<open>createBonkTokenTx\<close>:
  when the relay fails in one of the four modes (an RPC-level error in the response, a
  missing result, a transport error, a timeout of the request), the submission continues
  with the direct broadcast: the next call after the request to the relay is
  \<open>sendRawTransaction\<close> of the same serialized transaction, and the outcome of the
  submission is the outcome of the direct path, not a failure because of the relay.
  (In \<open>createPumpFunToken\<close> the relay is reached when the transaction could be signed and
  serialized.)
\<close>

theorem relay_failure_falls_back_to_direct_broadcast:
  "(sign tx signers = (Inr (), tx') \<and> serialize tx' = Inr wire \<and>
    relay_failed_as mode (heliusPost w tr wire) \<longrightarrow>
      submit w tx signers tr =
        standard_rpc w tx' (tr @ [HeliusPost wire (heliusPost w tr wire)]) \<and>
      (\<exists>s rest. snd (submit w tx signers tr) =
         tr @ HeliusPost wire (heliusPost w tr wire) # SendRawTransaction wire s # rest))
   \<and> (relay_failed_as mode (heliusPost w tr tx) \<longrightarrow>
      submit_launchlab w tx tr =
        direct_rpc_launchlab w tx (tr @ [HeliusPost tx (heliusPost w tr tx)]) \<and>
      (\<exists>s rest. snd (submit_launchlab w tx tr) =
         tr @ HeliusPost tx (heliusPost w tr tx) # SendRawTransaction tx s # rest))"
proof (intro conjI impI)
  assume a: "sign tx signers = (Inr (), tx') \<and> serialize tx' = Inr wire \<and>
    relay_failed_as mode (heliusPost w tr wire)"
  then have s: "sign tx signers = (Inr (), tx')" and z: "serialize tx' = Inr wire"
    and f: "relay_failed_as mode (heliusPost w tr wire)"
    by simp_all
  from sendWithHelius_failed [OF s z f] s
  show eq: "submit w tx signers tr =
        standard_rpc w tx' (tr @ [HeliusPost wire (heliusPost w tr wire)])"
    by (auto simp: submit_def try_catch_def bnd_def)
  show "\<exists>s rest. snd (submit w tx signers tr) =
         tr @ HeliusPost wire (heliusPost w tr wire) # SendRawTransaction wire s # rest"
    unfolding eq
    using standard_rpc_starts_with_send [OF z, of w "tr @ [HeliusPost wire (heliusPost w tr wire)]"]
    by auto
next
  assume f: "relay_failed_as mode (heliusPost w tr tx)"
  from sendWithHelius_launchlab_failed [OF f]
  show eq: "submit_launchlab w tx tr =
        direct_rpc_launchlab w tx (tr @ [HeliusPost tx (heliusPost w tr tx)])"
    by (auto simp: submit_launchlab_def try_catch_def)
  show "\<exists>s rest. snd (submit_launchlab w tx tr) =
         tr @ HeliusPost tx (heliusPost w tr tx) # SendRawTransaction tx s # rest"
    unfolding eq
    using direct_rpc_launchlab_starts_with_send [of w tx "tr @ [HeliusPost tx (heliusPost w tr tx)]"]
    by auto
qed

text \<open>
  The theorem for each of the four failure modes, in a world where the node accepts and
  confirms the transaction: both submissions return the signature of the direct broadcast.
\<close>

theorem relay_failure_falls_back_to_direct_broadcast_witness:
  "sign tx_one [mint_kp, creator_kp] = (Inr (), tx_one) \<and> serialize tx_one = Inr tx_one \<and>
   list_all (\<lambda>(mode, r).
       relay_failed_as mode (heliusPost (relay_answers r world_ok) [] tx_one)
     \<and> submit (relay_answers r world_ok) tx_one [mint_kp, creator_kp] [] =
        (Inr ''sig-hash-1'',
         [HeliusPost tx_one r,
          SendRawTransaction tx_one (Inr ''sig-hash-1''),
          GetLatestBlockhash (Inr \<lparr>blockhash = ''hash-1'', lastValidBlockHeight = 100\<rparr>),
          ConfirmTransaction ''sig-hash-1''
            (Some \<lparr>blockhash = ''hash-1'', lastValidBlockHeight = 100\<rparr>)
            (Inr \<lparr>conf_slot = 7, conf_err = None\<rparr>)])
     \<and> submit_launchlab (relay_answers r world_ok) tx_one [] =
        (Inr ''sig-hash-1'',
         [HeliusPost tx_one r,
          SendRawTransaction tx_one (Inr ''sig-hash-1''),
          ConfirmTransaction ''sig-hash-1'' None (Inr \<lparr>conf_slot = 7, conf_err = None\<rparr>)]))
     [(Timeout, relay_timeout), (TransportError, relay_network_error),
      (RpcError, relay_rpc_error), (MissingResult, relay_no_result)]"
proof -
  have post: "\<And>r tr t. heliusPost (relay_answers r world_ok) tr t = r"
    by (simp add: relay_answers_def)
  show ?thesis
    using relay_failure_falls_back_to_direct_broadcast
      [where tx = tx_one and signers = "[mint_kp, creator_kp]" and tx' = tx_one
         and wire = tx_one and mode = Timeout and w = "relay_answers relay_timeout world_ok" and tr = "[]"]
      relay_failure_falls_back_to_direct_broadcast
      [where tx = tx_one and signers = "[mint_kp, creator_kp]" and tx' = tx_one
         and wire = tx_one and mode = TransportError and w = "relay_answers relay_network_error world_ok" and tr = "[]"]
      relay_failure_falls_back_to_direct_broadcast
      [where tx = tx_one and signers = "[mint_kp, creator_kp]" and tx' = tx_one
         and wire = tx_one and mode = RpcError and w = "relay_answers relay_rpc_error world_ok" and tr = "[]"]
      relay_failure_falls_back_to_direct_broadcast
      [where tx = tx_one and signers = "[mint_kp, creator_kp]" and tx' = tx_one
         and wire = tx_one and mode = MissingResult and w = "relay_answers relay_no_result world_ok" and tr = "[]"]
    by (simp add: post failed_modes standard_rpc_ok direct_rpc_launchlab_ok sign_tx_one
        serialize_tx_one)
qed

section \<open>C1: a failed simulation and the broadcast\<close>

text \<open>
  C1 holds in \<open>createPumpFunToken\<close> and fails in \<open>createBonkTokenTx\<close>.  In a world where
  the simulation reports an execution error and every other call succeeds,
  \<open>createBonkTokenTx\<close> goes on to send the transaction (signed by the fee payer and the
  mint) to the relay, waits for the confirmation, stores the token and returns normally:
  one broadcast is made.  In the same world \<open>createPumpFunToken\<close> reports the failed
  simulation and makes no broadcast.
\<close>

theorem createBonkTokenTx_broadcasts_after_failed_simulation:
  "(\<exists>tx tr. createBonkTokenTx world_sim_fails creator_kp mint_kp lp_test [] = (Inr tx, tr)
       \<and> map fst (tx_signatures tx) = [PublicKey ''creator'', PublicKey ''mint'']
       \<and> list_all (\<lambda>(k, s). s = Some (Signature k (message_of tx))) (tx_signatures tx)
       \<and> list_ex is_failed_simulation tr
       \<and> map call_name tr =
           [''uploadToFilebase'', ''uploadToFilebase'', ''initSdk'', ''getAccountInfo'',
            ''getTokenInfo'', ''createLaunchpad'', ''getLatestBlockhash'', ''simulateTransaction'',
            ''heliusPost'', ''confirmTransaction'', ''LaunchlabTokens.create'']
       \<and> filter is_broadcast tr =
           [HeliusPost tx (Inr \<lparr>json_result = Some ''sig-hash-1'', json_error = None\<rparr>)])
   \<and> (\<exists>tr. createPumpFunToken world_sim_fails req_test [] =
         (Inr (failure (''Transaction simulation failed: '' @ instruction_error)), tr)
       \<and> list_ex is_failed_simulation tr
       \<and> filter is_broadcast tr = [])"
  by (simp add: prog_defs launchlab_run pump_run world_defs world_ok_sel is_broadcast_def)

section \<open>C2: a confirmation that carries an execution error\<close>

text \<open>
  C2 holds in \<open>createPumpFunToken\<close> and fails in \<open>createBonkTokenTx\<close>.  In a world where
  every confirmation carries an execution error, \<open>createBonkTokenTx\<close> stores the token
  and returns normally, on the relay path and (when the request to the relay times out)
  on the direct path: neither the module's \<open>sendWithHelius\<close> nor the \<open>catch\<close> branch looks
  at the error.  In the same world \<open>createPumpFunToken\<close> reports failure: the error of
  the relay path's confirmation is thrown inside the \<open>try\<close> block, the transaction is
  broadcast once more directly, and the error of that confirmation is what is reported.
\<close>

theorem confirmed_with_error_reported_as_success:
  "(\<exists>tx tr. createBonkTokenTx world_confirm_err creator_kp mint_kp lp_test [] = (Inr tx, tr)
       \<and> list_ex is_failed_confirmation tr
       \<and> map call_name tr =
           [''uploadToFilebase'', ''uploadToFilebase'', ''initSdk'', ''getAccountInfo'',
            ''getTokenInfo'', ''createLaunchpad'', ''getLatestBlockhash'', ''simulateTransaction'',
            ''heliusPost'', ''confirmTransaction'', ''LaunchlabTokens.create''])
   \<and> (\<exists>tx tr. createBonkTokenTx (relay_answers relay_timeout world_confirm_err)
                  creator_kp mint_kp lp_test [] = (Inr tx, tr)
       \<and> list_ex is_failed_confirmation tr
       \<and> map call_name tr =
           [''uploadToFilebase'', ''uploadToFilebase'', ''initSdk'', ''getAccountInfo'',
            ''getTokenInfo'', ''createLaunchpad'', ''getLatestBlockhash'', ''simulateTransaction'',
            ''heliusPost'', ''sendRawTransaction'', ''confirmTransaction'',
            ''LaunchlabTokens.create''])
   \<and> (\<exists>tr. createPumpFunToken world_confirm_err req_test [] =
         (Inr (failure (''Transaction failed: '' @ instruction_error)), tr)
       \<and> map call_name tr =
           [''Keypair.generate'', ''getAccountInfo'', ''getAccountInfo'', ''getAccountInfo'',
            ''getAccountInfo'', ''uploadToFilebase'', ''uploadToFilebase'', ''getLatestBlockhash'',
            ''simulateTransaction'', ''heliusPost'', ''confirmTransaction'', ''getLatestBlockhash'',
            ''confirmTransaction'', ''sendRawTransaction'', ''getLatestBlockhash'',
            ''confirmTransaction''])"
  by (simp add: prog_defs launchlab_run pump_run world_defs world_ok_sel)

section \<open>C6: the token record and its signature\<close>

text \<open>
  C6 fails in \<open>createPumpFunToken\<close>.  For every request and every behaviour of the
  outside world, \<open>createPumpFunToken\<close> writes nothing to the token tables: the record is
  assembled and never stored, neither before nor after the confirmation.  In a world
  where every call succeeds it reports success with the signature of the transaction.
\<close>

theorem successful_creation_without_stored_signature:
  "(\<exists>new. snd (createPumpFunToken w req tr) = tr @ new \<and> filter is_persistence new = [])
   \<and> (\<exists>evs. createPumpFunToken world_ok req_test [] =
         (Inr \<lparr>success = True, res_signature = Some ''sig-hash-1'', res_mintAddress = Some ''mint'',
                res_message = Some ''Token created and bought successfully'', res_error = None\<rparr>,
          evs)
       \<and> map call_name evs =
           [''Keypair.generate'', ''getAccountInfo'', ''getAccountInfo'', ''getAccountInfo'',
            ''getAccountInfo'', ''uploadToFilebase'', ''uploadToFilebase'', ''getLatestBlockhash'',
            ''simulateTransaction'', ''heliusPost'', ''confirmTransaction'', ''getLatestBlockhash'',
            ''confirmTransaction''])"
proof
  from emits_createPumpFunToken [of w req] obtain new where
    "snd (createPumpFunToken w req tr) = tr @ new" "list_all (\<lambda>e. \<not> is_persistence e) new"
    by (auto simp: emits_def)
  then show "\<exists>new. snd (createPumpFunToken w req tr) = tr @ new \<and> filter is_persistence new = []"
    by (auto simp: filter_empty_conv list_all_iff)
next
  show "\<exists>evs. createPumpFunToken world_ok req_test [] =
         (Inr \<lparr>success = True, res_signature = Some ''sig-hash-1'', res_mintAddress = Some ''mint'',
                res_message = Some ''Token created and bought successfully'', res_error = None\<rparr>,
          evs)
       \<and> map call_name evs =
           [''Keypair.generate'', ''getAccountInfo'', ''getAccountInfo'', ''getAccountInfo'',
            ''getAccountInfo'', ''uploadToFilebase'', ''uploadToFilebase'', ''getLatestBlockhash'',
            ''simulateTransaction'', ''heliusPost'', ''confirmTransaction'', ''getLatestBlockhash'',
            ''confirmTransaction'']"
    by (simp add: prog_defs pump_run world_defs world_ok_sel)
qed


end
